theory Spec2Isabelle
  imports Complex_Main "HOL-Library.AList"
begin

section \<open>Errors\<close>

text \<open>
  Every exception the Python code can raise is a value.  \<open>DatabaseError\<close> and
  \<open>ParseError\<close> are the two classes the module defines; the others are Python's
  built-in exceptions, raised where the code reads past the end of a string, names an
  undefined variable, calls a constructor with too many arguments or removes a missing
  list element.  \<open>RecursionError\<close> stands for unbounded recursion and \<open>MemoryError\<close>
  for a loop that appends to a list for ever.
\<close>

datatype error =
    DatabaseError string
  | ParseError (pe_line: nat) (pe_col: nat) (pe_msg: string) (pe_args: "string list")
  | IndexError
  | KeyError
  | NameError string
  | TypeError
  | ValueError
  | RecursionError
  | MemoryError
  | Exception string

section \<open>Range\<close>

text \<open>
  Class \<open>Range\<close>: the two fields \<open>minval\<close> and \<open>maxval\<close>; nothing checks their order.
  Method \<open>within\<close> is \<open>Range_within\<close> here, the plain name being syntax of the library.
\<close>

record 'a Range =
  minval :: 'a
  maxval :: 'a

definition Range_init :: "'a \<Rightarrow> 'a \<Rightarrow> 'a Range" where
  "Range_init l1 l2 = \<lparr>minval = l1, maxval = l2\<rparr>"

definition Range_of_pair :: "'a \<times> 'a \<Rightarrow> 'a Range" where
  "Range_of_pair l1 = \<lparr>minval = fst l1, maxval = snd l1\<rparr>"

definition limits :: "'a Range \<Rightarrow> 'a \<times> 'a" where
  "limits r = (minval r, maxval r)"

definition Range_within :: "('a::linorder) Range \<Rightarrow> 'a \<Rightarrow> bool" where
  "Range_within r x = (x \<ge> minval r \<and> x \<le> maxval r)"

definition Range_eq :: "'a Range \<Rightarrow> 'a Range \<Rightarrow> bool" where
  "Range_eq r other = (minval other = minval r \<and> maxval other = maxval r)"

definition intersection :: "('a::linorder) Range \<Rightarrow> 'a Range \<Rightarrow> 'a Range option" where
  "intersection r other =
     (if minval r > maxval other \<or> maxval r < minval other then None
      else
        let new_max = min (maxval r) (maxval other);
            new_min = max (minval r) (minval other)
        in Some (Range_init new_min new_max))"

section \<open>Properties of Range\<close>

lemma intersection_commute: "intersection r1 r2 = intersection r2 r1"
  by (auto simp: intersection_def Let_def Range_init_def min_def max_def)

lemma intersection_None_disjoint:
  "intersection r1 r2 = None \<Longrightarrow> \<not> (Range_within r1 x \<and> Range_within r2 x)"
  by (auto simp: intersection_def Range_within_def Let_def split: if_splits)

lemma disjoint_intersection_None:
  assumes "minval r1 \<le> maxval r1" and "minval r2 \<le> maxval r2"
    and "\<forall>x. \<not> (Range_within r1 x \<and> Range_within r2 x)"
  shows "intersection r1 r2 = None"
proof (rule ccontr)
  assume "intersection r1 r2 \<noteq> None"
  then have le: "minval r1 \<le> maxval r2" "minval r2 \<le> maxval r1"
    by (auto simp: intersection_def split: if_splits)
  have "Range_within r1 (max (minval r1) (minval r2)) \<and> Range_within r2 (max (minval r1) (minval r2))"
    using assms(1,2) le by (auto simp: Range_within_def max_def)
  with assms(3) show False by blast
qed

text \<open>
  C8, as the claim states its last part, fails: \<open>Range(5, 1)\<close> holds no number at all, so
  it is disjoint from \<open>Range(0, 10)\<close>, and yet their intersection is \<open>Range(5, 1)\<close>, not
  none.
\<close>

theorem C8_inverted_range_counterexample:
  "intersection \<lparr>minval = 5::real, maxval = 1\<rparr> \<lparr>minval = 0, maxval = 10\<rparr>
     = Some \<lparr>minval = 5, maxval = 1\<rparr>
   \<and> (\<forall>x. \<not> (Range_within \<lparr>minval = 5::real, maxval = 1\<rparr> x
              \<and> Range_within \<lparr>minval = 0::real, maxval = 10\<rparr> x))"
  by (simp add: intersection_def Range_within_def Range_init_def)

text \<open>
  C8 (amended): for all real numbers \<open>a\<close>, \<open>b\<close>, \<open>x\<close>, \<open>Range(a,b).within(x)\<close> holds if and
  only if \<open>a \<le> x \<le> b\<close>; for all Ranges \<open>r1\<close>, \<open>r2\<close>, \<open>r1.intersection(r2)\<close> and
  \<open>r2.intersection(r1)\<close> are equal; an intersection that is none means the two closed
  intervals are disjoint; and when both ranges have \<open>minval \<le> maxval\<close>, the intersection
  is none if and only if the intervals are disjoint.
\<close>

theorem C8_range_semantics:
  fixes a b x :: real and r1 r2 :: "real Range"
  shows "(Range_within (Range_init a b) x \<longleftrightarrow> a \<le> x \<and> x \<le> b)
    \<and> intersection r1 r2 = intersection r2 r1
    \<and> (intersection r1 r2 = None \<longrightarrow> (\<forall>y. \<not> (Range_within r1 y \<and> Range_within r2 y)))
    \<and> (minval r1 \<le> maxval r1 \<and> minval r2 \<le> maxval r2 \<longrightarrow>
         (intersection r1 r2 = None \<longleftrightarrow> (\<forall>y. \<not> (Range_within r1 y \<and> Range_within r2 y))))"
proof (intro conjI impI)
  show "Range_within (Range_init a b) x \<longleftrightarrow> a \<le> x \<and> x \<le> b"
    by (simp add: Range_within_def Range_init_def)
  show "intersection r1 r2 = intersection r2 r1"
    by (rule intersection_commute)
  show "\<forall>y. \<not> (Range_within r1 y \<and> Range_within r2 y)" if "intersection r1 r2 = None"
    using that intersection_None_disjoint by blast
  show "intersection r1 r2 = None \<longleftrightarrow> (\<forall>y. \<not> (Range_within r1 y \<and> Range_within r2 y))"
    if "minval r1 \<le> maxval r1 \<and> minval r2 \<le> maxval r2"
    using that intersection_None_disjoint disjoint_intersection_None by blast
qed

theorem C8_range_semantics_witness:
  "minval \<lparr>minval = 0::real, maxval = 5\<rparr> \<le> maxval \<lparr>minval = 0::real, maxval = 5\<rparr>
   \<and> minval \<lparr>minval = 6::real, maxval = 10\<rparr> \<le> maxval \<lparr>minval = 6::real, maxval = 10\<rparr>
   \<and> intersection \<lparr>minval = 0::real, maxval = 5\<rparr> \<lparr>minval = 6, maxval = 10\<rparr> = None
   \<and> (\<forall>y. \<not> (Range_within \<lparr>minval = 0::real, maxval = 5\<rparr> y
              \<and> Range_within \<lparr>minval = 6::real, maxval = 10\<rparr> y))
   \<and> Range_within (Range_init (0::real) 5) 3"
  using C8_range_semantics [of 0 5 3 "\<lparr>minval = 0, maxval = 5\<rparr>" "\<lparr>minval = 6, maxval = 10\<rparr>"]
  by (simp add: intersection_def)

section \<open>Parser: cursor and lexical primitives\<close>

text \<open>
  The state of a \<open>Parser\<close> object during \<open>parse\<close>: the text and the cursor
  \<open>(n, line, col)\<close>.  Field \<open>self.len\<close> is \<open>len(text)\<close> throughout and is the function
  \<open>len\<close> here.  A rule returns its value and the new state, or the exception it raises;
  every handler of the source restores the position itself, so a failure carries no state.
\<close>

record pstate =
  ptext :: string
  pn :: nat
  pline :: nat
  pcol :: nat

type_synonym 'a presult = "error + ('a \<times> pstate)"

definition len :: "pstate \<Rightarrow> nat" where
  "len st = length (ptext st)"

definition rest :: "pstate \<Rightarrow> string" where
  \<comment> \<open>\<open>self.text[self.n:]\<close>\<close>
  "rest st = drop (pn st) (ptext st)"

definition parser_reset :: "string \<Rightarrow> pstate" where
  \<comment> \<open>the assignments at the head of \<open>parse\<close>\<close>
  "parser_reset t = \<lparr>ptext = t, pn = 0, pline = 1, pcol = 0\<rparr>"

definition getpos :: "pstate \<Rightarrow> nat \<times> nat \<times> nat" where
  "getpos st = (pn st, pline st, pcol st)"

definition setpos :: "nat \<times> nat \<times> nat \<Rightarrow> pstate \<Rightarrow> pstate" where
  "setpos pos st = (case pos of (k, l, c) \<Rightarrow> st\<lparr>pn := k, pline := l, pcol := c\<rparr>)"

definition newline :: char where
  "newline = CHR 0x0A"

definition whitespace :: "char list" where
  \<comment> \<open>\<open>" \f\v\r\t\n"\<close>\<close>
  "whitespace = [CHR '' '', CHR 0x0C, CHR 0x0B, CHR 0x0D, CHR 0x09, CHR 0x0A]"

definition assert_at_end :: "pstate \<Rightarrow> error + unit" where
  "assert_at_end st =
     (if pn st < len st
      then Inl (ParseError (pline st) (pcol st) ''Unrecognizable text remains from'' [])
      else Inr ())"

function eat_whitespace :: "pstate \<Rightarrow> pstate" where
  "eat_whitespace st =
     (if pn st < len st \<and> ptext st ! pn st \<in> set whitespace then
        eat_whitespace
          (if ptext st ! pn st = newline
           then st\<lparr>pn := pn st + 1, pcol := 0, pline := pline st + 1\<rparr>
           else if ptext st ! pn st = CHR '' ''
           then st\<lparr>pn := pn st + 1, pcol := pcol st + 1\<rparr>
           else st\<lparr>pn := pn st + 1\<rparr>)
      else st)"
  by pat_completeness auto
termination
  by (relation "measure (\<lambda>st. len st - pn st)") (auto simp: len_def)

declare eat_whitespace.simps [simp del]

definition charmatch :: "char \<Rightarrow> pstate \<Rightarrow> unit presult" where
  "charmatch c st =
     (if pn st \<ge> len st then
        Inl (ParseError (pline st) (pcol st) ''Reached end while looking for \"{}\" at'' [[c]])
      else if ptext st ! pn st = c then
        Inr ((), if c = newline
                 then st\<lparr>pn := pn st + 1, pcol := 0, pline := pline st + 1\<rparr>
                 else st\<lparr>pn := pn st + 1, pcol := pcol st + 1\<rparr>)
      else
        Inl (ParseError (pline st) (pcol st) ''Expected \"{}\", found \"{}\" at''
               [[c], [ptext st ! pn st]]))"

definition startswith :: "string \<Rightarrow> string \<Rightarrow> bool" where
  "startswith t s = (take (length s) t = s)"

definition strmatch :: "string \<Rightarrow> pstate \<Rightarrow> string presult" where
  "strmatch s st =
     (if startswith (rest st) s then
        Inr (s, st\<lparr>pn := pn st + length s, pcol := pcol st + length s\<rparr>)
      else
        Inl (ParseError (pline st) (pcol st) ''Expected \"{}\", found \"{}\" at ''
               [s, take (length s) (rest st)]))"

definition is_digit :: "char \<Rightarrow> bool" where
  "is_digit c = (c \<in> set ''0123456789'')"

definition digit_val :: "char \<Rightarrow> nat" where
  "digit_val c = of_char c - 48"

definition int_of_digits :: "string \<Rightarrow> nat" where
  \<comment> \<open>\<open>int(s)\<close> on a run of decimal digits\<close>
  "int_of_digits s = foldl (\<lambda>a c. 10 * a + digit_val c) 0 s"

definition uint :: "pstate \<Rightarrow> nat presult" where
  "uint st =
     (let s = takeWhile is_digit (rest st) in
      if s \<noteq> [] then
        Inr (int_of_digits s, st\<lparr>pn := pn st + length s, pcol := pcol st + length s\<rparr>)
      else
        Inl (ParseError (pline st) (pcol st) ''Expected unsigned int, found \"{}\" at''
               [take 10 (rest st)]))"

text \<open>
  The two regular expressions of \<open>double\<close> and \<open>sint\<close>, as the length of the match of
  Python's backtracking matcher at the head of a string: \<open>^[-+]?[0-9]+\<close>, and
  \<open>^[-+]?[0-9]*\.?[0-9]+([eE][-+]?[0-9]+)?\<close>, where the point is taken only when a digit
  follows it and the exponent only when it is complete.
\<close>

definition sign_len :: "string \<Rightarrow> nat" where
  "sign_len s = (case s of [] \<Rightarrow> 0 | c # _ \<Rightarrow> if c = CHR ''-'' \<or> c = CHR ''+'' then 1 else 0)"

definition match_sint :: "string \<Rightarrow> nat option" where
  "match_sint s =
     (let k = sign_len s; d = takeWhile is_digit (drop k s)
      in if d = [] then None else Some (k + length d))"

definition exponent_len :: "string \<Rightarrow> nat" where
  "exponent_len r =
     (case r of [] \<Rightarrow> 0
      | c # r1 \<Rightarrow>
          if c = CHR ''e'' \<or> c = CHR ''E'' then
            (case match_sint r1 of None \<Rightarrow> 0 | Some k \<Rightarrow> 1 + k)
          else 0)"

definition match_double :: "string \<Rightarrow> nat option" where
  "match_double s =
     (let k = sign_len s;
          d1 = takeWhile is_digit (drop k s);
          r1 = drop (k + length d1) s;
          d2 = (case r1 of [] \<Rightarrow> []
                | c # r2 \<Rightarrow> if c = CHR ''.'' then takeWhile is_digit r2 else [])
      in if d2 \<noteq> [] then
           Some (k + length d1 + 1 + length d2
                 + exponent_len (drop (k + length d1 + 1 + length d2) s))
         else if d1 \<noteq> [] then
           Some (k + length d1 + exponent_len (drop (k + length d1) s))
         else None)"

definition int_of_string :: "string \<Rightarrow> int" where
  \<comment> \<open>\<open>int(s)\<close> on a match of \<open>[-+]?[0-9]+\<close>\<close>
  "int_of_string s =
     (case s of [] \<Rightarrow> 0
      | c # r \<Rightarrow>
          if c = CHR ''-'' then - int (int_of_digits r)
          else if c = CHR ''+'' then int (int_of_digits r)
          else int (int_of_digits s))"

text \<open>
  \<open>double\<close> converts the matched text with Python's \<open>float\<close>.  The conversion to an
  IEEE-754 double is the interpreter's, not the module's: it is the parameter \<open>fl\<close>, into
  a type \<open>'f\<close> of floats.
\<close>

definition double :: "(string \<Rightarrow> 'f) \<Rightarrow> pstate \<Rightarrow> 'f presult" where
  "double fl st =
     (case match_double (rest st) of
        Some k \<Rightarrow>
          Inr (fl (take k (rest st)), st\<lparr>pn := pn st + k, pcol := pcol st + k\<rparr>)
      | None \<Rightarrow>
          Inl (ParseError (pline st) (pcol st) ''Expected a floating point, found \"{}\" at''
                 [take 10 (rest st)]))"

definition sint :: "pstate \<Rightarrow> int presult" where
  "sint st =
     (case match_sint (rest st) of
        Some k \<Rightarrow>
          Inr (int_of_string (take k (rest st)), st\<lparr>pn := pn st + k, pcol := pcol st + k\<rparr>)
      | None \<Rightarrow>
          Inl (ParseError (pline st) (pcol st) ''Expected a signed integer, found \"{}\" at''
                 [take 10 (rest st)]))"

text \<open>
  \<open>eat_pattern\<close> is called with three separator patterns only; each is matched here
  directly.  After moving the cursor, the source counts the newlines of the text
  \<^emph>\<open>behind\<close> the match (it slices at the new \<open>self.n\<close>), within the match's length.
\<close>

datatype sep_pattern =
    Blanks            \<comment> \<open>\<open>^[ ]*\<close>\<close>
  | Blanks_Commas     \<comment> \<open>\<open>^[ ,]*\<close>\<close>
  | Blanks_Comma_Blanks  \<comment> \<open>\<open>^[ ]*,[ ]*\<close>\<close>

fun match_pattern :: "sep_pattern \<Rightarrow> string \<Rightarrow> nat option" where
  "match_pattern Blanks s = Some (length (takeWhile (\<lambda>c. c = CHR '' '') s))"
| "match_pattern Blanks_Commas s =
     Some (length (takeWhile (\<lambda>c. c = CHR '' '' \<or> c = CHR '','') s))"
| "match_pattern Blanks_Comma_Blanks s =
     (let k = length (takeWhile (\<lambda>c. c = CHR '' '') s) in
      case drop k s of
        [] \<Rightarrow> None
      | c # r \<Rightarrow>
          if c = CHR '','' then Some (k + 1 + length (takeWhile (\<lambda>c. c = CHR '' '') r))
          else None)"

definition rfind :: "char \<Rightarrow> string \<Rightarrow> nat" where
  \<comment> \<open>\<open>str.rfind\<close>, for a character that occurs\<close>
  "rfind c s = length s - 1 - length (takeWhile (\<lambda>x. x \<noteq> c) (rev s))"

definition eat_pattern :: "sep_pattern \<Rightarrow> pstate \<Rightarrow> pstate" where
  "eat_pattern pattern st =
     (case match_pattern pattern (rest st) of
        None \<Rightarrow> st
      | Some k \<Rightarrow>
          let st1 = st\<lparr>pn := pn st + k, pcol := pcol st + k\<rparr>;
              seg = take k (rest st1);
              nln = count_list seg newline
          in if nln \<noteq> 0
             then st1\<lparr>pline := pline st1 + nln, pcol := k - 1 - rfind newline seg\<rparr>
             else st1)"

function string_loop :: "pstate \<Rightarrow> string \<Rightarrow> string presult" where
  "string_loop st s =
     (if pn st < len st then
        let c = ptext st ! pn st in
        if c = CHR 0x5C then
          Inl (ParseError (pline st) (pcol st) ''Encounted backslash in string at '' [])
        else
          let st1 = (if c = newline then st\<lparr>pline := pline st + 1, pcol := 0\<rparr> else st);
              st2 = st1\<lparr>pn := pn st1 + 1, pcol := pcol st1 + 1\<rparr>
          in if c = CHR 0x22 then Inr (s, st2) else string_loop st2 (s @ [c])
      else
        Inl (ParseError (pline st) (pcol st) ''Reached end while parsing string'' []))"
  by pat_completeness auto
termination
  by (relation "measure (\<lambda>(st, s). len st - pn st)") (auto simp: len_def)

declare string_loop.simps [simp del]

definition string_atom :: "pstate \<Rightarrow> string presult" where
  \<comment> \<open>method \<open>string\<close>\<close>
  "string_atom st =
     (if pn st \<ge> len st then Inl IndexError
      else if ptext st ! pn st \<noteq> CHR 0x22 then
        Inl (ParseError (pline st) (pcol st) (''expected '' @ [CHR 0x27, CHR 0x5C] @ ''{}'' @ [CHR 0x27] @ '' but found ''
               @ [CHR 0x27] @ ''{}'' @ [CHR 0x27] @ '' at '')
               [[CHR 0x22], [ptext st ! pn st]])
      else string_loop (st\<lparr>pn := pn st + 1, pcol := pcol st + 1\<rparr>) [])"

definition idchar :: "char \<Rightarrow> bool" where
  "idchar c =
     (let k = (of_char c :: nat) in
      (k \<ge> 97 \<and> k \<le> 122) \<or> (k \<ge> 65 \<and> k \<le> 90) \<or> (k \<ge> 48 \<and> k \<le> 57) \<or> c = CHR ''_'')"

definition isidentifier :: "string \<Rightarrow> bool" where
  \<comment> \<open>\<open>str.isidentifier\<close> on a run of \<open>idchar\<close>s: not empty, no digit first\<close>
  "isidentifier s = (case s of [] \<Rightarrow> False | c # _ \<Rightarrow> \<not> is_digit c)"

definition identifier_atom :: "string list \<Rightarrow> pstate \<Rightarrow> string presult" where
  \<comment> \<open>method \<open>identifier\<close>\<close>
  "identifier_atom reserved st =
     (let str = takeWhile idchar (rest st) in
      if isidentifier str \<and> str \<notin> set reserved then
        Inr (str, st\<lparr>pn := pn st + length str, pcol := pcol st + length str\<rparr>)
      else if str \<in> set reserved then
        Inl (ParseError (pline st) (pcol st) ''Identifier equals reserved word \"{}\" at'' [str])
      else
        Inl (ParseError (pline st) (pcol st) ''Expected identifier, but found \"{}\" at'' [str]))"

text \<open>
  \<open>endian\<close> and \<open>signed\<close> read \<open>self.text[self.n]\<close> unguarded.  In their last branch the
  source builds a \<open>ParseError\<close> and drops it: there is no \<open>raise\<close>, so the method falls off
  its end and returns \<open>None\<close> with the cursor unmoved.
\<close>

definition endian :: "pstate \<Rightarrow> bool option presult" where
  "endian st =
     (if pn st \<ge> len st then Inl IndexError
      else if ptext st ! pn st = CHR ''1'' then
        Inr (Some True, st\<lparr>pn := pn st + 1, pcol := pcol st + 1\<rparr>)
      else if ptext st ! pn st = CHR ''0'' then
        Inr (Some False, st\<lparr>pn := pn st + 1, pcol := pcol st + 1\<rparr>)
      else Inr (None, st))"

definition signed :: "pstate \<Rightarrow> bool option presult" where
  "signed st =
     (if pn st \<ge> len st then Inl IndexError
      else if ptext st ! pn st = CHR ''+'' then
        Inr (Some False, st\<lparr>pn := pn st + 1, pcol := pcol st + 1\<rparr>)
      else if ptext st ! pn st = CHR ''-'' then
        Inr (Some True, st\<lparr>pn := pn st + 1, pcol := pcol st + 1\<rparr>)
      else Inr (None, st))"

section \<open>Parser: combinators\<close>

text \<open>
  Sequencing of rules: \<open>pbind\<close> runs a rule and hands its value on; an exception ends the
  sequence.  \<open>ws\<close> is a call of \<open>eat_whitespace\<close> as a step of a sequence.
\<close>

definition pbind :: "(pstate \<Rightarrow> 'a presult) \<Rightarrow> ('a \<Rightarrow> pstate \<Rightarrow> 'b presult) \<Rightarrow> pstate \<Rightarrow> 'b presult" where
  "pbind p f st = (case p st of Inl e \<Rightarrow> Inl e | Inr (a, st') \<Rightarrow> f a st')"

definition pthen :: "(pstate \<Rightarrow> 'a presult) \<Rightarrow> (pstate \<Rightarrow> 'b presult) \<Rightarrow> pstate \<Rightarrow> 'b presult" where
  "pthen p q = pbind p (\<lambda>_. q)"

definition preturn :: "'a \<Rightarrow> pstate \<Rightarrow> 'a presult" where
  "preturn a st = Inr (a, st)"

definition ws :: "pstate \<Rightarrow> unit presult" where
  "ws st = Inr ((), eat_whitespace st)"

definition pmap :: "('a \<Rightarrow> 'b) \<Rightarrow> (pstate \<Rightarrow> 'a presult) \<Rightarrow> pstate \<Rightarrow> 'b presult" where
  "pmap f p = pbind p (\<lambda>a. preturn (f a))"

definition optional :: "(pstate \<Rightarrow> 'a presult) \<Rightarrow> pstate \<Rightarrow> 'a option presult" where
  "optional rule st =
     (case rule st of
        Inr (a, st') \<Rightarrow> Inr (Some a, st')
      | Inl e \<Rightarrow> (case e of ParseError l c m a \<Rightarrow> Inr (None, st) | _ \<Rightarrow> Inl e))"

text \<open>
  \<open>any_number_of\<close> repeats a rule while text remains.  A rule that succeeded without
  moving the cursor would succeed for ever, the list of results growing without bound:
  that is \<open>MemoryError\<close> here.  No rule the grammar passes in does so.
\<close>

function any_number_of :: "(pstate \<Rightarrow> 'a presult) \<Rightarrow> pstate \<Rightarrow> 'a list presult" where
  "any_number_of rule st =
     (if pn st < len st then
        (case rule st of
           Inl e \<Rightarrow> (case e of ParseError l c m a \<Rightarrow> Inr ([], st) | _ \<Rightarrow> Inl e)
         | Inr p \<Rightarrow>
             if len (snd p) - pn (snd p) < len st - pn st then
               (case any_number_of rule (snd p) of
                  Inl e \<Rightarrow> Inl e
                | Inr q \<Rightarrow> Inr (fst p # fst q, snd q))
             else Inl MemoryError)
      else Inr ([], st))"
  by pat_completeness auto
termination
  by (relation "measure (\<lambda>(rule, st). len st - pn st)") auto

declare any_number_of.simps [simp del]

text \<open>
  \<open>one_of\<close> tries the rules in order and, when all fail, raises the error that got
  furthest.  With no rule at all it would \<open>raise None\<close>, a \<open>TypeError\<close>.
\<close>

fun one_of_loop ::
  "(pstate \<Rightarrow> 'a presult) list \<Rightarrow> nat \<Rightarrow> nat \<Rightarrow> error option \<Rightarrow> pstate \<Rightarrow> 'a presult" where
  "one_of_loop [] ln0 cn0 ex st = (case ex of None \<Rightarrow> Inl TypeError | Some e \<Rightarrow> Inl e)"
| "one_of_loop (rule # rules) ln0 cn0 ex st =
     (case rule st of
        Inr r \<Rightarrow> Inr r
      | Inl e \<Rightarrow>
          (case e of
             ParseError l c m a \<Rightarrow>
               if l > ln0 \<or> (l = ln0 \<and> cn0 < c) then one_of_loop rules l c (Some e) st
               else one_of_loop rules ln0 cn0 ex st
           | _ \<Rightarrow> Inl e))"

definition one_of :: "(pstate \<Rightarrow> 'a presult) list \<Rightarrow> pstate \<Rightarrow> 'a presult" where
  "one_of rules st = one_of_loop rules 0 0 None st"

subsection \<open>The cursor only moves forward\<close>

lemma eat_whitespace_forward:
  "pn st \<le> pn (eat_whitespace st) \<and> ptext (eat_whitespace st) = ptext st"
proof (induction st rule: eat_whitespace.induct)
  case (1 st)
  show ?case
  proof (cases "pn st < len st \<and> ptext st ! pn st \<in> set whitespace")
    case True
    then show ?thesis
      using "1.IH" by (subst (1 2) eat_whitespace.simps) (auto split: if_splits)
  next
    case False
    then show ?thesis by (subst (1 2) eat_whitespace.simps) auto
  qed
qed

lemma eat_whitespace_len [simp]: "len (eat_whitespace st) = len st"
  by (simp add: len_def eat_whitespace_forward)

lemma eat_pattern_forward:
  "pn st \<le> pn (eat_pattern pat st) \<and> ptext (eat_pattern pat st) = ptext st"
  by (auto simp: eat_pattern_def Let_def split: option.splits)

lemma identifier_atom_forward:
  assumes "identifier_atom reserved st = Inr (s, st')"
  shows "pn st < pn st' \<and> ptext st' = ptext st \<and> s \<noteq> []"
  using assms
  by (auto simp: identifier_atom_def Let_def isidentifier_def split: if_splits list.splits)

lemma string_loop_forward:
  "string_loop st s = Inr (r, st') \<Longrightarrow> pn st < pn st' \<and> ptext st' = ptext st"
proof (induction st s rule: string_loop.induct)
  case (1 st s)
  from "1.prems" have lt: "pn st < len st"
    by (subst (asm) string_loop.simps) (auto split: if_splits)
  show ?case
  proof (cases "ptext st ! pn st = CHR 0x22")
    case True
    with "1.prems" lt show ?thesis
      by (subst (asm) string_loop.simps) (auto simp: Let_def split: if_splits)
  next
    case False
    with "1.prems" lt have nb: "ptext st ! pn st \<noteq> CHR 0x5C"
      by (subst (asm) string_loop.simps) (auto simp: Let_def split: if_splits)
    show ?thesis
      using "1.IH"[OF lt refl nb refl refl False] "1.prems" lt False nb
      by (subst (asm) (2) string_loop.simps) (auto simp: Let_def split: if_splits)
  qed
qed

lemma string_atom_forward:
  "string_atom st = Inr (r, st') \<Longrightarrow> pn st < pn st' \<and> ptext st' = ptext st"
  by (auto simp: string_atom_def split: if_splits dest!: string_loop_forward)

section \<open>Parser: section keywords\<close>

definition sections :: "string list" where
  "sections =
     [''BA_DEF_DEF_'', ''BA_DEF_'', ''BA_'',
      ''BO_TX_BU_'', ''BO_'', ''BS_'', ''BU_'',
      ''CM_'', ''ENVVAR_DATA_'', ''EV_'', ''NS_'',
      ''SIG_GROUP_'', ''SIG_TYPE_REF_'', ''SIG_VALTYPE_'',
      ''SGTYPE_'', ''SG_MUL_VAL_'',
      ''VAL_TABLE_'', ''VAL_'', ''VERSION'']"

definition escape_quotes :: "string \<Rightarrow> string" where
  \<comment> \<open>\<open>s.replace("\"", "\\\"")\<close>\<close>
  "escape_quotes s = concat (map (\<lambda>c. if c = CHR 0x22 then [CHR 0x5C, CHR 0x22] else [c]) s)"

definition section_keyword :: "pstate \<Rightarrow> string presult" where
  "section_keyword st =
     (case find (\<lambda>str. take (length str) (rest st) = str) sections of
        Some str \<Rightarrow> Inr (str, st\<lparr>pn := pn st + length str, pcol := pcol st + length str\<rparr>)
      | None \<Rightarrow>
          Inl (ParseError (pline st) (pcol st)
                 ''Expected section keyword but found instead \"{}\" at''
                 [escape_quotes (take 10 (rest st))]))"

section \<open>Properties of the lexical primitives\<close>

lemma eat_whitespace_fixed:
  assumes "pn (eat_whitespace st) = pn st"
  shows "eat_whitespace st = st"
proof (cases "pn st < len st \<and> ptext st ! pn st \<in> set whitespace")
  case True
  define st1 where "st1 =
    (if ptext st ! pn st = newline
     then st\<lparr>pn := pn st + 1, pcol := 0, pline := pline st + 1\<rparr>
     else if ptext st ! pn st = CHR '' ''
     then st\<lparr>pn := pn st + 1, pcol := pcol st + 1\<rparr>
     else st\<lparr>pn := pn st + 1\<rparr>)"
  have step: "eat_whitespace st = eat_whitespace st1"
    using True unfolding st1_def by (subst eat_whitespace.simps) simp
  have "pn st1 = pn st + 1" by (simp add: st1_def)
  moreover have "pn st1 \<le> pn (eat_whitespace st1)" by (simp add: eat_whitespace_forward)
  ultimately show ?thesis using assms step by simp
next
  case False
  then show ?thesis by (subst eat_whitespace.simps) auto
qed

lemma eat_whitespace_line: "pline st \<le> pline (eat_whitespace st)"
proof (induction st rule: eat_whitespace.induct)
  case (1 st)
  show ?case
  proof (cases "pn st < len st \<and> ptext st ! pn st \<in> set whitespace")
    case True
    then show ?thesis
      using "1.IH" by (subst eat_whitespace.simps) (auto split: if_splits)
  next
    case False
    then show ?thesis by (subst eat_whitespace.simps) auto
  qed
qed

lemma eat_whitespace_newline_col:
  "pn st < pn (eat_whitespace st) \<Longrightarrow> ptext st ! (pn (eat_whitespace st) - 1) = newline
     \<Longrightarrow> pcol (eat_whitespace st) = 0"
proof (induction st rule: eat_whitespace.induct)
  case (1 st)
  define st1 where "st1 =
    (if ptext st ! pn st = newline
     then st\<lparr>pn := pn st + 1, pcol := 0, pline := pline st + 1\<rparr>
     else if ptext st ! pn st = CHR '' ''
     then st\<lparr>pn := pn st + 1, pcol := pcol st + 1\<rparr>
     else st\<lparr>pn := pn st + 1\<rparr>)"
  have guard: "pn st < len st \<and> ptext st ! pn st \<in> set whitespace"
  proof (rule ccontr)
    assume "\<not> ?thesis"
    then have "eat_whitespace st = st" by (subst eat_whitespace.simps) auto
    with "1.prems"(1) show False by simp
  qed
  then have step: "eat_whitespace st = eat_whitespace st1"
    unfolding st1_def by (subst eat_whitespace.simps) simp
  have st1: "pn st1 = pn st + 1" "ptext st1 = ptext st" by (simp_all add: st1_def)
  show ?case
  proof (cases "pn st1 < pn (eat_whitespace st1)")
    case True
    have "pcol (eat_whitespace st1) = 0"
      using "1.IH"[OF guard] True "1.prems"(2) step st1 unfolding st1_def by simp
    then show ?thesis by (simp add: step)
  next
    case False
    then have "pn (eat_whitespace st1) = pn st1"
      using eat_whitespace_forward[of st1] by simp
    then have fixed: "eat_whitespace st1 = st1" by (rule eat_whitespace_fixed)
    with "1.prems"(2) step st1 have "ptext st ! pn st = newline" by simp
    then have "pcol st1 = 0" by (simp add: st1_def)
    then show ?thesis by (simp add: step fixed)
  qed
qed

text \<open>
  C6: the character the endian atom reads is \<open>2\<close>, the character the sign atom reads is
  \<open>*\<close>.  Neither atom raises: each returns \<open>None\<close> and leaves the cursor where it was.
\<close>

theorem C6_endian_signed_return_None:
  "endian \<lparr>ptext = ''2'', pn = 0, pline = 1, pcol = 0\<rparr>
     = Inr (None, \<lparr>ptext = ''2'', pn = 0, pline = 1, pcol = 0\<rparr>)
   \<and> signed \<lparr>ptext = ''*'', pn = 0, pline = 1, pcol = 0\<rparr>
     = Inr (None, \<lparr>ptext = ''*'', pn = 0, pline = 1, pcol = 0\<rparr>)"
  by (simp add: endian_def signed_def len_def)

text \<open>
  C9, as stated, fails: \<open>parse\<close> starts the cursor at column 0, a newline eaten as
  whitespace sets the column to 0, and the error of the section keyword at the start of
  the text \<open>X\<close> reports line 1, column 0.
\<close>

theorem C9_column_zero_counterexample:
  "pcol (parser_reset ''X'') = 0
   \<and> pcol (eat_whitespace (parser_reset [CHR 0x0A])) = 0
   \<and> section_keyword (eat_whitespace (parser_reset ''X''))
       = Inl (ParseError 1 0 ''Expected section keyword but found instead \"{}\" at'' [''X''])"
proof (intro conjI)
  show "pcol (parser_reset ''X'') = 0"
    by (simp add: parser_reset_def)
  show "pcol (eat_whitespace (parser_reset [CHR 0x0A])) = 0"
    by (simp add: parser_reset_def eat_whitespace.simps len_def whitespace_def newline_def)
  have "eat_whitespace (parser_reset ''X'') = parser_reset ''X''"
    by (simp add: parser_reset_def eat_whitespace.simps len_def whitespace_def)
  then show "section_keyword (eat_whitespace (parser_reset ''X''))
       = Inl (ParseError 1 0 ''Expected section keyword but found instead \"{}\" at'' [''X''])"
    by (simp add: section_keyword_def sections_def parser_reset_def rest_def escape_quotes_def)
qed

text \<open>
  C9 (amended): the cursor's line number is 1-based and its column number is 0-based.
  A parse starts at line 1, column 0; \<open>eat_whitespace\<close> never lowers the line, so it stays
  at least 1; and whenever the last character \<open>eat_whitespace\<close> consumed is a newline,
  the column it leaves is 0.
\<close>

theorem C9_cursor_line_one_column_zero:
  "pline (parser_reset t) = 1 \<and> pcol (parser_reset t) = 0
   \<and> (1 \<le> pline st \<longrightarrow> 1 \<le> pline (eat_whitespace st))
   \<and> (pn st < pn (eat_whitespace st) \<and> ptext st ! (pn (eat_whitespace st) - 1) = newline
        \<longrightarrow> pcol (eat_whitespace st) = 0)"
proof (intro conjI impI)
  show "pline (parser_reset t) = 1" "pcol (parser_reset t) = 0"
    by (simp_all add: parser_reset_def)
  show "1 \<le> pline (eat_whitespace st)" if "1 \<le> pline st"
    using that eat_whitespace_line[of st] by simp
  show "pcol (eat_whitespace st) = 0"
    if "pn st < pn (eat_whitespace st) \<and> ptext st ! (pn (eat_whitespace st) - 1) = newline"
    using that eat_whitespace_newline_col by blast
qed

lemma eat_whitespace_blank_newline:
  "eat_whitespace (parser_reset [CHR '' '', CHR 0x0A, CHR ''X''])
     = \<lparr>ptext = [CHR '' '', CHR 0x0A, CHR ''X''], pn = 2, pline = 2, pcol = 0\<rparr>"
  by (simp add: parser_reset_def eat_whitespace.simps len_def whitespace_def newline_def)

theorem C9_cursor_line_one_column_zero_witness:
  "1 \<le> pline (parser_reset [CHR '' '', CHR 0x0A, CHR ''X''])
   \<and> pn (parser_reset [CHR '' '', CHR 0x0A, CHR ''X''])
       < pn (eat_whitespace (parser_reset [CHR '' '', CHR 0x0A, CHR ''X'']))
   \<and> [CHR '' '', CHR 0x0A, CHR ''X'']
       ! (pn (eat_whitespace (parser_reset [CHR '' '', CHR 0x0A, CHR ''X''])) - 1) = newline
   \<and> pcol (eat_whitespace (parser_reset [CHR '' '', CHR 0x0A, CHR ''X''])) = 0
   \<and> pline (eat_whitespace (parser_reset [CHR '' '', CHR 0x0A, CHR ''X''])) = 2"
  using C9_cursor_line_one_column_zero
          [of "[CHR '' '', CHR 0x0A, CHR ''X'']" "parser_reset [CHR '' '', CHR 0x0A, CHR ''X'']"]
  by (simp add: eat_whitespace_blank_newline) (simp add: parser_reset_def newline_def)

section \<open>Parsed sections\<close>

text \<open>
  The intermediate format: the parser returns a list of tagged tuples, one per section.
  Each constructor below is one tag with the tuple's components; \<open>sec_tag\<close> is the tag
  string \<open>seclist[kk][0]\<close>.  A literal value is what \<open>uint\<close>, \<open>sint\<close>, \<open>double\<close> or
  \<open>string\<close> returned; a \<open>spec\<close> is the tuple of a comment or attribute target.
\<close>

datatype 'f literal = LInt int | LFloat 'f | LStr string

datatype spec =
    Spec_Global               \<comment> \<open>\<open>('',)\<close>\<close>
  | Spec_BU string            \<comment> \<open>\<open>('BU_', name)\<close>\<close>
  | Spec_BO nat               \<comment> \<open>\<open>('BO_', message_id)\<close>\<close>
  | Spec_SG nat string        \<comment> \<open>\<open>('SG_', message_id, name)\<close>\<close>
  | Spec_EV string            \<comment> \<open>\<open>('EV_', name)\<close>\<close>

datatype 'f ba_typ =
    BA_INT int int
  | BA_HEX int int
  | BA_FLOAT 'f 'f
  | BA_STRING
  | BA_ENUM "string list"

text \<open>
  The dictionary of a signal as \<open>Parser.signal\<close> fills it.  The receivers are
  \<open>[identifier] + any_number_of(...)\<close>, a first receiver and the further ones.
\<close>

record 'f sig_d =
  sd_name :: string
  sd_multiplex_value :: "nat option"
  sd_is_multiplexor :: bool
  sd_start :: nat
  sd_size :: nat
  sd_little_endian :: "bool option"
  sd_signed :: "bool option"
  sd_factor :: 'f
  sd_offset :: 'f
  sd_range :: "'f \<times> 'f"
  sd_unit :: string
  sd_receivers :: "string \<times> string list"

record 'f msg_d =
  md_id :: nat
  md_name :: string
  md_size :: nat
  md_transmitter :: string
  md_signals :: "'f sig_d list"

datatype 'f dbc_section =
    Sec_VERSION string
  | Sec_NS "string list"
  | Sec_BS "(nat \<times> nat \<times> nat) option"
  | Sec_BU "string list"
  | Sec_VAL_TABLE string "(int \<times> string) list"
  | Sec_BO "'f msg_d"
  | Sec_BO_TX_BU nat "string list"
  | Sec_CM spec string
  | Sec_BA_DEF string string "'f ba_typ"
  | Sec_BA_DEF_DEF string "'f literal"
  | Sec_BA string spec "'f literal"
  | Sec_VAL nat string "(int \<times> string) list"
  | Sec_SIG_GROUP nat string nat "string list"
  | Sec_SIG_VALTYPE nat string nat
  | Sec_SG_MUL_VAL nat string string "(nat \<times> nat) list"

fun sec_tag :: "'f dbc_section \<Rightarrow> string" where
  "sec_tag (Sec_VERSION v) = ''VERSION''"
| "sec_tag (Sec_NS l) = ''NS_''"
| "sec_tag (Sec_BS t) = ''BS_''"
| "sec_tag (Sec_BU l) = ''BU_''"
| "sec_tag (Sec_VAL_TABLE nm tab) = ''VAL_TABLE_''"
| "sec_tag (Sec_BO d) = ''BO_''"
| "sec_tag (Sec_BO_TX_BU i txs) = ''BO_TX_BU_''"
| "sec_tag (Sec_CM sp c) = ''CM_''"
| "sec_tag (Sec_BA_DEF ct nm typ) = ''BA_DEF_''"
| "sec_tag (Sec_BA_DEF_DEF nm v) = ''BA_DEF_DEF_''"
| "sec_tag (Sec_BA nm d v) = ''BA_''"
| "sec_tag (Sec_VAL i nm vals) = ''VAL_''"
| "sec_tag (Sec_SIG_GROUP i nm k sgs) = ''SIG_GROUP_''"
| "sec_tag (Sec_SIG_VALTYPE i nm tn) = ''SIG_VALTYPE_''"
| "sec_tag (Sec_SG_MUL_VAL i nm mux rs) = ''SG_MUL_VAL_''"

section \<open>The semantic model\<close>

text \<open>
  Python dictionaries keep insertion order, and the serializer iterates them: a
  dictionary is an association list with distinct keys.  \<open>d[k] = v\<close> is
  \<^const>\<open>AList.update\<close> (the key keeps its place, a new key goes last), \<open>k in d\<close> is
  \<open>has_key\<close>, \<open>d[k]\<close> is \<^const>\<open>map_of\<close>.
\<close>

definition has_key :: "('k \<times> 'v) list \<Rightarrow> 'k \<Rightarrow> bool" where
  "has_key d k = (map_of d k \<noteq> None)"

text \<open>
  \<open>Signal\<close> objects are shared: a message's list \<open>signals\<close>, its dictionary
  \<open>signals_dict\<close> and the switches of its multiplexors all hold references to the same
  objects, and the builder changes an object through one and reads it through another.
  So each message has a store \<open>sigs\<close> of its \<open>Signal\<close> objects, in the order of their
  creation, and a reference is an index into it.  A \<open>Switch\<close> is its list \<open>_e\<close>.
\<close>

type_synonym sigref = nat

type_synonym switch = "(nat Range \<times> sigref) list"

record 'f signal =
  sig_name :: string
  multiplex_value :: "nat option"
  is_multiplexor :: bool
  is_little_endian :: "bool option"
  is_signed :: "bool option"
  start_bit :: nat
  numbits :: nat
  factor :: 'f
  offset :: 'f
  sig_range :: "'f Range"
  sig_unit :: string
  receivers :: "string \<times> string list"
  switch :: switch
  sig_comments :: "string list"
  sig_attributes :: "(string \<times> 'f literal) list"
  value_descriptions :: "(int \<times> string) list"
  value_type :: "nat option"

record signal_group =
  sg_n :: nat
  sg_names :: "string list"

record 'f message =
  msg_id :: nat
  msg_name :: string
  msg_size :: nat
  transmitters :: "string list"
  signals :: "sigref list"
  signals_dict :: "(string \<times> sigref) list"
  msg_comments :: "string list"
  msg_attributes :: "(string \<times> 'f literal) list"
  signal_groups :: "(string \<times> signal_group) list"
  sigs :: "'f signal list"

record 'f node =
  node_comments :: "string list"
  node_attributes :: "(string \<times> 'f literal) list"

record 'f bus =
  version :: string
  baudrate :: "nat option"
  btr :: "(nat \<times> nat) option"
  nodes :: "(string \<times> 'f node) list"
  newsymbols :: "string list"
  global_values :: "(string \<times> (int \<times> string) list) list"
  messages :: "(nat \<times> 'f message) list"
  bus_comments :: "string list"
  attrib_typedefs :: "(string \<times> (string \<times> 'f ba_typ) list) list"
  attrib_defaults :: "(string \<times> 'f literal) list"
  bus_attributes :: "(string \<times> 'f literal) list"

subsection \<open>Switch, Signal, Message\<close>

definition Switch_append :: "nat Range \<Rightarrow> sigref \<Rightarrow> switch \<Rightarrow> switch" where
  "Switch_append r sg e =
     (if list_ex (\<lambda>x. Range_eq r (fst x) \<and> sg = snd x) e then e else e @ [(r, sg)])"

definition any_multiples :: "switch \<Rightarrow> bool" where
  \<comment> \<open>some signal object is counted more than once\<close>
  "any_multiples e = list_ex (\<lambda>sg. count_list (map snd e) sg > 1) (map snd e)"

definition Signal_init :: "'f sig_d \<Rightarrow> 'f signal" where
  "Signal_init d =
     \<lparr>sig_name = sd_name d,
      multiplex_value = sd_multiplex_value d,
      is_multiplexor = sd_is_multiplexor d,
      is_little_endian = sd_little_endian d,
      is_signed = sd_signed d,
      start_bit = sd_start d,
      numbits = sd_size d,
      factor = sd_factor d,
      offset = sd_offset d,
      sig_range = Range_of_pair (sd_range d),
      sig_unit = sd_unit d,
      receivers = sd_receivers d,
      switch = [],
      sig_comments = [],
      sig_attributes = [],
      value_descriptions = [],
      value_type = None\<rparr>"

definition multiplexes :: "'f signal \<Rightarrow> nat \<Rightarrow> bool" where
  "multiplexes sg val = (is_multiplexor sg \<and> val \<ge> 0 \<and> val < 2 ^ numbits sg)"

definition Message_init :: "nat \<Rightarrow> string \<Rightarrow> nat \<Rightarrow> string \<Rightarrow> 'f message" where
  "Message_init i nm sz transmitter =
     \<lparr>msg_id = i, msg_name = nm, msg_size = sz,
      transmitters = [transmitter],
      signals = [], signals_dict = [],
      msg_comments = [], msg_attributes = [], signal_groups = [],
      sigs = []\<rparr>"

definition Message_append :: "'f signal \<Rightarrow> 'f message \<Rightarrow> 'f message" where
  \<comment> \<open>the new object gets the next free place of the store\<close>
  "Message_append sg m =
     m\<lparr>sigs := sigs m @ [sg],
       signals := signals m @ [length (sigs m)],
       signals_dict := AList.update (sig_name sg) (length (sigs m)) (signals_dict m)\<rparr>"

definition update_sig :: "sigref \<Rightarrow> ('f signal \<Rightarrow> 'f signal) \<Rightarrow> 'f message \<Rightarrow> 'f message" where
  \<comment> \<open>a change of the object a reference points to\<close>
  "update_sig r f m = m\<lparr>sigs := (sigs m)[r := f (sigs m ! r)]\<rparr>"

section \<open>The model builder\<close>

text \<open>
  \<open>Bus.__init__\<close>, with the defaults \<open>usermode=True\<close>, \<open>debugmode=None\<close> (nothing is
  printed).  Warnings go to a side channel and are left out.  Numbers in messages are
  formatted in decimal.
\<close>

fun str_nat :: "nat \<Rightarrow> string" where
  "str_nat k =
     (if k < 10 then [''0123456789'' ! k]
      else str_nat (k div 10) @ [''0123456789'' ! (k mod 10)])"

declare str_nat.simps [simp del]

definition str_int :: "int \<Rightarrow> string" where
  "str_int i = (if i < 0 then CHR ''-'' # str_nat (nat (- i)) else str_nat (nat i))"

definition ebind :: "error + 'a \<Rightarrow> ('a \<Rightarrow> error + 'b) \<Rightarrow> error + 'b" where
  "ebind r f = (case r of Inl e \<Rightarrow> Inl e | Inr a \<Rightarrow> f a)"

fun for_each :: "('a \<Rightarrow> 's \<Rightarrow> error + 's) \<Rightarrow> 'a list \<Rightarrow> 's \<Rightarrow> error + 's" where
  "for_each body [] s = Inr s"
| "for_each body (x # xs) s =
     (case body x s of Inl e \<Rightarrow> Inl e | Inr s' \<Rightarrow> for_each body xs s')"

definition xtract_sec ::
  "string \<Rightarrow> 'f dbc_section list \<Rightarrow> 'f dbc_section list \<times> 'f dbc_section list" where
  \<comment> \<open>\<open>_xtract_sec\<close>: the sections of a tag in their order, and the list without them\<close>
  "xtract_sec sec seclist =
     (filter (\<lambda>t. sec_tag t = sec) seclist, filter (\<lambda>t. sec_tag t \<noteq> sec) seclist)"

definition one_section ::
  "string \<Rightarrow> 'f dbc_section list \<Rightarrow> error + ('f dbc_section \<times> 'f dbc_section list)" where
  \<comment> \<open>a mandatory section: exactly one\<close>
  "one_section sec seclist =
     (case xtract_sec sec seclist of
        (sl, seclist') \<Rightarrow>
          if length sl = 0 then
            Inl (DatabaseError (''missing section: \"'' @ sec @ ''\"''))
          else if length sl > 1 then
            Inl (DatabaseError (''more than one section of type \"'' @ sec @ ''\"''))
          else Inr (sl ! 0, seclist'))"

definition each_section ::
  "string \<Rightarrow> ('f dbc_section \<Rightarrow> 'f bus \<Rightarrow> error + 'f bus)
     \<Rightarrow> 'f bus \<times> 'f dbc_section list \<Rightarrow> error + ('f bus \<times> 'f dbc_section list)" where
  \<comment> \<open>\<open>for c in self._xtract_sec(seclist, sec): body\<close>\<close>
  "each_section sec body bs =
     (case xtract_sec sec (snd bs) of
        (sl, seclist') \<Rightarrow> ebind (for_each body sl (fst bs)) (\<lambda>b. Inr (b, seclist')))"

definition keep_first :: "'a list \<Rightarrow> 'a list" where
  \<comment> \<open>order kept, later duplicates dropped: \<open>list(dict.fromkeys(nl))\<close>\<close>
  "keep_first xs = fold (\<lambda>x ys. if x \<in> set ys then ys else ys @ [x]) xs []"

definition empty_bus :: "'f bus" where
  "empty_bus =
     \<lparr>version = [], baudrate = None, btr = None, nodes = [], newsymbols = [],
      global_values = [], messages = [], bus_comments = [], attrib_typedefs = [],
      attrib_defaults = [], bus_attributes = []\<rparr>"

definition update_msg :: "nat \<Rightarrow> 'f message \<Rightarrow> 'f bus \<Rightarrow> 'f bus" where
  \<comment> \<open>the message object under an id, after a change\<close>
  "update_msg i m b = b\<lparr>messages := AList.update i m (messages b)\<rparr>"

subsection \<open>Mandatory sections\<close>

definition stage_VERSION ::
  "'f bus \<times> 'f dbc_section list \<Rightarrow> error + ('f bus \<times> 'f dbc_section list)" where
  "stage_VERSION bs =
     ebind (one_section ''VERSION'' (snd bs))
       (\<lambda>(t, seclist).
          case t of Sec_VERSION v \<Rightarrow> Inr ((fst bs)\<lparr>version := v\<rparr>, seclist)
                  | _ \<Rightarrow> Inr (fst bs, seclist))"

definition stage_BS ::
  "'f bus \<times> 'f dbc_section list \<Rightarrow> error + ('f bus \<times> 'f dbc_section list)" where
  "stage_BS bs =
     ebind (one_section ''BS_'' (snd bs))
       (\<lambda>(t, seclist).
          case t of
            Sec_BS (Some (br, b1, b2)) \<Rightarrow>
              Inr ((fst bs)\<lparr>baudrate := Some br, btr := Some (b1, b2)\<rparr>, seclist)
          | Sec_BS None \<Rightarrow> Inr ((fst bs)\<lparr>baudrate := None, btr := None\<rparr>, seclist)
          | _ \<Rightarrow> Inr (fst bs, seclist))"

definition stage_BU ::
  "'f bus \<times> 'f dbc_section list \<Rightarrow> error + ('f bus \<times> 'f dbc_section list)" where
  "stage_BU bs =
     ebind (one_section ''BU_'' (snd bs))
       (\<lambda>(t, seclist).
          case t of
            Sec_BU nl0 \<Rightarrow>
              let not_unique = length nl0 - length (remdups nl0);
                  nl = (if not_unique \<noteq> 0 then keep_first nl0 else nl0)
              in Inr ((fst bs)\<lparr>nodes :=
                        fold (\<lambda>node d. AList.update node
                                \<lparr>node_comments = [], node_attributes = []\<rparr> d) nl []\<rparr>,
                      seclist)
          | _ \<Rightarrow> Inr (fst bs, seclist))"

subsection \<open>Optional sections\<close>

definition stage_NS ::
  "'f bus \<times> 'f dbc_section list \<Rightarrow> error + ('f bus \<times> 'f dbc_section list)" where
  "stage_NS bs =
     (case xtract_sec ''NS_'' (snd bs) of
        (sl, seclist) \<Rightarrow>
          if length sl = 0 then Inr ((fst bs)\<lparr>newsymbols := []\<rparr>, seclist)
          else if length sl > 1 then
            Inl (DatabaseError ''more than one section of type \"NS_\"'')
          else
            (case sl ! 0 of
               Sec_NS l \<Rightarrow> Inr ((fst bs)\<lparr>newsymbols := l\<rparr>, seclist)
             | _ \<Rightarrow> Inr (fst bs, seclist)))"

fun val_table_body :: "'f dbc_section \<Rightarrow> 'f bus \<Rightarrow> error + 'f bus" where
  "val_table_body (Sec_VAL_TABLE tabname tab) b =
     (if has_key (global_values b) tabname then
        Inl (DatabaseError (''multiply defined table \"'' @ tabname @ ''\"''))
      else
        let vals = fold (\<lambda>t d. AList.update (fst t) (snd t) d)
                     (sort_key (\<lambda>x. - fst x) tab) []
        in Inr (b\<lparr>global_values := AList.update tabname vals (global_values b)\<rparr>))"
| "val_table_body _ b = Inr b"

fun bo_body :: "'f dbc_section \<Rightarrow> 'f bus \<Rightarrow> error + 'f bus" where
  "bo_body (Sec_BO msg_d) b =
     (let msg = Message_init (md_id msg_d) (md_name msg_d) (md_size msg_d)
                  (md_transmitter msg_d)
      in if has_key (messages b) (msg_id msg) then
           Inl (DatabaseError (''multiple definitions of message '' @ str_nat (msg_id msg)
                               @ '' '' @ msg_name msg @ '' ''))
         else
           Inr (update_msg (msg_id msg)
                  (fold (\<lambda>sig_d. Message_append (Signal_init sig_d)) (md_signals msg_d) msg)
                  b))"
| "bo_body _ b = Inr b"

definition add_transmitter :: "'f bus \<Rightarrow> string \<Rightarrow> 'f message \<Rightarrow> error + 'f message" where
  "add_transmitter b tx msg =
     (if \<not> has_key (nodes b) tx then
        Inl (DatabaseError (''transmitter \"'' @ tx @ ''\" not among defined nodes''))
      else if tx \<notin> set (transmitters msg) then
        Inr (msg\<lparr>transmitters := transmitters msg @ [tx]\<rparr>)
      else Inr msg)"

fun bo_tx_bu_body :: "'f dbc_section \<Rightarrow> 'f bus \<Rightarrow> error + 'f bus" where
  "bo_tx_bu_body (Sec_BO_TX_BU i txs) b =
     (case map_of (messages b) i of
        None \<Rightarrow>
          Inl (DatabaseError (''undefined message id \"'' @ str_nat i
                              @ ''\" in BO_TX_BU-statement''))
      | Some msg \<Rightarrow>
          ebind (for_each (add_transmitter b) txs msg) (\<lambda>msg'. Inr (update_msg i msg' b)))"
| "bo_tx_bu_body _ b = Inr b"

text \<open>
  In the \<open>BU_\<close> branch of \<open>CM_\<close> and in \<open>BA_DEF_DEF_\<close> the source calls
  \<open>DatabaseError\<close> with two arguments where its constructor takes one: the call itself
  raises \<open>TypeError\<close>.
\<close>

fun cm_body :: "'f dbc_section \<Rightarrow> 'f bus \<Rightarrow> error + 'f bus" where
  "cm_body (Sec_CM sp c) b =
     (case sp of
        Spec_Global \<Rightarrow> Inr (b\<lparr>bus_comments := bus_comments b @ [c]\<rparr>)
      | Spec_BU nm \<Rightarrow>
          (case map_of (nodes b) nm of
             Some nd \<Rightarrow>
               Inr (b\<lparr>nodes := AList.update nm
                         (nd\<lparr>node_comments := node_comments nd @ [c]\<rparr>) (nodes b)\<rparr>)
           | None \<Rightarrow> Inl TypeError)
      | Spec_BO i \<Rightarrow>
          (case map_of (messages b) i of
             Some msg \<Rightarrow> Inr (update_msg i (msg\<lparr>msg_comments := msg_comments msg @ [c]\<rparr>) b)
           | None \<Rightarrow>
               Inl (DatabaseError (''comment for undefined message \"'' @ str_nat i @ ''\"'')))
      | Spec_SG i nm \<Rightarrow>
          (case map_of (messages b) i of
             Some msg \<Rightarrow>
               (case map_of (signals_dict msg) nm of
                  Some r \<Rightarrow>
                    Inr (update_msg i
                           (update_sig r (\<lambda>sg. sg\<lparr>sig_comments := sig_comments sg @ [c]\<rparr>) msg)
                           b)
                | None \<Rightarrow>
                    Inl (DatabaseError (''comment for undefined signal \"'' @ nm
                                        @ ''\" in message \"'' @ str_nat i @ ''\"'')))
           | None \<Rightarrow>
               Inl (DatabaseError (''comment for signal \"'' @ nm
                                   @ ''\" in undefined message \"'' @ str_nat i @ ''\"'')))
      | Spec_EV nm \<Rightarrow> Inl (DatabaseError ''CM_ EV_ not implented''))"
| "cm_body _ b = Inr b"

fun ba_def_body :: "'f dbc_section \<Rightarrow> 'f bus \<Rightarrow> error + 'f bus" where
  "ba_def_body (Sec_BA_DEF ct nm typ) b =
     (case map_of (attrib_typedefs b) ct of
        None \<Rightarrow>
          Inl (DatabaseError (''unknown object type \"'' @ ct @ ''\" in BA_DEF_''))
      | Some d \<Rightarrow>
          if has_key d nm then
            Inl (DatabaseError (''attribute \"'' @ nm @ ''\" already defined for \"''
                                @ ct @ ''\"''))
          else
            Inr (b\<lparr>attrib_typedefs :=
                     AList.update ct (AList.update nm typ d) (attrib_typedefs b)\<rparr>))"
| "ba_def_body _ b = Inr b"

fun ba_def_def_body :: "'f dbc_section \<Rightarrow> 'f bus \<Rightarrow> error + 'f bus" where
  "ba_def_def_body (Sec_BA_DEF_DEF nm val) b =
     (if has_key (attrib_defaults b) nm then Inl TypeError
      else Inr (b\<lparr>attrib_defaults := AList.update nm val (attrib_defaults b)\<rparr>))"
| "ba_def_def_body _ b = Inr b"

text \<open>
  \<open>BA_\<close>.  The global, node and message branches store the value.  The signal branch
  looks the signal up and checks for a second definition, and stores nothing: the source
  has no assignment there.  Its three error messages are formatted with \<open>sig\<close>, a local
  variable of \<open>__init__\<close> that is assigned only further down, so that evaluating them
  raises \<open>UnboundLocalError\<close>, a \<open>NameError\<close>.
\<close>

fun ba_body :: "'f dbc_section \<Rightarrow> 'f bus \<Rightarrow> error + 'f bus" where
  "ba_body (Sec_BA nm d val) b =
     (case d of
        Spec_Global \<Rightarrow>
          if has_key (bus_attributes b) nm then
            Inl (DatabaseError (''general attribute \"'' @ nm @ ''\" multiply defined ''))
          else Inr (b\<lparr>bus_attributes := AList.update nm val (bus_attributes b)\<rparr>)
      | Spec_BU node \<Rightarrow>
          (case map_of (nodes b) node of
             None \<Rightarrow>
               Inl (DatabaseError (''unknown node \"'' @ node
                                   @ ''\" in attribute value statement''))
           | Some nd \<Rightarrow>
               if has_key (node_attributes nd) nm then
                 Inl (DatabaseError (''attribute \"'' @ nm @ ''\" multiply defined for node \"''
                                     @ node @ ''\"''))
               else
                 Inr (b\<lparr>nodes := AList.update node
                           (nd\<lparr>node_attributes := AList.update nm val (node_attributes nd)\<rparr>)
                           (nodes b)\<rparr>))
      | Spec_BO i \<Rightarrow>
          (case map_of (messages b) i of
             None \<Rightarrow>
               Inl (DatabaseError (''unknown message id \"'' @ str_nat i
                                   @ ''\" in attribute value statement''))
           | Some msg \<Rightarrow>
               if has_key (msg_attributes msg) nm then
                 Inl (DatabaseError (''attribute \"'' @ nm
                                     @ ''\" multiply defined for message \"'' @ str_nat i @ ''\"''))
               else
                 Inr (update_msg i
                        (msg\<lparr>msg_attributes := AList.update nm val (msg_attributes msg)\<rparr>) b))
      | Spec_SG i signame \<Rightarrow>
          (case map_of (messages b) i of
             None \<Rightarrow> Inl (NameError ''sig'')
           | Some msg \<Rightarrow>
               (case map_of (signals_dict msg) signame of
                  None \<Rightarrow> Inl (NameError ''sig'')
                | Some r \<Rightarrow>
                    if has_key (sig_attributes (sigs msg ! r)) nm then Inl (NameError ''sig'')
                    else Inr b))
      | Spec_EV ev \<Rightarrow> Inl (DatabaseError ''attributes for EV_ not implemented''))"
| "ba_body _ b = Inr b"

fun val_body :: "'f dbc_section \<Rightarrow> 'f bus \<Rightarrow> error + 'f bus" where
  "val_body (Sec_VAL i signame vals) b =
     (case map_of (messages b) i of
        None \<Rightarrow>
          Inl (DatabaseError (''unknown message id \"'' @ str_nat i
                              @ ''\" in signal value description for signal \"''
                              @ signame @ ''\"''))
      | Some msg \<Rightarrow>
          (case map_of (signals_dict msg) signame of
             None \<Rightarrow>
               Inl (DatabaseError (''unknown message - signal designation \"'' @ str_nat i
                                   @ ''\" - \"'' @ signame
                                   @ ''\" in signal value description''))
           | Some r \<Rightarrow>
               Inr (update_msg i
                      (update_sig r
                         (\<lambda>sg. sg\<lparr>value_descriptions :=
                                   fold (\<lambda>t. AList.update (fst t) (snd t)) vals
                                     (value_descriptions sg)\<rparr>)
                         msg)
                      b)))"
| "val_body _ b = Inr b"

text \<open>
  \<open>SIG_GROUP_\<close>.  Both of its semantic checks build their message from a misspelt
  name, \<open>goup_name\<close> in the first and \<open>groupname\<close> in the second, where the variable is
  \<open>group_name\<close>: evaluating the message raises \<open>NameError\<close> before any
  \<open>DatabaseError\<close> exists.
\<close>

fun sig_group_body :: "'f dbc_section \<Rightarrow> 'f bus \<Rightarrow> error + 'f bus" where
  "sig_group_body (Sec_SIG_GROUP i group_name number names) b =
     (case map_of (messages b) i of
        None \<Rightarrow>
          Inl (DatabaseError (''unknown message id \"'' @ str_nat i
                              @ ''\" in definition of signal group \"'' @ group_name @ ''\"''))
      | Some msg \<Rightarrow>
          if has_key (signal_groups msg) group_name then Inl (NameError ''goup_name'')
          else
            let sgs = keep_first names;
                undef = filter (\<lambda>nm. \<not> has_key (signals_dict msg) nm) sgs
            in if undef \<noteq> [] then Inl (NameError ''groupname'')
               else
                 Inr (update_msg i
                        (msg\<lparr>signal_groups :=
                               AList.update group_name \<lparr>sg_n = number, sg_names = sgs\<rparr>
                                 (signal_groups msg)\<rparr>)
                        b))"
| "sig_group_body _ b = Inr b"

fun sig_valtype_body :: "'f dbc_section \<Rightarrow> 'f bus \<Rightarrow> error + 'f bus" where
  "sig_valtype_body (Sec_SIG_VALTYPE i signame tn) b =
     (case map_of (messages b) i of
        None \<Rightarrow>
          Inl (DatabaseError (''unknown message id \"'' @ str_nat i
                              @ ''\" in signal value-type statement for signal \"''
                              @ signame @ ''\"''))
      | Some msg \<Rightarrow>
          (case map_of (signals_dict msg) signame of
             None \<Rightarrow>
               Inl (DatabaseError (''unknown message - signal desgination \"'' @ str_nat i
                                   @ ''\" - \"'' @ signame
                                   @ ''\" in signal value-type statement''))
           | Some r \<Rightarrow>
               Inr (update_msg i (update_sig r (\<lambda>sg. sg\<lparr>value_type := Some tn\<rparr>) msg) b)))"
| "sig_valtype_body _ b = Inr b"

subsection \<open>Multiplexing\<close>

text \<open>
  For a message with one multiplexor among its top-level signals: every top-level signal
  with a multiplex value goes into the multiplexor's switch, under the range of that one
  value, and leaves the top-level list.  \<open>list.remove\<close> raises \<open>ValueError\<close> for a
  missing element.
\<close>

definition list_remove :: "'a \<Rightarrow> 'a list \<Rightarrow> error + 'a list" where
  "list_remove x xs = (if x \<in> set xs then Inr (remove1 x xs) else Inl ValueError)"

definition mux_one :: "sigref \<Rightarrow> sigref \<Rightarrow> 'f message \<Rightarrow> error + 'f message" where
  \<comment> \<open>the body of \<open>for sig in multiplexed\<close>\<close>
  "mux_one mux sg msg =
     (case multiplex_value (sigs msg ! sg) of
        None \<Rightarrow> Inl TypeError
      | Some v \<Rightarrow>
          if multiplexes (sigs msg ! mux) v then
            let msg1 = update_sig mux
                         (\<lambda>m. m\<lparr>switch := Switch_append (Range_init v v) sg (switch m)\<rparr>) msg
            in ebind (list_remove sg (signals msg1)) (\<lambda>l. Inr (msg1\<lparr>signals := l\<rparr>))
          else
            Inl (DatabaseError (''multiplex value for signal \"'' @ sig_name (sigs msg ! sg)
                                @ ''\" in message \"'' @ str_nat (msg_id msg)
                                @ ''\" is not in range of multiplexor \"''
                                @ sig_name (sigs msg ! mux) @ ''\"'')))"

definition organize_mux :: "'f message \<Rightarrow> error + 'f message" where
  "organize_mux msg =
     (let muxes = filter (\<lambda>r. is_multiplexor (sigs msg ! r)) (signals msg);
          multiplexed = filter (\<lambda>r. multiplex_value (sigs msg ! r) \<noteq> None) (signals msg)
      in if length muxes = 1 then for_each (mux_one (last muxes)) multiplexed msg
         else Inr msg)"

fun each_message ::
  "('f message \<Rightarrow> error + 'f message) \<Rightarrow> (nat \<times> 'f message) list
     \<Rightarrow> error + (nat \<times> 'f message) list" where
  "each_message f [] = Inr []"
| "each_message f (p # ps) =
     (case f (snd p) of
        Inl e \<Rightarrow> Inl e
      | Inr m \<Rightarrow> (case each_message f ps of Inl e \<Rightarrow> Inl e | Inr ps' \<Rightarrow> Inr ((fst p, m) # ps')))"

definition stage_mux ::
  "'f bus \<times> 'f dbc_section list \<Rightarrow> error + ('f bus \<times> 'f dbc_section list)" where
  "stage_mux bs =
     ebind (each_message organize_mux (messages (fst bs)))
       (\<lambda>ms. Inr ((fst bs)\<lparr>messages := ms\<rparr>, snd bs))"

fun sg_mul_val_body :: "'f dbc_section \<Rightarrow> 'f bus \<Rightarrow> error + 'f bus" where
  "sg_mul_val_body (Sec_SG_MUL_VAL i signame muxname ranges) b =
     (case map_of (messages b) i of
        None \<Rightarrow>
          Inl (DatabaseError (''unknown message id \"'' @ str_nat i
                              @ ''\" in extended multiplexing statement for signal \"''
                              @ signame @ ''\" and mux \"'' @ muxname @ ''\" ''))
      | Some msg \<Rightarrow>
          (case map_of (signals_dict msg) signame of
             None \<Rightarrow>
               Inl (DatabaseError (''unknown signal name \"'' @ signame
                                   @ ''\" in extended multiplexing statement for message id \"''
                                   @ str_nat i @ ''\"''))
           | Some sg \<Rightarrow>
               (case map_of (signals_dict msg) muxname of
                  None \<Rightarrow>
                    Inl (DatabaseError (''unknown multiplexor name \"'' @ muxname
                           @ ''\" in extended multiplexing statement for message id \"''
                           @ str_nat i @ ''\"''))
                | Some mux \<Rightarrow>
                    if \<not> is_multiplexor (sigs msg ! mux) then
                      Inl (DatabaseError (''named multiplexor \"'' @ muxname
                             @ ''\" in extended multiplexing statement for message id \"''
                             @ str_nat i @ ''\" is not a multiplexor''))
                    else if sg \<in> set (signals msg) then
                      Inr (update_msg i
                             (fold (\<lambda>r0. update_sig mux
                                       (\<lambda>m. m\<lparr>switch :=
                                              Switch_append (Range_of_pair r0) sg (switch m)\<rparr>))
                                ranges
                                (msg\<lparr>signals := remove1 sg (signals msg)\<rparr>))
                             b)
                    else
                      Inl (DatabaseError (''signal \"'' @ signame @ ''\" in message \"''
                             @ str_nat i @ ''\" multiplexed be more than one multiplexor'')))))"
| "sg_mul_val_body _ b = Inr b"

definition nonmuxed :: "'f bus \<Rightarrow> (nat \<times> string) list" where
  \<comment> \<open>the top-level signals that still have a multiplex value, with their message's id\<close>
  "nonmuxed b =
     concat (map (\<lambda>p.
               map (\<lambda>r. (msg_id (snd p), sig_name (sigs (snd p) ! r)))
                 (filter (\<lambda>r. multiplex_value (sigs (snd p) ! r) \<noteq> None) (signals (snd p))))
             (messages b))"

definition stage_nonmuxed ::
  "'f bus \<times> 'f dbc_section list \<Rightarrow> error + ('f bus \<times> 'f dbc_section list)" where
  "stage_nonmuxed bs =
     (if nonmuxed (fst bs) \<noteq> [] then
        Inl (DatabaseError
               (''there were signals with unspecified multiplexor: ''
                @ concat (map (\<lambda>t. [CHR 0x0A] @ ''    \"'' @ str_nat (fst t) @ ''\": \"''
                                    @ snd t @ ''\"'')
                            (nonmuxed (fst bs)))))
      else if snd bs \<noteq> [] then Inl (Exception ''sections left to unpack: '')
      else Inr bs)"

subsection \<open>The constructor\<close>

definition typedefs_init :: "(string \<times> (string \<times> 'f ba_typ) list) list" where
  "typedefs_init = [([], []), (''BU_'', []), (''BO_'', []), (''SG_'', []), (''EV_'', [])]"

definition stages_sections ::
  "'f bus \<times> 'f dbc_section list \<Rightarrow> error + ('f bus \<times> 'f dbc_section list)" where
  \<comment> \<open>the sections from \<open>VERSION\<close> to \<open>SIG_VALTYPE_\<close>, in the order of the source\<close>
  "stages_sections bs0 =
     ebind (stage_VERSION bs0) (\<lambda>bs.
     ebind (stage_BS bs) (\<lambda>bs.
     ebind (stage_BU bs) (\<lambda>bs.
     ebind (stage_NS bs) (\<lambda>bs.
     ebind (each_section ''VAL_TABLE_'' val_table_body bs) (\<lambda>bs.
     ebind (each_section ''BO_'' bo_body bs) (\<lambda>bs.
     ebind (each_section ''BO_TX_BU_'' bo_tx_bu_body bs) (\<lambda>bs.
     ebind (each_section ''CM_'' cm_body bs) (\<lambda>bs.
     ebind (each_section ''BA_DEF_'' ba_def_body
              ((fst bs)\<lparr>attrib_typedefs := typedefs_init\<rparr>, snd bs)) (\<lambda>bs.
     ebind (each_section ''BA_DEF_DEF_'' ba_def_def_body bs) (\<lambda>bs.
     ebind (each_section ''BA_'' ba_body bs) (\<lambda>bs.
     ebind (each_section ''VAL_'' val_body bs) (\<lambda>bs.
     ebind (each_section ''SIG_GROUP_'' sig_group_body bs) (\<lambda>bs.
     each_section ''SIG_VALTYPE_'' sig_valtype_body bs)))))))))))))"

definition Bus_init :: "'f dbc_section list \<Rightarrow> error + 'f bus" where
  "Bus_init seclist0 =
     ebind (stages_sections (empty_bus, seclist0)) (\<lambda>bs.
     ebind (stage_mux bs) (\<lambda>bs.
     ebind (each_section ''SG_MUL_VAL_'' sg_mul_val_body bs) (\<lambda>bs.
     ebind (stage_nonmuxed bs) (\<lambda>bs. Inr (fst bs)))))"

section \<open>Invariants of the builder\<close>

definition msg_inv :: "'f message \<Rightarrow> bool" where
  "msg_inv m \<longleftrightarrow>
     distinct (transmitters m) \<and>
     distinct (map fst (signals_dict m)) \<and>
     (\<forall>p \<in> set (signals_dict m).
        snd p < length (sigs m) \<and> sig_name (sigs m ! snd p) = fst p) \<and>
     sig_name ` set (sigs m) = fst ` set (signals_dict m) \<and>
     (\<forall>r \<in> set (signals m). r < length (sigs m)) \<and>
     (\<forall>sg \<in> set (sigs m). \<forall>e \<in> set (switch sg). snd e < length (sigs m))"

definition msg_fresh :: "'f message \<Rightarrow> bool" where
  "msg_fresh m \<longleftrightarrow>
     signals m = [0..<length (sigs m)] \<and> (\<forall>sg \<in> set (sigs m). switch sg = [])"

definition all_msgs :: "('f message \<Rightarrow> bool) \<Rightarrow> 'f bus \<Rightarrow> bool" where
  "all_msgs P b \<longleftrightarrow> (\<forall>p \<in> set (messages b). P (snd p))"

lemma for_each_preserves:
  assumes "\<And>x s s'. P s \<Longrightarrow> body x s = Inr s' \<Longrightarrow> P s'"
    and "P s" and "for_each body xs s = Inr s'"
  shows "P s'"
  using assms(2,3)
proof (induction xs arbitrary: s)
  case Nil
  then show ?case by simp
next
  case (Cons x xs)
  then show ?case by (auto split: sum.splits dest: assms(1))
qed

lemma each_section_preserves:
  assumes "\<And>c b b'. Q b \<Longrightarrow> body c b = Inr b' \<Longrightarrow> Q b'"
    and "Q (fst bs)" and "each_section sec body bs = Inr bs'"
  shows "Q (fst bs')"
proof -
  from assms(3) obtain b' where
    b': "for_each body (filter (\<lambda>t. sec_tag t = sec) (snd bs)) (fst bs) = Inr b'"
    and "fst bs' = b'"
    by (auto simp: each_section_def ebind_def xtract_sec_def split: sum.splits)
  from for_each_preserves[of Q body, OF assms(1) assms(2) b'] \<open>fst bs' = b'\<close>
  show ?thesis by simp
qed

lemma set_alist_update: "set (AList.update k v al) \<subseteq> insert (k, v) (set al)"
  by (induction al) auto

lemma all_msgs_update_msg:
  "all_msgs P b \<Longrightarrow> P m \<Longrightarrow> all_msgs P (update_msg i m b)"
  using set_alist_update[of i m "messages b"]
  by (auto simp: all_msgs_def update_msg_def)

lemma all_msgs_lookup:
  "all_msgs P b \<Longrightarrow> map_of (messages b) i = Some m \<Longrightarrow> P m"
  by (force simp: all_msgs_def dest: map_of_SomeD)

lemma all_msgs_other_fields [simp]:
  "all_msgs P (b\<lparr>version := v\<rparr>) = all_msgs P b"
  "all_msgs P (b\<lparr>baudrate := br\<rparr>) = all_msgs P b"
  "all_msgs P (b\<lparr>btr := bt\<rparr>) = all_msgs P b"
  "all_msgs P (b\<lparr>nodes := nd\<rparr>) = all_msgs P b"
  "all_msgs P (b\<lparr>newsymbols := ns\<rparr>) = all_msgs P b"
  "all_msgs P (b\<lparr>global_values := gv\<rparr>) = all_msgs P b"
  "all_msgs P (b\<lparr>bus_comments := bc\<rparr>) = all_msgs P b"
  "all_msgs P (b\<lparr>attrib_typedefs := td\<rparr>) = all_msgs P b"
  "all_msgs P (b\<lparr>attrib_defaults := ad\<rparr>) = all_msgs P b"
  "all_msgs P (b\<lparr>bus_attributes := ba\<rparr>) = all_msgs P b"
  by (simp_all add: all_msgs_def)

subsection \<open>Steps on a message\<close>

lemma map_update_same:
  assumes "g (f (xs ! r)) = g (xs ! r)"
  shows "map g (xs[r := f (xs ! r)]) = map g xs"
proof (cases "r < length xs")
  case True
  then show ?thesis using assms by (simp add: map_update list_update_same_conv)
next
  case False
  then show ?thesis by (simp add: list_update_beyond)
qed

lemma sigs_update_sig_length [simp]: "length (sigs (update_sig r f m)) = length (sigs m)"
  by (simp add: update_sig_def)

lemma update_sig_fields [simp]:
  "transmitters (update_sig r f m) = transmitters m"
  "signals_dict (update_sig r f m) = signals_dict m"
  "signals (update_sig r f m) = signals m"
  "msg_id (update_sig r f m) = msg_id m"
  by (simp_all add: update_sig_def)

lemma msg_inv_init: "msg_inv (Message_init i nm sz tx)"
  by (simp add: msg_inv_def Message_init_def)

lemma msg_fresh_init: "msg_fresh (Message_init i nm sz tx)"
  by (simp add: msg_fresh_def Message_init_def)

lemma msg_inv_append:
  assumes "msg_inv m" and "switch sg = []"
  shows "msg_inv (Message_append sg m)"
proof -
  let ?d = "AList.update (sig_name sg) (length (sigs m)) (signals_dict m)"
  have sub: "set ?d \<subseteq> insert (sig_name sg, length (sigs m)) (set (signals_dict m))"
    by (rule set_alist_update)
  have dict: "\<forall>p \<in> set ?d.
          snd p < length (sigs m @ [sg]) \<and> sig_name ((sigs m @ [sg]) ! snd p) = fst p"
  proof
    fix p assume "p \<in> set ?d"
    with sub have "p = (sig_name sg, length (sigs m)) \<or> p \<in> set (signals_dict m)" by auto
    then show "snd p < length (sigs m @ [sg]) \<and> sig_name ((sigs m @ [sg]) ! snd p) = fst p"
      using assms(1) by (auto simp: msg_inv_def nth_append)
  qed
  have keys: "fst ` set ?d = insert (sig_name sg) (fst ` set (signals_dict m))"
    by (simp add: dom_update)
  have names: "sig_name ` set (sigs m @ [sg]) = fst ` set ?d"
    using assms(1) keys by (auto simp: msg_inv_def)
  have sw: "\<forall>s \<in> set (sigs m @ [sg]). \<forall>e \<in> set (switch s). snd e < length (sigs m @ [sg])"
    using assms by (auto simp: msg_inv_def less_Suc_eq)
  have top: "\<forall>r \<in> set (signals m @ [length (sigs m)]). r < length (sigs m @ [sg])"
    using assms(1) by (auto simp: msg_inv_def less_Suc_eq)
  show ?thesis
    unfolding msg_inv_def Message_append_def
    using assms(1) dict names sw top by (simp add: msg_inv_def distinct_update)
qed

lemma msg_fresh_append:
  assumes "msg_fresh m" and "switch sg = []"
  shows "msg_fresh (Message_append sg m)"
  using assms by (auto simp: msg_fresh_def Message_append_def)

lemma Signal_init_switch [simp]: "switch (Signal_init d) = []"
  by (simp add: Signal_init_def)

lemma fold_append_inv:
  "msg_inv m \<and> msg_fresh m \<Longrightarrow>
   msg_inv (fold (\<lambda>sig_d. Message_append (Signal_init sig_d)) ds m)
   \<and> msg_fresh (fold (\<lambda>sig_d. Message_append (Signal_init sig_d)) ds m)"
  by (induction ds arbitrary: m) (simp_all add: msg_inv_append msg_fresh_append)

text \<open>A change of a signal object that keeps its name and its switch.\<close>

lemma set_sigs_update_sig:
  assumes "sg \<in> set (sigs (update_sig r f m))"
  shows "sg \<in> set (sigs m) \<or> (r < length (sigs m) \<and> sg = f (sigs m ! r))"
  using assms set_update_subset_insert[of "sigs m" r "f (sigs m ! r)"]
  by (cases "r < length (sigs m)") (auto simp: update_sig_def list_update_beyond)

lemma names_update_sig:
  assumes "\<And>sg. sig_name (f sg) = sig_name sg"
  shows "map sig_name (sigs (update_sig r f m)) = map sig_name (sigs m)"
  unfolding update_sig_def using assms by (simp add: map_update_same)

lemma name_nth_update_sig:
  assumes "\<And>sg. sig_name (f sg) = sig_name sg" and "k < length (sigs m)"
  shows "sig_name (sigs (update_sig r f m) ! k) = sig_name (sigs m ! k)"
  using assms by (cases "k = r") (auto simp: update_sig_def)

lemma msg_inv_update_sig:
  assumes "msg_inv m" and "\<And>sg. sig_name (f sg) = sig_name sg"
    and "\<And>sg. \<forall>e \<in> set (switch (f sg)). e \<in> set (switch sg) \<or> snd e < length (sigs m)"
  shows "msg_inv (update_sig r f m)"
proof -
  have names: "sig_name ` set (sigs (update_sig r f m)) = sig_name ` set (sigs m)"
    using names_update_sig[of f r m, OF assms(2)] by (metis set_map)
  have sw: "\<forall>sg \<in> set (sigs (update_sig r f m)). \<forall>e \<in> set (switch sg). snd e < length (sigs m)"
  proof (intro ballI)
    fix sg e assume sg: "sg \<in> set (sigs (update_sig r f m))" and e: "e \<in> set (switch sg)"
    from set_sigs_update_sig[OF sg] show "snd e < length (sigs m)"
    proof
      assume "sg \<in> set (sigs m)"
      with e assms(1) show ?thesis by (auto simp: msg_inv_def)
    next
      assume r: "r < length (sigs m) \<and> sg = f (sigs m ! r)"
      with e assms(3)[of "sigs m ! r"]
      have "e \<in> set (switch (sigs m ! r)) \<or> snd e < length (sigs m)" by auto
      with r assms(1) show ?thesis by (auto simp: msg_inv_def)
    qed
  qed
  show ?thesis
    unfolding msg_inv_def
    using assms(1) names sw name_nth_update_sig[of f _ m r, OF assms(2)]
    by (auto simp: msg_inv_def)
qed

lemma msg_fresh_update_sig:
  assumes "msg_fresh m" and "\<And>sg. switch (f sg) = switch sg"
  shows "msg_fresh (update_sig r f m)"
proof -
  have "\<forall>sg \<in> set (sigs (update_sig r f m)). switch sg = []"
    using assms by (auto simp: msg_fresh_def dest!: set_sigs_update_sig)
  with assms(1) show ?thesis by (simp add: msg_fresh_def)
qed

lemma msg_inv_other_fields [simp]:
  "msg_inv (m\<lparr>msg_comments := c\<rparr>) = msg_inv m"
  "msg_inv (m\<lparr>msg_attributes := a\<rparr>) = msg_inv m"
  "msg_inv (m\<lparr>signal_groups := g\<rparr>) = msg_inv m"
  by (simp_all add: msg_inv_def)

lemma msg_fresh_other_fields [simp]:
  "msg_fresh (m\<lparr>msg_comments := c\<rparr>) = msg_fresh m"
  "msg_fresh (m\<lparr>msg_attributes := a\<rparr>) = msg_fresh m"
  "msg_fresh (m\<lparr>signal_groups := g\<rparr>) = msg_fresh m"
  "msg_fresh (m\<lparr>transmitters := t\<rparr>) = msg_fresh m"
  by (simp_all add: msg_fresh_def)

lemma msg_inv_transmitters:
  "msg_inv m \<Longrightarrow> distinct t \<Longrightarrow> msg_inv (m\<lparr>transmitters := t\<rparr>)"
  by (simp add: msg_inv_def)

lemma msg_inv_distinct: "msg_inv m \<Longrightarrow> distinct (transmitters m)"
  by (simp add: msg_inv_def)

lemma add_transmitter_inv:
  assumes "msg_inv m" and "add_transmitter b tx m = Inr m'"
  shows "msg_inv m'"
proof (cases "tx \<in> set (transmitters m)")
  case True
  with assms show ?thesis by (auto simp: add_transmitter_def split: if_splits)
next
  case False
  with assms(2) have m': "m' = m\<lparr>transmitters := transmitters m @ [tx]\<rparr>"
    by (auto simp: add_transmitter_def split: if_splits)
  from False msg_inv_distinct[OF assms(1)] have "distinct (transmitters m @ [tx])" by simp
  with assms(1) m' show ?thesis by (simp add: msg_inv_transmitters)
qed

lemma add_transmitter_fresh:
  "msg_fresh m \<Longrightarrow> add_transmitter b tx m = Inr m' \<Longrightarrow> msg_fresh m'"
  by (auto simp: add_transmitter_def split: if_splits)

subsection \<open>The sections keep the invariants\<close>

lemma val_table_body_msgs: "val_table_body c b = Inr b' \<Longrightarrow> messages b' = messages b"
  by (cases c) (auto simp: Let_def split: if_splits)

lemma ba_def_body_msgs: "ba_def_body c b = Inr b' \<Longrightarrow> messages b' = messages b"
  by (cases c) (auto split: if_splits option.splits)

lemma ba_def_def_body_msgs: "ba_def_def_body c b = Inr b' \<Longrightarrow> messages b' = messages b"
  by (cases c) (auto split: if_splits)

lemma bo_body_inv:
  assumes "all_msgs msg_inv b" and "bo_body c b = Inr b'"
  shows "all_msgs msg_inv b'"
  using assms
  by (cases c)
     (auto simp: Let_def msg_inv_init msg_fresh_init fold_append_inv split: if_splits
           intro!: all_msgs_update_msg)

lemma bo_body_fresh:
  assumes "all_msgs msg_fresh b" and "bo_body c b = Inr b'"
  shows "all_msgs msg_fresh b'"
  using assms
  by (cases c)
     (auto simp: Let_def msg_inv_init msg_fresh_init fold_append_inv split: if_splits
           intro!: all_msgs_update_msg)

lemma bo_tx_bu_body_inv:
  assumes "all_msgs msg_inv b" and "bo_tx_bu_body c b = Inr b'"
  shows "all_msgs msg_inv b'"
proof (cases c)
  case (Sec_BO_TX_BU i txs)
  with assms(2) obtain msg msg' where
    msg: "map_of (messages b) i = Some msg"
    and loop: "for_each (add_transmitter b) txs msg = Inr msg'"
    and b': "b' = update_msg i msg' b"
    by (auto simp: ebind_def split: option.splits sum.splits)
  from all_msgs_lookup[OF assms(1) msg] have "msg_inv msg" .
  from for_each_preserves[of msg_inv "add_transmitter b", OF add_transmitter_inv this loop]
  have "msg_inv msg'" .
  with assms(1) b' show ?thesis by (simp add: all_msgs_update_msg)
qed (use assms in auto)

lemma bo_tx_bu_body_fresh:
  assumes "all_msgs msg_fresh b" and "bo_tx_bu_body c b = Inr b'"
  shows "all_msgs msg_fresh b'"
proof (cases c)
  case (Sec_BO_TX_BU i txs)
  with assms(2) obtain msg msg' where
    msg: "map_of (messages b) i = Some msg"
    and loop: "for_each (add_transmitter b) txs msg = Inr msg'"
    and b': "b' = update_msg i msg' b"
    by (auto simp: ebind_def split: option.splits sum.splits)
  from all_msgs_lookup[OF assms(1) msg] have "msg_fresh msg" .
  from for_each_preserves[of msg_fresh "add_transmitter b", OF add_transmitter_fresh this loop]
  have "msg_fresh msg'" .
  with assms(1) b' show ?thesis by (simp add: all_msgs_update_msg)
qed (use assms in auto)

lemma cm_body_inv:
  assumes "all_msgs msg_inv b" and "cm_body c b = Inr b'"
  shows "all_msgs msg_inv b'"
  using assms
  by (cases c)
     (auto split: spec.splits option.splits
           intro!: all_msgs_update_msg msg_inv_update_sig dest: all_msgs_lookup)

lemma cm_body_fresh:
  assumes "all_msgs msg_fresh b" and "cm_body c b = Inr b'"
  shows "all_msgs msg_fresh b'"
  using assms
  by (cases c)
     (auto split: spec.splits option.splits
           intro!: all_msgs_update_msg msg_fresh_update_sig dest: all_msgs_lookup)

lemma ba_body_inv:
  assumes "all_msgs msg_inv b" and "ba_body c b = Inr b'"
  shows "all_msgs msg_inv b'"
  using assms
  by (cases c)
     (auto split: spec.splits option.splits if_splits
           intro!: all_msgs_update_msg dest: all_msgs_lookup)

lemma ba_body_fresh:
  assumes "all_msgs msg_fresh b" and "ba_body c b = Inr b'"
  shows "all_msgs msg_fresh b'"
  using assms
  by (cases c)
     (auto split: spec.splits option.splits if_splits
           intro!: all_msgs_update_msg dest: all_msgs_lookup)

lemma val_body_inv:
  assumes "all_msgs msg_inv b" and "val_body c b = Inr b'"
  shows "all_msgs msg_inv b'"
  using assms
  by (cases c)
     (auto split: option.splits
           intro!: all_msgs_update_msg msg_inv_update_sig dest: all_msgs_lookup)

lemma val_body_fresh:
  assumes "all_msgs msg_fresh b" and "val_body c b = Inr b'"
  shows "all_msgs msg_fresh b'"
  using assms
  by (cases c)
     (auto split: option.splits
           intro!: all_msgs_update_msg msg_fresh_update_sig dest: all_msgs_lookup)

lemma sig_group_body_inv:
  assumes "all_msgs msg_inv b" and "sig_group_body c b = Inr b'"
  shows "all_msgs msg_inv b'"
  using assms
  by (cases c)
     (auto simp: Let_def split: option.splits if_splits
           intro!: all_msgs_update_msg dest: all_msgs_lookup)

lemma sig_group_body_fresh:
  assumes "all_msgs msg_fresh b" and "sig_group_body c b = Inr b'"
  shows "all_msgs msg_fresh b'"
  using assms
  by (cases c)
     (auto simp: Let_def split: option.splits if_splits
           intro!: all_msgs_update_msg dest: all_msgs_lookup)

lemma sig_valtype_body_inv:
  assumes "all_msgs msg_inv b" and "sig_valtype_body c b = Inr b'"
  shows "all_msgs msg_inv b'"
  using assms
  by (cases c)
     (auto split: option.splits
           intro!: all_msgs_update_msg msg_inv_update_sig dest: all_msgs_lookup)

lemma sig_valtype_body_fresh:
  assumes "all_msgs msg_fresh b" and "sig_valtype_body c b = Inr b'"
  shows "all_msgs msg_fresh b'"
  using assms
  by (cases c)
     (auto split: option.splits
           intro!: all_msgs_update_msg msg_fresh_update_sig dest: all_msgs_lookup)

subsection \<open>The stages keep the invariants\<close>

definition built :: "'f bus \<Rightarrow> bool" where
  "built b \<longleftrightarrow> all_msgs msg_inv b \<and> all_msgs msg_fresh b"

lemma built_messages: "messages b' = messages b \<Longrightarrow> built b' = built b"
  by (simp add: built_def all_msgs_def)

lemma ebindE:
  assumes "ebind r f = Inr y"
  obtains x where "r = Inr x" and "f x = Inr y"
  using assms by (auto simp: ebind_def split: sum.splits)

lemma stage_VERSION_built: "stage_VERSION bs = Inr bs' \<Longrightarrow> built (fst bs) \<Longrightarrow> built (fst bs')"
  unfolding stage_VERSION_def
  by (erule ebindE) (auto simp: built_def split: dbc_section.splits)

lemma stage_BS_built: "stage_BS bs = Inr bs' \<Longrightarrow> built (fst bs) \<Longrightarrow> built (fst bs')"
  unfolding stage_BS_def
  by (erule ebindE) (auto simp: built_def split: dbc_section.splits option.splits)

lemma stage_BU_built: "stage_BU bs = Inr bs' \<Longrightarrow> built (fst bs) \<Longrightarrow> built (fst bs')"
  unfolding stage_BU_def
  by (erule ebindE) (auto simp: built_def Let_def split: dbc_section.splits)

lemma stage_NS_built: "stage_NS bs = Inr bs' \<Longrightarrow> built (fst bs) \<Longrightarrow> built (fst bs')"
  unfolding stage_NS_def
  by (auto simp: built_def xtract_sec_def split: dbc_section.splits if_splits)

lemma each_section_built:
  assumes "each_section sec body bs = Inr bs'" and "built (fst bs)"
    and "\<And>c b b'. all_msgs msg_inv b \<Longrightarrow> body c b = Inr b' \<Longrightarrow> all_msgs msg_inv b'"
    and "\<And>c b b'. all_msgs msg_fresh b \<Longrightarrow> body c b = Inr b' \<Longrightarrow> all_msgs msg_fresh b'"
  shows "built (fst bs')"
proof (rule each_section_preserves[of built body, OF _ assms(2) assms(1)])
  fix c b b' assume "built b" and "body c b = Inr b'"
  then show "built b'" using assms(3,4) by (auto simp: built_def)
qed

lemma each_section_same_messages:
  assumes "each_section sec body bs = Inr bs'" and "built (fst bs)"
    and "\<And>c b b'. body c b = Inr b' \<Longrightarrow> messages b' = messages b"
  shows "built (fst bs')"
proof (rule each_section_preserves[of built body, OF _ assms(2) assms(1)])
  fix c b b' assume "built b" and "body c b = Inr b'"
  then show "built b'" using assms(3) built_messages by blast
qed

lemma built_empty: "built empty_bus"
  by (simp add: built_def all_msgs_def empty_bus_def)

lemma stages_sections_built:
  assumes "stages_sections bs0 = Inr bs" and "built (fst bs0)"
  shows "built (fst bs)"
  using assms unfolding stages_sections_def
  apply (elim ebindE)
  apply (drule (1) stage_VERSION_built)
  apply (drule (1) stage_BS_built)
  apply (drule (1) stage_BU_built)
  apply (drule (1) stage_NS_built)
  apply (drule (1) each_section_same_messages, erule val_table_body_msgs)
  apply (drule (1) each_section_built, erule (1) bo_body_inv, erule (1) bo_body_fresh)
  apply (drule (1) each_section_built, erule (1) bo_tx_bu_body_inv, erule (1) bo_tx_bu_body_fresh)
  apply (drule (1) each_section_built, erule (1) cm_body_inv, erule (1) cm_body_fresh)
  apply (drule each_section_same_messages, simp add: built_def, erule ba_def_body_msgs)
  apply (drule (1) each_section_same_messages, erule ba_def_def_body_msgs)
  apply (drule (1) each_section_built, erule (1) ba_body_inv, erule (1) ba_body_fresh)
  apply (drule (1) each_section_built, erule (1) val_body_inv, erule (1) val_body_fresh)
  apply (drule (1) each_section_built, erule (1) sig_group_body_inv, erule (1) sig_group_body_fresh)
  apply (drule (1) each_section_built, erule (1) sig_valtype_body_inv, erule (1) sig_valtype_body_fresh)
  apply assumption
  done

subsection \<open>Multiplexing keeps the invariant\<close>

lemma for_each_preserves_set:
  assumes "\<And>x s s'. x \<in> set xs \<Longrightarrow> P s \<Longrightarrow> body x s = Inr s' \<Longrightarrow> P s'"
    and "P s" and "for_each body xs s = Inr s'"
  shows "P s'"
  using assms
proof (induction xs arbitrary: s)
  case Nil
  then show ?case by simp
next
  case (Cons x xs)
  from Cons.prems(3) obtain s1 where s1: "body x s = Inr s1" and r: "for_each body xs s1 = Inr s'"
    by (auto split: sum.splits)
  from Cons.prems(1)[of x s s1] Cons.prems(2) s1 have "P s1" by simp
  show ?case
  proof (rule Cons.IH[OF _ \<open>P s1\<close> r])
    fix y t t' assume "y \<in> set xs" "P t" "body y t = Inr t'"
    then show "P t'" using Cons.prems(1)[of y t t'] by simp
  qed
qed

lemma Switch_append_set: "set (Switch_append r sg e) \<subseteq> insert (r, sg) (set e)"
  by (auto simp: Switch_append_def)

lemma msg_inv_signals:
  assumes "msg_inv m" and "set l \<subseteq> set (signals m)"
  shows "msg_inv (m\<lparr>signals := l\<rparr>)"
proof -
  from assms have "\<forall>r \<in> set l. r < length (sigs m)" by (auto simp: msg_inv_def)
  with assms(1) show ?thesis by (simp add: msg_inv_def)
qed

lemma msg_inv_switch_append:
  assumes "msg_inv m" and "sg < length (sigs m)"
  shows "msg_inv (update_sig mux (\<lambda>s. s\<lparr>switch := Switch_append rg sg (switch s)\<rparr>) m)"
proof (rule msg_inv_update_sig[OF assms(1)])
  fix s :: "'a signal"
  show "sig_name (s\<lparr>switch := Switch_append rg sg (switch s)\<rparr>) = sig_name s" by simp
  show "\<forall>e \<in> set (switch (s\<lparr>switch := Switch_append rg sg (switch s)\<rparr>)).
          e \<in> set (switch s) \<or> snd e < length (sigs m)"
    using Switch_append_set[of rg sg "switch s"] assms(2) by auto
qed

lemma mux_one_inv:
  assumes "msg_inv m" and "sg < length (sigs m)" and "mux_one mux sg m = Inr m'"
  shows "msg_inv m' \<and> length (sigs m') = length (sigs m)"
proof -
  from assms(3) obtain v where v: "multiplex_value (sigs m ! sg) = Some v"
    by (auto simp: mux_one_def split: option.splits)
  let ?m1 = "update_sig mux (\<lambda>s. s\<lparr>switch := Switch_append (Range_init v v) sg (switch s)\<rparr>) m"
  from assms(3) v have m': "m' = ?m1\<lparr>signals := remove1 sg (signals ?m1)\<rparr>"
    by (auto simp: mux_one_def Let_def ebind_def list_remove_def split: if_splits)
  have "msg_inv ?m1" using assms(1,2) by (rule msg_inv_switch_append)
  then have "msg_inv (?m1\<lparr>signals := remove1 sg (signals ?m1)\<rparr>)"
    by (rule msg_inv_signals) (simp add: set_remove1_subset)
  with m' show ?thesis by simp
qed

lemma organize_mux_inv:
  assumes "msg_inv m" and "organize_mux m = Inr m'"
  shows "msg_inv m'"
proof (cases "length (filter (\<lambda>r. is_multiplexor (sigs m ! r)) (signals m)) = 1")
  case True
  let ?mux = "last (filter (\<lambda>r. is_multiplexor (sigs m ! r)) (signals m))"
  let ?xs = "filter (\<lambda>r. multiplex_value (sigs m ! r) \<noteq> None) (signals m)"
  let ?P = "\<lambda>s. msg_inv s \<and> length (sigs s) = length (sigs m)"
  from True assms(2) have loop: "for_each (mux_one ?mux) ?xs m = Inr m'"
    by (simp add: organize_mux_def Let_def)
  have "?P m'"
  proof (rule for_each_preserves_set[of ?xs ?P "mux_one ?mux", OF _ _ loop])
    show "?P m" using assms(1) by simp
  next
    fix x s s'
    assume x: "x \<in> set ?xs" and s: "?P s" and step: "mux_one ?mux x s = Inr s'"
    from x assms(1) have "x < length (sigs m)" by (auto simp: msg_inv_def)
    with s have "x < length (sigs s)" by simp
    from mux_one_inv[OF _ this step] s show "?P s'" by simp
  qed
  then show ?thesis by simp
next
  case False
  with assms show ?thesis by (simp add: organize_mux_def Let_def)
qed

lemma each_message_preserves:
  assumes "\<And>m m'. P m \<Longrightarrow> f m = Inr m' \<Longrightarrow> P m'"
    and "\<forall>p \<in> set ms. P (snd p)" and "each_message f ms = Inr ms'"
  shows "\<forall>p \<in> set ms'. P (snd p)"
  using assms(2,3)
proof (induction ms arbitrary: ms')
  case Nil
  then show ?case by simp
next
  case (Cons p ms)
  from Cons.prems(2) obtain m ps' where m: "f (snd p) = Inr m"
    and ps': "each_message f ms = Inr ps'" and ms': "ms' = (fst p, m) # ps'"
    by (auto split: sum.splits)
  from Cons.prems(1) m have "P m" by (auto dest: assms(1))
  moreover from Cons.IH[OF _ ps'] Cons.prems(1) have "\<forall>p \<in> set ps'. P (snd p)" by simp
  ultimately show ?case using ms' by simp
qed

lemma stage_mux_inv:
  assumes "stage_mux bs = Inr bs'" and "all_msgs msg_inv (fst bs)"
  shows "all_msgs msg_inv (fst bs')"
proof -
  from assms(1) obtain ms where ms: "each_message organize_mux (messages (fst bs)) = Inr ms"
    and bs': "bs' = ((fst bs)\<lparr>messages := ms\<rparr>, snd bs)"
    unfolding stage_mux_def by (auto elim!: ebindE)
  from each_message_preserves[of msg_inv organize_mux, OF organize_mux_inv _ ms] assms(2)
  have "\<forall>p \<in> set ms. msg_inv (snd p)" by (simp add: all_msgs_def)
  with bs' show ?thesis by (simp add: all_msgs_def)
qed

lemma fold_switch_append_inv:
  assumes "msg_inv m" and "sg < length (sigs m)"
  shows "msg_inv (fold (\<lambda>r0. update_sig mux
            (\<lambda>s. s\<lparr>switch := Switch_append (Range_of_pair r0) sg (switch s)\<rparr>)) ranges m)"
  using assms
proof (induction ranges arbitrary: m)
  case Nil
  then show ?case by simp
next
  case (Cons r0 ranges)
  let ?m1 = "update_sig mux (\<lambda>s. s\<lparr>switch := Switch_append (Range_of_pair r0) sg (switch s)\<rparr>) m"
  have "msg_inv ?m1" using Cons.prems by (rule msg_inv_switch_append)
  moreover have "sg < length (sigs ?m1)" using Cons.prems(2) by simp
  ultimately show ?case using Cons.IH[of ?m1] by simp
qed

lemma sg_mul_val_body_inv:
  assumes "all_msgs msg_inv b" and "sg_mul_val_body c b = Inr b'"
  shows "all_msgs msg_inv b'"
proof (cases c)
  case (Sec_SG_MUL_VAL i signame muxname ranges)
  with assms(2) obtain msg sg mux where
    msg: "map_of (messages b) i = Some msg"
    and sg: "map_of (signals_dict msg) signame = Some sg"
    and b': "b' = update_msg i
                   (fold (\<lambda>r0. update_sig mux
                            (\<lambda>m. m\<lparr>switch := Switch_append (Range_of_pair r0) sg (switch m)\<rparr>))
                      ranges (msg\<lparr>signals := remove1 sg (signals msg)\<rparr>)) b"
    by (auto split: option.splits if_splits)
  from all_msgs_lookup[OF assms(1) msg] have inv: "msg_inv msg" .
  from sg have "(signame, sg) \<in> set (signals_dict msg)" by (rule map_of_SomeD)
  with inv have valid: "sg < length (sigs msg)" by (force simp: msg_inv_def)
  from inv have "msg_inv (msg\<lparr>signals := remove1 sg (signals msg)\<rparr>)"
    by (rule msg_inv_signals) (simp add: set_remove1_subset)
  from fold_switch_append_inv[OF this, of sg mux ranges] valid
  show ?thesis using assms(1) b' by (simp add: all_msgs_update_msg)
qed (use assms in auto)

lemma stage_nonmuxed_same: "stage_nonmuxed bs = Inr bs' \<Longrightarrow> bs' = bs"
  by (auto simp: stage_nonmuxed_def split: if_splits)

lemma Bus_init_inv:
  assumes "Bus_init seclist0 = Inr b"
  shows "all_msgs msg_inv b"
proof -
  from assms obtain bs1 bs2 bs3 where
    s1: "stages_sections (empty_bus, seclist0) = Inr bs1"
    and s2: "stage_mux bs1 = Inr bs2"
    and s3: "each_section ''SG_MUL_VAL_'' sg_mul_val_body bs2 = Inr bs3"
    and s4: "\<exists>r. stage_nonmuxed bs3 = Inr (b, r)"
    unfolding Bus_init_def by (elim ebindE) (auto simp: prod_eq_iff)
  from stages_sections_built[OF s1] have "built (fst bs1)" by (simp add: built_empty)
  then have "all_msgs msg_inv (fst bs1)" by (simp add: built_def)
  from stage_mux_inv[OF s2 this] have "all_msgs msg_inv (fst bs2)" .
  from each_section_preserves[of "all_msgs msg_inv" sg_mul_val_body, OF sg_mul_val_body_inv this s3]
  have "all_msgs msg_inv (fst bs3)" .
  moreover from s4 have "fst bs3 = b" by (auto dest!: stage_nonmuxed_same)
  ultimately show ?thesis by simp
qed

subsection \<open>The loop of the single multiplexor\<close>

lemma fold_remove1_filter:
  "distinct ys \<Longrightarrow> fold remove1 rs ys = filter (\<lambda>y. y \<notin> set rs) ys"
proof (induction rs arbitrary: ys)
  case Nil
  then show ?case by simp
next
  case (Cons r rs)
  have "remove1 r ys = filter (\<lambda>y. y \<noteq> r) ys"
    using Cons.prems by (simp add: distinct_remove1_removeAll removeAll_filter_not_eq) metis
  moreover have "distinct (remove1 r ys)" using Cons.prems by simp
  ultimately show ?case using Cons.IH[of "remove1 r ys"] by (simp add: conj_commute)
qed

lemma in_remove1I: "x \<in> set xs \<Longrightarrow> x \<noteq> r \<Longrightarrow> x \<in> set (remove1 r xs)"
  by (simp add: in_set_remove1)

lemma Switch_append_new:
  "sg \<notin> snd ` set e \<Longrightarrow> Switch_append r sg e = e @ [(r, sg)]"
  by (auto simp: Switch_append_def list_ex_iff)

lemma mux_one_step:
  assumes "mux < length (sigs m)" and "r \<in> set (signals m)"
    and "multiplex_value (sigs m ! r) = Some v" and "multiplexes (sigs m ! mux) v"
    and "r \<notin> snd ` set (switch (sigs m ! mux))"
  shows "mux_one mux r m =
           Inr (m\<lparr>sigs := (sigs m)[mux := (sigs m ! mux)
                                \<lparr>switch := switch (sigs m ! mux) @ [(Range_init v v, r)]\<rparr>],
                  signals := remove1 r (signals m)\<rparr>)"
  using assms
  by (simp add: mux_one_def Let_def update_sig_def ebind_def list_remove_def Switch_append_new)

lemma mux_loop_ok:
  assumes "distinct rs" and "set rs \<subseteq> set (signals m)" and "mux < length (sigs m)"
    and "\<forall>r \<in> set rs. r < length (sigs m)"
    and "\<forall>r \<in> set rs. \<exists>v. multiplex_value (sigs m ! r) = Some v \<and> multiplexes (sigs m ! mux) v"
    and "\<forall>r \<in> set rs. r \<notin> snd ` set (switch (sigs m ! mux))"
  shows "for_each (mux_one mux) rs m =
           Inr (m\<lparr>sigs := (sigs m)[mux := (sigs m ! mux)
                   \<lparr>switch := switch (sigs m ! mux)
                      @ map (\<lambda>r. (Range_init (the (multiplex_value (sigs m ! r)))
                                            (the (multiplex_value (sigs m ! r))), r)) rs\<rparr>],
                  signals := fold remove1 rs (signals m)\<rparr>)"
  using assms
proof (induction rs arbitrary: m)
  case Nil
  then show ?case by simp
next
  case (Cons r rs)
  from Cons.prems(5) obtain v where v: "multiplex_value (sigs m ! r) = Some v"
    and inr: "multiplexes (sigs m ! mux) v" by auto
  let ?m1 = "m\<lparr>sigs := (sigs m)[mux := (sigs m ! mux)
                                \<lparr>switch := switch (sigs m ! mux) @ [(Range_init v v, r)]\<rparr>],
                  signals := remove1 r (signals m)\<rparr>"
  have step: "mux_one mux r m = Inr ?m1"
    using Cons.prems v inr by (intro mux_one_step) auto
  have same: "multiplex_value (sigs ?m1 ! k) = multiplex_value (sigs m ! k)" if "k < length (sigs m)" for k
    using that Cons.prems(3) by (cases "k = mux") simp_all
  have mxs: "multiplexes (sigs ?m1 ! mux) = multiplexes (sigs m ! mux)"
    using Cons.prems(3) by (simp add: multiplexes_def fun_eq_iff)
  have sw1: "switch (sigs ?m1 ! mux) = switch (sigs m ! mux) @ [(Range_init v v, r)]"
    using Cons.prems(3) by simp
  have ih: "for_each (mux_one mux) rs ?m1 =
           Inr (?m1\<lparr>sigs := (sigs ?m1)[mux := (sigs ?m1 ! mux)
                   \<lparr>switch := switch (sigs ?m1 ! mux)
                      @ map (\<lambda>r. (Range_init (the (multiplex_value (sigs ?m1 ! r)))
                                            (the (multiplex_value (sigs ?m1 ! r))), r)) rs\<rparr>],
                  signals := fold remove1 rs (signals ?m1)\<rparr>)"
  proof (rule Cons.IH)
    show "distinct rs" using Cons.prems(1) by simp
    show "set rs \<subseteq> set (signals ?m1)"
      using Cons.prems(1,2) by (auto intro!: in_remove1I)
    show "mux < length (sigs ?m1)" using Cons.prems(3) by simp
    show "\<forall>r \<in> set rs. r < length (sigs ?m1)" using Cons.prems(4) by simp
    show "\<forall>r \<in> set rs. \<exists>v. multiplex_value (sigs ?m1 ! r) = Some v \<and> multiplexes (sigs ?m1 ! mux) v"
      using Cons.prems(4,5) same mxs by simp
    show "\<forall>r \<in> set rs. r \<notin> snd ` set (switch (sigs ?m1 ! mux))"
      using Cons.prems(1,6) sw1 by auto
  qed
  have maps: "map (\<lambda>r. (Range_init (the (multiplex_value (sigs ?m1 ! r)))
                                  (the (multiplex_value (sigs ?m1 ! r))), r)) rs
            = map (\<lambda>r. (Range_init (the (multiplex_value (sigs m ! r)))
                                  (the (multiplex_value (sigs m ! r))), r)) rs"
    using Cons.prems(4) same by (intro map_cong) auto
  show ?case
    using step ih v Cons.prems(3) unfolding maps by simp
qed

lemma mux_loop_error:
  assumes "distinct rs" and "set rs \<subseteq> set (signals m)" and "mux < length (sigs m)"
    and "\<forall>r \<in> set rs. r < length (sigs m)"
    and "\<forall>r \<in> set rs. multiplex_value (sigs m ! r) \<noteq> None"
    and "\<forall>r \<in> set rs. r \<notin> snd ` set (switch (sigs m ! mux))"
    and "\<exists>r \<in> set rs. \<not> multiplexes (sigs m ! mux) (the (multiplex_value (sigs m ! r)))"
  shows "\<exists>t. for_each (mux_one mux) rs m = Inl (DatabaseError t)"
  using assms
proof (induction rs arbitrary: m)
  case Nil
  then show ?case by simp
next
  case (Cons r rs)
  from Cons.prems(5) obtain v where v: "multiplex_value (sigs m ! r) = Some v" by auto
  show ?case
  proof (cases "multiplexes (sigs m ! mux) v")
    case False
    then show ?thesis using v by (simp add: mux_one_def)
  next
    case True
    let ?m1 = "m\<lparr>sigs := (sigs m)[mux := (sigs m ! mux)
                                \<lparr>switch := switch (sigs m ! mux) @ [(Range_init v v, r)]\<rparr>],
                  signals := remove1 r (signals m)\<rparr>"
    have step: "mux_one mux r m = Inr ?m1"
      using Cons.prems v True by (intro mux_one_step) auto
    have same: "multiplex_value (sigs ?m1 ! k) = multiplex_value (sigs m ! k)" if "k < length (sigs m)" for k
      using that Cons.prems(3) by (cases "k = mux") simp_all
    have mxs: "multiplexes (sigs ?m1 ! mux) = multiplexes (sigs m ! mux)"
      using Cons.prems(3) by (simp add: multiplexes_def fun_eq_iff)
    have sw1: "switch (sigs ?m1 ! mux) = switch (sigs m ! mux) @ [(Range_init v v, r)]"
      using Cons.prems(3) by simp
    have "\<exists>t. for_each (mux_one mux) rs ?m1 = Inl (DatabaseError t)"
    proof (rule Cons.IH)
      show "distinct rs" using Cons.prems(1) by simp
      show "set rs \<subseteq> set (signals ?m1)"
        using Cons.prems(1,2) by (auto intro!: in_remove1I)
      show "mux < length (sigs ?m1)" using Cons.prems(3) by simp
      show "\<forall>r \<in> set rs. r < length (sigs ?m1)" using Cons.prems(4) by simp
      show "\<forall>r \<in> set rs. multiplex_value (sigs ?m1 ! r) \<noteq> None"
        using Cons.prems(4,5) same by simp
      show "\<forall>r \<in> set rs. r \<notin> snd ` set (switch (sigs ?m1 ! mux))"
        using Cons.prems(1,6) sw1 by auto
      show "\<exists>r \<in> set rs. \<not> multiplexes (sigs ?m1 ! mux) (the (multiplex_value (sigs ?m1 ! r)))"
        using Cons.prems(4,7) True v same mxs by auto
    qed
    with step show ?thesis by simp
  qed
qed

lemma organize_mux_one:
  assumes inv: "msg_inv m" and fresh: "msg_fresh m"
    and one: "filter (\<lambda>r. is_multiplexor (sigs m ! r)) (signals m) = [mux]"
  shows "(if \<forall>r \<in> set (signals m). \<forall>v. multiplex_value (sigs m ! r) = Some v
                \<longrightarrow> v < 2 ^ numbits (sigs m ! mux)
          then \<exists>m'. organize_mux m = Inr m'
                 \<and> signals m' = filter (\<lambda>r. multiplex_value (sigs m ! r) = None) (signals m)
                 \<and> switch (sigs m' ! mux)
                     = map (\<lambda>r. (Range_init (the (multiplex_value (sigs m ! r)))
                                           (the (multiplex_value (sigs m ! r))), r))
                         (filter (\<lambda>r. multiplex_value (sigs m ! r) \<noteq> None) (signals m))
          else \<exists>t. organize_mux m = Inl (DatabaseError t))"
proof -
  let ?xs = "filter (\<lambda>r. multiplex_value (sigs m ! r) \<noteq> None) (signals m)"
  from one have "mux \<in> set (filter (\<lambda>r. is_multiplexor (sigs m ! r)) (signals m))" by simp
  then have mux_top: "mux \<in> set (signals m)" and is_mux: "is_multiplexor (sigs m ! mux)" by simp_all
  from inv mux_top have mux_valid: "mux < length (sigs m)" by (simp add: msg_inv_def)
  from fresh have dist: "distinct (signals m)" by (simp add: msg_fresh_def)
  from fresh mux_valid have sw0: "switch (sigs m ! mux) = []" by (simp add: msg_fresh_def)
  have org: "organize_mux m = for_each (mux_one mux) ?xs m"
    using one by (simp add: organize_mux_def Let_def)
  have A: "distinct ?xs" "set ?xs \<subseteq> set (signals m)" "\<forall>r \<in> set ?xs. r < length (sigs m)"
    "\<forall>r \<in> set ?xs. r \<notin> snd ` set (switch (sigs m ! mux))"
    "\<forall>r \<in> set ?xs. multiplex_value (sigs m ! r) \<noteq> None"
    using dist inv sw0 by (auto simp: msg_inv_def)
  have mx: "multiplexes (sigs m ! mux) v \<longleftrightarrow> v < 2 ^ numbits (sigs m ! mux)" for v
    using is_mux by (simp add: multiplexes_def)
  show ?thesis
  proof (cases "\<forall>r \<in> set (signals m). \<forall>v. multiplex_value (sigs m ! r) = Some v
                \<longrightarrow> v < 2 ^ numbits (sigs m ! mux)")
    case True
    then have "\<forall>r \<in> set ?xs. \<exists>v. multiplex_value (sigs m ! r) = Some v \<and> multiplexes (sigs m ! mux) v"
      by (auto simp: mx)
    from mux_loop_ok[OF A(1,2) mux_valid A(3) this A(4)]
    have res: "organize_mux m =
           Inr (m\<lparr>sigs := (sigs m)[mux := (sigs m ! mux)
                   \<lparr>switch := switch (sigs m ! mux)
                      @ map (\<lambda>r. (Range_init (the (multiplex_value (sigs m ! r)))
                                            (the (multiplex_value (sigs m ! r))), r)) ?xs\<rparr>],
                  signals := fold remove1 ?xs (signals m)\<rparr>)"
      by (simp add: org)
    have "fold remove1 ?xs (signals m) = filter (\<lambda>y. y \<notin> set ?xs) (signals m)"
      using dist by (rule fold_remove1_filter)
    also have "\<dots> = filter (\<lambda>r. multiplex_value (sigs m ! r) = None) (signals m)"
      by (intro filter_cong) auto
    finally have top: "fold remove1 ?xs (signals m)
        = filter (\<lambda>r. multiplex_value (sigs m ! r) = None) (signals m)" .
    from True res top mux_valid sw0 show ?thesis by simp
  next
    case False
    then have "\<exists>r \<in> set ?xs. \<not> multiplexes (sigs m ! mux) (the (multiplex_value (sigs m ! r)))"
      by (auto simp: mx)
    from mux_loop_error[OF A(1,2) mux_valid A(3) A(5) A(4) this]
    have err: "\<exists>t. organize_mux m = Inl (DatabaseError t)" by (simp add: org)
    show ?thesis using err by (simp only: if_not_P[OF False])
  qed
qed

lemma organize_mux_result:
  assumes "msg_inv m" and "msg_fresh m"
  shows "(\<exists>m'. organize_mux m = Inr m') \<or> (\<exists>t. organize_mux m = Inl (DatabaseError t))"
proof (cases "length (filter (\<lambda>r. is_multiplexor (sigs m ! r)) (signals m)) = 1")
  case True
  then obtain mux where "filter (\<lambda>r. is_multiplexor (sigs m ! r)) (signals m) = [mux]"
    by (auto simp: length_Suc_conv)
  from organize_mux_one[OF assms this] show ?thesis by (auto split: if_splits)
next
  case False
  then show ?thesis by (simp add: organize_mux_def Let_def)
qed

lemma each_message_error:
  assumes "\<forall>p \<in> set ms. (\<exists>m'. f (snd p) = Inr m') \<or> (\<exists>t. f (snd p) = Inl (DatabaseError t))"
    and "\<exists>p \<in> set ms. \<exists>t. f (snd p) = Inl (DatabaseError t)"
  shows "\<exists>t. each_message f ms = Inl (DatabaseError t)"
  using assms
proof (induction ms)
  case Nil
  then show ?case by simp
next
  case (Cons p ms)
  show ?case
  proof (cases "f (snd p)")
    case (Inl e)
    with Cons.prems(1) show ?thesis by auto
  next
    case (Inr m')
    with Cons.prems(2) have "\<exists>p \<in> set ms. \<exists>t. f (snd p) = Inl (DatabaseError t)" by auto
    with Cons.IH Cons.prems(1) obtain t where "each_message f ms = Inl (DatabaseError t)" by auto
    with Inr show ?thesis by simp
  qed
qed

subsection \<open>The messages of a Bus have distinct ids\<close>

definition keys_ok :: "'f bus \<Rightarrow> bool" where
  "keys_ok b \<longleftrightarrow> distinct (map fst (messages b))"

lemma keys_ok_messages: "messages b' = messages b \<Longrightarrow> keys_ok b' = keys_ok b"
  by (simp add: keys_ok_def)

lemma keys_ok_update_msg: "keys_ok b \<Longrightarrow> keys_ok (update_msg i m b)"
  by (simp add: keys_ok_def update_msg_def distinct_update)

lemma bo_body_keys: "keys_ok b \<Longrightarrow> bo_body c b = Inr b' \<Longrightarrow> keys_ok b'"
  by (cases c) (auto simp: Let_def keys_ok_update_msg split: if_splits)

lemma bo_tx_bu_body_keys: "keys_ok b \<Longrightarrow> bo_tx_bu_body c b = Inr b' \<Longrightarrow> keys_ok b'"
  by (cases c) (auto simp: ebind_def keys_ok_update_msg split: option.splits sum.splits)

lemma cm_body_keys: "keys_ok b \<Longrightarrow> cm_body c b = Inr b' \<Longrightarrow> keys_ok b'"
  by (cases c) (auto simp: keys_ok_def update_msg_def distinct_update split: spec.splits option.splits)

lemma ba_body_keys: "keys_ok b \<Longrightarrow> ba_body c b = Inr b' \<Longrightarrow> keys_ok b'"
  by (cases c)
     (auto simp: keys_ok_def update_msg_def distinct_update split: spec.splits option.splits if_splits)

lemma val_body_keys: "keys_ok b \<Longrightarrow> val_body c b = Inr b' \<Longrightarrow> keys_ok b'"
  by (cases c) (auto simp: keys_ok_update_msg split: option.splits)

lemma sig_group_body_keys: "keys_ok b \<Longrightarrow> sig_group_body c b = Inr b' \<Longrightarrow> keys_ok b'"
  by (cases c) (auto simp: Let_def keys_ok_update_msg split: option.splits if_splits)

lemma sig_valtype_body_keys: "keys_ok b \<Longrightarrow> sig_valtype_body c b = Inr b' \<Longrightarrow> keys_ok b'"
  by (cases c) (auto simp: keys_ok_update_msg split: option.splits)

lemma stage_VERSION_keys: "stage_VERSION bs = Inr bs' \<Longrightarrow> keys_ok (fst bs) \<Longrightarrow> keys_ok (fst bs')"
  unfolding stage_VERSION_def
  by (erule ebindE) (auto simp: keys_ok_def split: dbc_section.splits)

lemma stage_BS_keys: "stage_BS bs = Inr bs' \<Longrightarrow> keys_ok (fst bs) \<Longrightarrow> keys_ok (fst bs')"
  unfolding stage_BS_def
  by (erule ebindE) (auto simp: keys_ok_def split: dbc_section.splits option.splits)

lemma stage_BU_keys: "stage_BU bs = Inr bs' \<Longrightarrow> keys_ok (fst bs) \<Longrightarrow> keys_ok (fst bs')"
  unfolding stage_BU_def
  by (erule ebindE) (auto simp: keys_ok_def Let_def split: dbc_section.splits)

lemma stage_NS_keys: "stage_NS bs = Inr bs' \<Longrightarrow> keys_ok (fst bs) \<Longrightarrow> keys_ok (fst bs')"
  unfolding stage_NS_def
  by (auto simp: keys_ok_def xtract_sec_def split: dbc_section.splits if_splits)

lemma each_section_keys:
  assumes "each_section sec body bs = Inr bs'" and "keys_ok (fst bs)"
    and "\<And>c b b'. keys_ok b \<Longrightarrow> body c b = Inr b' \<Longrightarrow> keys_ok b'"
  shows "keys_ok (fst bs')"
  by (rule each_section_preserves[of keys_ok body, OF assms(3) assms(2) assms(1)])

lemma each_section_keys_same:
  assumes "each_section sec body bs = Inr bs'" and "keys_ok (fst bs)"
    and "\<And>c b b'. body c b = Inr b' \<Longrightarrow> messages b' = messages b"
  shows "keys_ok (fst bs')"
proof (rule each_section_preserves[of keys_ok body, OF _ assms(2) assms(1)])
  fix c b b' assume "keys_ok b" and "body c b = Inr b'"
  then show "keys_ok b'" using assms(3) keys_ok_messages by blast
qed

lemma stages_sections_keys:
  assumes "stages_sections bs0 = Inr bs" and "keys_ok (fst bs0)"
  shows "keys_ok (fst bs)"
  using assms unfolding stages_sections_def
  apply (elim ebindE)
  apply (drule (1) stage_VERSION_keys)
  apply (drule (1) stage_BS_keys)
  apply (drule (1) stage_BU_keys)
  apply (drule (1) stage_NS_keys)
  apply (drule (1) each_section_keys_same, erule val_table_body_msgs)
  apply (drule (1) each_section_keys, erule (1) bo_body_keys)
  apply (drule (1) each_section_keys, erule (1) bo_tx_bu_body_keys)
  apply (drule (1) each_section_keys, erule (1) cm_body_keys)
  apply (drule each_section_keys_same, simp add: keys_ok_def, erule ba_def_body_msgs)
  apply (drule (1) each_section_keys_same, erule ba_def_def_body_msgs)
  apply (drule (1) each_section_keys, erule (1) ba_body_keys)
  apply (drule (1) each_section_keys, erule (1) val_body_keys)
  apply (drule (1) each_section_keys, erule (1) sig_group_body_keys)
  apply (drule (1) each_section_keys, erule (1) sig_valtype_body_keys)
  apply assumption
  done

lemma keys_ok_empty: "keys_ok empty_bus"
  by (simp add: keys_ok_def empty_bus_def)

subsection \<open>The reorganised message in the Bus\<close>

lemma each_message_lookup:
  assumes "each_message f ms = Inr ms'" and "map_of ms i = Some m"
  shows "\<exists>m'. f m = Inr m' \<and> map_of ms' i = Some m'"
  using assms
proof (induction ms arbitrary: ms')
  case Nil
  then show ?case by simp
next
  case (Cons p ms)
  from Cons.prems(1) obtain m1 ps' where m1: "f (snd p) = Inr m1"
    and ps': "each_message f ms = Inr ps'" and ms': "ms' = (fst p, m1) # ps'"
    by (auto split: sum.splits)
  show ?case
  proof (cases "fst p = i")
    case True
    with Cons.prems(2) have "snd p = m" by (cases p) simp
    with m1 ms' True show ?thesis by simp
  next
    case False
    with Cons.prems(2) have "map_of ms i = Some m" by (cases p) simp
    from Cons.IH[OF ps' this] ms' False show ?thesis by simp
  qed
qed

text \<open>
  What the later stage of \<open>SG_MUL_VAL_\<close> leaves of a message \<open>m\<close>: no signal comes back
  into the top-level list, and the switch of a signal only grows at its end.
\<close>

definition grown_from :: "sigref \<Rightarrow> 'f message \<Rightarrow> 'f message \<Rightarrow> bool" where
  "grown_from mux m mc \<longleftrightarrow>
     length (sigs mc) = length (sigs m) \<and> set (signals mc) \<subseteq> set (signals m)
     \<and> (\<exists>more. switch (sigs mc ! mux) = switch (sigs m ! mux) @ more)"

lemma grown_from_refl: "grown_from mux m m"
  by (simp add: grown_from_def)

lemma Switch_append_grows: "\<exists>more. Switch_append r sg e = e @ more"
  by (simp add: Switch_append_def)

lemma grown_from_switch_append:
  assumes "grown_from mux m mc"
  shows "grown_from mux m
           (update_sig mx (\<lambda>s. s\<lparr>switch := Switch_append r sg (switch s)\<rparr>) mc)"
proof (cases "mx = mux \<and> mux < length (sigs mc)")
  case True
  from assms obtain more where more: "switch (sigs mc ! mux) = switch (sigs m ! mux) @ more"
    by (auto simp: grown_from_def)
  from Switch_append_grows[of r sg "switch (sigs mc ! mux)"] obtain more' where
    "Switch_append r sg (switch (sigs mc ! mux)) = switch (sigs mc ! mux) @ more'" by blast
  with more have "Switch_append r sg (switch (sigs mc ! mux))
      = switch (sigs m ! mux) @ (more @ more')" by simp
  with True assms show ?thesis
    by (simp add: grown_from_def update_sig_def)
next
  case False
  then have "sigs (update_sig mx (\<lambda>s. s\<lparr>switch := Switch_append r sg (switch s)\<rparr>) mc) ! mux
      = sigs mc ! mux"
    by (cases "mx < length (sigs mc)") (auto simp: update_sig_def list_update_beyond)
  with assms show ?thesis by (simp add: grown_from_def)
qed

lemma grown_from_fold:
  assumes "grown_from mux m mc"
  shows "grown_from mux m
           (fold (\<lambda>r0. update_sig mx
                    (\<lambda>s. s\<lparr>switch := Switch_append (Range_of_pair r0) sg (switch s)\<rparr>))
              ranges mc)"
  using assms
proof (induction ranges arbitrary: mc)
  case Nil
  then show ?case by simp
next
  case (Cons r0 ranges)
  from grown_from_switch_append[OF Cons.prems, of mx "Range_of_pair r0" sg]
  show ?case using Cons.IH by simp
qed

lemma grown_from_remove1:
  assumes "grown_from mux m mc"
  shows "grown_from mux m (mc\<lparr>signals := remove1 sg (signals mc)\<rparr>)"
  using assms set_remove1_subset[of sg "signals mc"] by (auto simp: grown_from_def)

lemma map_of_update_msg:
  "map_of (messages (update_msg j mj b)) i = (if i = j then Some mj else map_of (messages b) i)"
  by (simp add: update_msg_def update_conv')

lemma sg_mul_val_body_grown:
  assumes "\<exists>mc. map_of (messages b) i = Some mc \<and> grown_from mux m mc"
    and "sg_mul_val_body c b = Inr b'"
  shows "\<exists>mc. map_of (messages b') i = Some mc \<and> grown_from mux m mc"
proof (cases c)
  case (Sec_SG_MUL_VAL j signame muxname ranges)
  with assms(2) obtain msg sg mx where
    msg: "map_of (messages b) j = Some msg"
    and b': "b' = update_msg j
                   (fold (\<lambda>r0. update_sig mx
                            (\<lambda>s. s\<lparr>switch := Switch_append (Range_of_pair r0) sg (switch s)\<rparr>))
                      ranges (msg\<lparr>signals := remove1 sg (signals msg)\<rparr>)) b"
    by (auto split: option.splits if_splits)
  show ?thesis
  proof (cases "i = j")
    case True
    with assms(1) msg have "grown_from mux m msg" by auto
    then have "grown_from mux m (msg\<lparr>signals := remove1 sg (signals msg)\<rparr>)"
      by (rule grown_from_remove1)
    then have "grown_from mux m
           (fold (\<lambda>r0. update_sig mx
                    (\<lambda>s. s\<lparr>switch := Switch_append (Range_of_pair r0) sg (switch s)\<rparr>))
              ranges (msg\<lparr>signals := remove1 sg (signals msg)\<rparr>))"
      by (rule grown_from_fold)
    with True b' show ?thesis by (simp add: map_of_update_msg)
  next
    case False
    with assms(1) b' show ?thesis by (simp add: map_of_update_msg)
  qed
qed (use assms in auto)

lemma Bus_init_after_mux:
  assumes st: "stages_sections (empty_bus, seclist0) = Inr (b, seclist)"
    and lk: "map_of (messages b) i = Some m"
    and org: "organize_mux m = Inr m'"
  shows "(\<forall>b1 sl1. stage_mux (b, seclist) = Inr (b1, sl1) \<longrightarrow> map_of (messages b1) i = Some m')
    \<and> (\<forall>bf. Bus_init seclist0 = Inr bf \<longrightarrow>
          (\<exists>mf. map_of (messages bf) i = Some mf \<and> grown_from mux m' mf))"
proof (intro conjI allI impI)
  fix b1 sl1 assume s2: "stage_mux (b, seclist) = Inr (b1, sl1)"
  then obtain ms where ms: "each_message organize_mux (messages b) = Inr ms"
    and b1: "b1 = b\<lparr>messages := ms\<rparr>"
    unfolding stage_mux_def by (auto elim!: ebindE)
  from each_message_lookup[OF ms lk] org b1 show "map_of (messages b1) i = Some m'" by auto
next
  fix bf assume bf: "Bus_init seclist0 = Inr bf"
  with st obtain bs2 bs3 where
    s2: "stage_mux (b, seclist) = Inr bs2"
    and s3: "each_section ''SG_MUL_VAL_'' sg_mul_val_body bs2 = Inr bs3"
    and s4: "\<exists>r. stage_nonmuxed bs3 = Inr (bf, r)"
    unfolding Bus_init_def by (simp add: ebind_def split: sum.splits) (auto simp: prod_eq_iff)
  from s2 obtain ms where ms: "each_message organize_mux (messages b) = Inr ms"
    and bs2: "bs2 = (b\<lparr>messages := ms\<rparr>, seclist)"
    unfolding stage_mux_def by (auto elim!: ebindE)
  from each_message_lookup[OF ms lk] org bs2 have "map_of (messages (fst bs2)) i = Some m'" by auto
  then have "\<exists>mc. map_of (messages (fst bs2)) i = Some mc \<and> grown_from mux m' mc"
    by (auto simp: grown_from_refl)
  from each_section_preserves[of "\<lambda>b. \<exists>mc. map_of (messages b) i = Some mc \<and> grown_from mux m' mc"
         sg_mul_val_body, OF sg_mul_val_body_grown this s3]
  have "\<exists>mc. map_of (messages (fst bs3)) i = Some mc \<and> grown_from mux m' mc" .
  moreover from s4 have "fst bs3 = bf" by (auto dest!: stage_nonmuxed_same)
  ultimately show "\<exists>mf. map_of (messages bf) i = Some mf \<and> grown_from mux m' mf" by simp
qed

lemma each_message_ok:
  assumes "\<forall>p \<in> set ms. \<exists>q. f (snd p) = Inr q"
  shows "\<exists>ms'. each_message f ms = Inr ms'"
  using assms by (induction ms) auto

lemma stages_sections_lookup:
  assumes "stages_sections (empty_bus, seclist0) = Inr (b, seclist)"
    and "(i, m) \<in> set (messages b)"
  shows "map_of (messages b) i = Some m"
proof -
  from stages_sections_keys[OF assms(1)] have "keys_ok b" by (simp add: keys_ok_empty)
  then have "distinct (map fst (messages b))" by (simp add: keys_ok_def)
  then show ?thesis using assms(2) by (rule map_of_is_SomeI)
qed


section \<open>The builder on concrete section lists\<close>

text \<open>
  A signal dictionary with every float field set to \<open>x\<close>, and a section list with the
  nodes given and one message, number 100, sent by node \<open>N\<close>, that holds the signals
  given.
\<close>

definition plain_sig :: "'f \<Rightarrow> string \<Rightarrow> nat option \<Rightarrow> bool \<Rightarrow> 'f sig_d" where
  "plain_sig x nm mv im =
     \<lparr>sd_name = nm, sd_multiplex_value = mv, sd_is_multiplexor = im,
      sd_start = 0, sd_size = 8, sd_little_endian = Some True, sd_signed = Some False,
      sd_factor = x, sd_offset = x, sd_range = (x, x), sd_unit = [],
      sd_receivers = (''N'', [])\<rparr>"

definition one_message :: "string list \<Rightarrow> 'f sig_d list \<Rightarrow> 'f dbc_section list" where
  "one_message nl sds =
     [Sec_VERSION [], Sec_BS None, Sec_BU nl,
      Sec_BO \<lparr>md_id = 100, md_name = ''Msg'', md_size = 8, md_transmitter = ''N'',
              md_signals = sds\<rparr>]"

text \<open>
  The message of the spec's third scenario: the multiplexor \<open>Sel\<close> and two signals
  named \<open>A\<close>, selected by the values 0 and 2; and the \<open>Message\<close> object that the
  \<open>BO_\<close> stage builds for it.
\<close>

definition scenario_sigs :: "unit sig_d list" where
  "scenario_sigs =
     [plain_sig () ''Sel'' None True, plain_sig () ''A'' (Some 0) False,
      plain_sig () ''A'' (Some 2) False]"

definition scenario_msg :: "unit message" where
  "scenario_msg =
     fold (\<lambda>sig_d. Message_append (Signal_init sig_d)) scenario_sigs
       (Message_init 100 ''Msg'' 8 ''N'')"


lemmas builder_defs =
  Bus_init_def stages_sections_def stage_VERSION_def stage_BS_def stage_BU_def stage_NS_def
  stage_mux_def stage_nonmuxed_def each_section_def one_section_def xtract_sec_def ebind_def
  empty_bus_def update_msg_def update_sig_def has_key_def keep_first_def typedefs_init_def
  Message_init_def Message_append_def Signal_init_def organize_mux_def mux_one_def
  nonmuxed_def list_remove_def multiplexes_def Switch_append_def Range_init_def
  Range_of_pair_def Range_eq_def one_message_def plain_sig_def

text \<open>
  C3: message 100 has the signal \<open>S\<close>; one \<open>BA_\<close> section sets attribute \<open>a\<close> of the
  message and another sets attribute \<open>a\<close> of signal \<open>S\<close>, neither set before.
  Construction succeeds; the message's attributes hold \<open>a\<close>, and the signal's attributes
  are still empty: the value of the \<open>SG_\<close> section was not assigned.
\<close>

theorem C3_signal_attribute_not_assigned:
  "map_sum id
     (\<lambda>b. map (\<lambda>(i, m). (i, msg_attributes m,
                      map (\<lambda>(nm, r). (nm, sig_attributes (sigs m ! r))) (signals_dict m)))
            (messages b))
     (Bus_init (one_message [''N''] [plain_sig x ''S'' None False]
                @ [Sec_BA ''a'' (Spec_BO 100) (LInt 1),
                   Sec_BA ''a'' (Spec_SG 100 ''S'') (LInt 1)]))
   = Inr [(100, [(''a'', LInt 1)], [(''S'', [])])]"
  by (simp add: builder_defs)

text \<open>
  C5: two \<open>SIG_GROUP_\<close> sections define group \<open>g\<close> of message 100, and, in a second
  list, one \<open>SIG_GROUP_\<close> section lists \<open>Zed\<close>, which is no signal of message 100.
  Construction raises in both cases, and what it raises is a \<open>NameError\<close>, not a
  \<open>DatabaseError\<close>.
\<close>

theorem C5_sig_group_checks_raise_NameError:
  "Bus_init (one_message [''N''] [plain_sig x ''S'' None False]
             @ [Sec_SIG_GROUP 100 ''g'' 1 [''S''], Sec_SIG_GROUP 100 ''g'' 1 [''S'']])
     = Inl (NameError ''goup_name'')
   \<and> Bus_init (one_message [''N''] [plain_sig x ''S'' None False]
               @ [Sec_SIG_GROUP 100 ''g'' 1 [''Zed'']])
     = Inl (NameError ''groupname'')"
  by (simp add: builder_defs)

text \<open>
  C10: after every successful construction of a Bus, the transmitters list of every
  message holds pairwise distinct node names; and a transmitter of a \<open>BO_TX_BU_\<close>
  section that is already in the list (the first transmitter from \<open>BO_\<close> included) and is a
  defined node leaves the message as it is.
\<close>

theorem C10_transmitters_distinct:
  assumes "Bus_init seclist0 = Inr b" and "(i, m) \<in> set (messages b)"
  shows "distinct (transmitters m)
    \<and> (tx \<in> set (transmitters m) \<and> has_key (nodes b0) tx \<longrightarrow> add_transmitter b0 tx m = Inr m)"
proof
  from Bus_init_inv[OF assms(1)] assms(2) have "msg_inv m"
    by (force simp: all_msgs_def)
  then show "distinct (transmitters m)" by (rule msg_inv_distinct)
  show "tx \<in> set (transmitters m) \<and> has_key (nodes b0) tx \<longrightarrow> add_transmitter b0 tx m = Inr m"
    by (simp add: add_transmitter_def)
qed

theorem C10_transmitters_distinct_witness:
  "\<exists>b m. Bus_init (one_message [''N'', ''M''] [plain_sig () ''S'' None False]
                    @ [Sec_BO_TX_BU 100 [''M'', ''N'', ''M'']]) = Inr b
         \<and> (100, m) \<in> set (messages b)
         \<and> transmitters m = [''N'', ''M'']
         \<and> distinct (transmitters m)
         \<and> has_key (nodes b) ''N''
         \<and> add_transmitter b ''N'' m = Inr m"
proof -
  let ?ex = "one_message [''N'', ''M''] [plain_sig () ''S'' None False]
               @ [Sec_BO_TX_BU 100 [''M'', ''N'', ''M'']]"
  have "\<exists>b. Bus_init ?ex = Inr b
           \<and> map (\<lambda>p. (fst p, transmitters (snd p))) (messages b) = [(100, [''N'', ''M''])]
           \<and> has_key (nodes b) ''N''"
    by (simp add: builder_defs add_transmitter_def)
  then obtain b where bb: "Bus_init ?ex = Inr b
           \<and> map (\<lambda>p. (fst p, transmitters (snd p))) (messages b) = [(100, [''N'', ''M''])]
           \<and> has_key (nodes b) ''N''" ..
  from bb have b: "Bus_init ?ex = Inr b" by (rule conjunct1)
  from bb have ms: "map (\<lambda>p. (fst p, transmitters (snd p))) (messages b) = [(100, [''N'', ''M''])]"
    by (rule conjunct2[THEN conjunct1])
  from bb have nd: "has_key (nodes b) ''N''" by (rule conjunct2[THEN conjunct2])
  from ms obtain m where m: "(100, m) \<in> set (messages b)" and tx: "transmitters m = [''N'', ''M'']"
    by (cases "messages b") auto
  from C10_transmitters_distinct[OF b m, of "''N''" b] tx nd
  have "distinct (transmitters m) \<and> add_transmitter b ''N'' m = Inr m" by simp
  with b m tx nd show ?thesis by (intro exI[of _ b] exI[of _ m] conjI) simp_all
qed




text \<open>
  C4: let \<open>m\<close> be the message with id \<open>i\<close> of the Bus under construction when the
  sections up to \<open>SIG_VALTYPE_\<close> are done, with exactly one signal \<open>mux\<close> marked as
  multiplexor.  If every multiplex value \<open>v\<close> of its signals satisfies
  \<open>0 \<le> v < 2 ^ numbits mux\<close>, the reconstruction of \<open>m\<close> succeeds with a message \<open>m'\<close>
  in which each signal with a multiplex value \<open>v\<close> has left the top-level list and the
  multiplexor's switch holds the pairs \<open>(Range(v, v), s)\<close> of those signals, in their
  order; the reconstruction stage succeeds when every message can be reorganised, and
  whenever it succeeds the Bus holds \<open>m'\<close> under \<open>i\<close>; and in every Bus that the constructor
  returns, the message under \<open>i\<close> has its top-level signals among those of \<open>m'\<close> and a
  switch of \<open>mux\<close> that begins with the one of \<open>m'\<close>.  Otherwise the reconstruction of
  \<open>m\<close> raises a \<open>DatabaseError\<close>, and so does the construction of the Bus.
\<close>

theorem C4_single_multiplexor:
  assumes "stages_sections (empty_bus, seclist0) = Inr (b, seclist)"
    and "(i, m) \<in> set (messages b)"
    and "filter (\<lambda>r. is_multiplexor (sigs m ! r)) (signals m) = [mux]"
  shows "(if \<forall>r \<in> set (signals m). \<forall>v. multiplex_value (sigs m ! r) = Some v
                \<longrightarrow> 0 \<le> v \<and> v < 2 ^ numbits (sigs m ! mux)
          then \<exists>m'. organize_mux m = Inr m'
                 \<and> signals m' = filter (\<lambda>r. multiplex_value (sigs m ! r) = None) (signals m)
                 \<and> switch (sigs m' ! mux)
                     = map (\<lambda>r. (Range_init (the (multiplex_value (sigs m ! r)))
                                           (the (multiplex_value (sigs m ! r))), r))
                         (filter (\<lambda>r. multiplex_value (sigs m ! r) \<noteq> None) (signals m))
                 \<and> ((\<forall>p \<in> set (messages b). \<exists>q. organize_mux (snd p) = Inr q)
                      \<longrightarrow> (\<exists>b1. stage_mux (b, seclist) = Inr (b1, seclist)))
                 \<and> (\<forall>b1 sl1. stage_mux (b, seclist) = Inr (b1, sl1)
                      \<longrightarrow> map_of (messages b1) i = Some m')
                 \<and> (\<forall>bf. Bus_init seclist0 = Inr bf
                      \<longrightarrow> (\<exists>mf. map_of (messages bf) i = Some mf
                             \<and> set (signals mf) \<subseteq> set (signals m')
                             \<and> (\<exists>more. switch (sigs mf ! mux)
                                         = switch (sigs m' ! mux) @ more)))
          else (\<exists>t. organize_mux m = Inl (DatabaseError t))
             \<and> (\<exists>t. Bus_init seclist0 = Inl (DatabaseError t)))"
proof -
  from stages_sections_built[OF assms(1)] have built: "built b" by (simp add: built_empty)
  with assms(2) have inv: "msg_inv m" and fresh: "msg_fresh m"
    by (force simp: built_def all_msgs_def)+
  note one = organize_mux_one[OF inv fresh assms(3)]
  note lk = stages_sections_lookup[OF assms(1) assms(2)]
  show ?thesis
  proof (cases "\<forall>r \<in> set (signals m). \<forall>v. multiplex_value (sigs m ! r) = Some v
                \<longrightarrow> v < 2 ^ numbits (sigs m ! mux)")
    case True
    with one obtain m' where org: "organize_mux m = Inr m'"
      and top: "signals m' = filter (\<lambda>r. multiplex_value (sigs m ! r) = None) (signals m)"
      and sw: "switch (sigs m' ! mux)
                 = map (\<lambda>r. (Range_init (the (multiplex_value (sigs m ! r)))
                                       (the (multiplex_value (sigs m ! r))), r))
                     (filter (\<lambda>r. multiplex_value (sigs m ! r) \<noteq> None) (signals m))"
      by auto
    have ok: "(\<forall>p \<in> set (messages b). \<exists>q. organize_mux (snd p) = Inr q)
                \<longrightarrow> (\<exists>b1. stage_mux (b, seclist) = Inr (b1, seclist))"
    proof
      assume "\<forall>p \<in> set (messages b). \<exists>q. organize_mux (snd p) = Inr q"
      then obtain ms where "each_message organize_mux (messages b) = Inr ms"
        using each_message_ok by blast
      then show "\<exists>b1. stage_mux (b, seclist) = Inr (b1, seclist)"
        by (simp add: stage_mux_def ebind_def)
    qed
    from Bus_init_after_mux[OF assms(1) lk org, of mux]
    have inst: "\<forall>b1 sl1. stage_mux (b, seclist) = Inr (b1, sl1)
                      \<longrightarrow> map_of (messages b1) i = Some m'"
      and fin: "\<forall>bf. Bus_init seclist0 = Inr bf
                      \<longrightarrow> (\<exists>mf. map_of (messages bf) i = Some mf
                             \<and> set (signals mf) \<subseteq> set (signals m')
                             \<and> (\<exists>more. switch (sigs mf ! mux)
                                         = switch (sigs m' ! mux) @ more))"
      by (simp_all add: grown_from_def) blast
    from True have c: "\<forall>r \<in> set (signals m). \<forall>v. multiplex_value (sigs m ! r) = Some v
                \<longrightarrow> 0 \<le> v \<and> v < 2 ^ numbits (sigs m ! mux)" by simp
    show ?thesis
      apply (simp only: if_P[OF c])
      apply (rule exI[of _ m'])
      apply (intro conjI)
           apply (rule org)
          apply (rule top)
         apply (rule sw)
        apply (rule ok)
       apply (rule inst)
      apply (rule fin)
      done
  next
    case False
    with one obtain t where t: "organize_mux m = Inl (DatabaseError t)" by auto
    have "\<forall>p \<in> set (messages b). (\<exists>m'. organize_mux (snd p) = Inr m')
              \<or> (\<exists>t. organize_mux (snd p) = Inl (DatabaseError t))"
    proof
      fix p assume "p \<in> set (messages b)"
      with built have "msg_inv (snd p)" and "msg_fresh (snd p)"
        by (simp_all add: built_def all_msgs_def)
      then show "(\<exists>m'. organize_mux (snd p) = Inr m')
              \<or> (\<exists>t. organize_mux (snd p) = Inl (DatabaseError t))"
        by (rule organize_mux_result)
    qed
    moreover have "\<exists>p \<in> set (messages b). \<exists>t. organize_mux (snd p) = Inl (DatabaseError t)"
      using assms(2) t by force
    ultimately obtain t' where "each_message organize_mux (messages b) = Inl (DatabaseError t')"
      using each_message_error by blast
    then have "Bus_init seclist0 = Inl (DatabaseError t')"
      using assms(1) by (simp add: Bus_init_def stage_mux_def ebind_def)
    with False t show ?thesis by auto
  qed
qed

lemma scenario_stages:
  "stages_sections (empty_bus, one_message [''N''] scenario_sigs)
     = Inr (\<lparr>version = [], baudrate = None, btr = None,
              nodes = [(''N'', \<lparr>node_comments = [], node_attributes = []\<rparr>)],
              newsymbols = [], global_values = [], messages = [(100, scenario_msg)],
              bus_comments = [], attrib_typedefs = typedefs_init, attrib_defaults = [],
              bus_attributes = []\<rparr>, [])"
  by (simp add: builder_defs scenario_sigs_def scenario_msg_def)

theorem C4_single_multiplexor_witness:
  "\<exists>b m'. stages_sections (empty_bus, one_message [''N''] scenario_sigs) = Inr (b, [])
      \<and> (100, scenario_msg) \<in> set (messages b)
      \<and> filter (\<lambda>r. is_multiplexor (sigs scenario_msg ! r)) (signals scenario_msg) = [0]
      \<and> organize_mux scenario_msg = Inr m'
      \<and> signals m' = [0]
      \<and> switch (sigs m' ! 0) = [(Range_init 0 0, 1), (Range_init 2 2, 2)]
      \<and> (\<exists>b1. stage_mux (b, []) = Inr (b1, []) \<and> map_of (messages b1) 100 = Some m')
      \<and> (\<exists>bf mf. Bus_init (one_message [''N''] scenario_sigs) = Inr bf
            \<and> map_of (messages bf) 100 = Some mf
            \<and> signals mf = [0]
            \<and> switch (sigs mf ! 0) = [(Range_init 0 0, 1), (Range_init 2 2, 2)])"
proof -
  let ?ex = "one_message [''N''] scenario_sigs :: unit dbc_section list"
  let ?b = "\<lparr>version = [], baudrate = None, btr = None,
              nodes = [(''N'', \<lparr>node_comments = [], node_attributes = []\<rparr>)],
              newsymbols = [], global_values = [], messages = [(100, scenario_msg)],
              bus_comments = [], attrib_typedefs = typedefs_init, attrib_defaults = [],
              bus_attributes = []\<rparr> :: unit bus"
  have mem: "(100, scenario_msg) \<in> set (messages ?b)" by simp
  have one: "filter (\<lambda>r. is_multiplexor (sigs scenario_msg ! r)) (signals scenario_msg) = [0]"
    by (simp add: scenario_msg_def scenario_sigs_def builder_defs)
  have inrange: "\<forall>r \<in> set (signals scenario_msg).
          \<forall>v. multiplex_value (sigs scenario_msg ! r) = Some v
              \<longrightarrow> 0 \<le> v \<and> v < 2 ^ numbits (sigs scenario_msg ! 0)"
    by (simp add: scenario_msg_def scenario_sigs_def builder_defs)
  from C4_single_multiplexor[OF scenario_stages mem one] inrange
  have "\<exists>m'. organize_mux scenario_msg = Inr m'
          \<and> signals m' = filter (\<lambda>r. multiplex_value (sigs scenario_msg ! r) = None)
                           (signals scenario_msg)
          \<and> switch (sigs m' ! 0)
              = map (\<lambda>r. (Range_init (the (multiplex_value (sigs scenario_msg ! r)))
                                    (the (multiplex_value (sigs scenario_msg ! r))), r))
                  (filter (\<lambda>r. multiplex_value (sigs scenario_msg ! r) \<noteq> None)
                     (signals scenario_msg))
          \<and> ((\<forall>p \<in> set (messages ?b). \<exists>q. organize_mux (snd p) = Inr q)
                \<longrightarrow> (\<exists>b1. stage_mux (?b, []) = Inr (b1, [])))
          \<and> (\<forall>b1 sl1. stage_mux (?b, []) = Inr (b1, sl1)
                \<longrightarrow> map_of (messages b1) 100 = Some m')
          \<and> (\<forall>bf. Bus_init ?ex = Inr bf
                \<longrightarrow> (\<exists>mf. map_of (messages bf) 100 = Some mf
                       \<and> set (signals mf) \<subseteq> set (signals m')
                       \<and> (\<exists>more. switch (sigs mf ! 0) = switch (sigs m' ! 0) @ more)))"
    by (simp only: if_P)
  then obtain m' where org: "organize_mux scenario_msg = Inr m'"
    and top: "signals m' = filter (\<lambda>r. multiplex_value (sigs scenario_msg ! r) = None)
                           (signals scenario_msg)"
    and sw: "switch (sigs m' ! 0)
              = map (\<lambda>r. (Range_init (the (multiplex_value (sigs scenario_msg ! r)))
                                    (the (multiplex_value (sigs scenario_msg ! r))), r))
                  (filter (\<lambda>r. multiplex_value (sigs scenario_msg ! r) \<noteq> None)
                     (signals scenario_msg))"
    and ok: "(\<forall>p \<in> set (messages ?b). \<exists>q. organize_mux (snd p) = Inr q)
                \<longrightarrow> (\<exists>b1. stage_mux (?b, []) = Inr (b1, []))"
    and inst: "\<forall>b1 sl1. stage_mux (?b, []) = Inr (b1, sl1)
                \<longrightarrow> map_of (messages b1) 100 = Some m'"
    and fin: "\<forall>bf. Bus_init ?ex = Inr bf
                \<longrightarrow> (\<exists>mf. map_of (messages bf) 100 = Some mf
                       \<and> set (signals mf) \<subseteq> set (signals m')
                       \<and> (\<exists>more. switch (sigs mf ! 0) = switch (sigs m' ! 0) @ more))"
    by blast
  have "filter (\<lambda>r. multiplex_value (sigs scenario_msg ! r) = None)
                   (signals scenario_msg) = [0]"
    by (simp add: scenario_msg_def scenario_sigs_def builder_defs)
  with top have top': "signals m' = [0]" by simp
  have "map (\<lambda>r. (Range_init (the (multiplex_value (sigs scenario_msg ! r)))
                                    (the (multiplex_value (sigs scenario_msg ! r))), r))
                  (filter (\<lambda>r. multiplex_value (sigs scenario_msg ! r) \<noteq> None)
                     (signals scenario_msg))
                 = [(Range_init 0 0, 1), (Range_init 2 2, 2)]"
    by (simp add: scenario_msg_def scenario_sigs_def builder_defs)
  with sw have sw': "switch (sigs m' ! 0) = [(Range_init 0 0, 1), (Range_init 2 2, 2)]"
    by simp
  from org have "\<forall>p \<in> set (messages ?b). \<exists>q. organize_mux (snd p) = Inr q" by simp
  with ok obtain b1 where b1: "stage_mux (?b, []) = Inr (b1, [])" by blast
  with inst have b1m: "map_of (messages b1) 100 = Some m'" by blast
  have "\<exists>bf. Bus_init ?ex = Inr bf
           \<and> map (\<lambda>p. (fst p, signals (snd p), switch (sigs (snd p) ! 0))) (messages bf)
               = [(100, [0], [(Range_init 0 0, 1), (Range_init 2 2, 2)])]"
    by (simp add: builder_defs scenario_sigs_def)
  then obtain bf where bb: "Bus_init ?ex = Inr bf
           \<and> map (\<lambda>p. (fst p, signals (snd p), switch (sigs (snd p) ! 0))) (messages bf)
               = [(100, [0], [(Range_init 0 0, 1), (Range_init 2 2, 2)])]" ..
  from bb have bf: "Bus_init ?ex = Inr bf" by (rule conjunct1)
  from bb have ms: "map (\<lambda>p. (fst p, signals (snd p), switch (sigs (snd p) ! 0))) (messages bf)
               = [(100, [0], [(Range_init 0 0, 1), (Range_init 2 2, 2)])]"
    by (rule conjunct2)
  from fin bf obtain mf where mf: "map_of (messages bf) 100 = Some mf" by blast
  from ms mf have mf1: "signals mf = [0]"
    and mf2: "switch (sigs mf ! 0) = [(Range_init 0 0, 1), (Range_init 2 2, 2)]"
    by (cases "messages bf"; auto)+
  from bf mf mf1 mf2 have last: "\<exists>bf mf. Bus_init ?ex = Inr bf
            \<and> map_of (messages bf) 100 = Some mf
            \<and> signals mf = [0]
            \<and> switch (sigs mf ! 0) = [(Range_init 0 0, 1), (Range_init 2 2, 2)]"
    by blast
  from b1 b1m have mid: "\<exists>b1. stage_mux (?b, []) = Inr (b1, []) \<and> map_of (messages b1) 100 = Some m'"
    by blast
  show ?thesis
    apply (rule exI[of _ ?b])
    apply (rule exI[of _ m'])
    apply (intro conjI)
           apply (rule scenario_stages)
          apply (rule mem)
         apply (rule one)
        apply (rule org)
       apply (rule top')
      apply (rule sw')
     apply (rule mid)
    apply (rule last)
    done
qed

section \<open>Canonical lines and the diff engine\<close>

text \<open>
  Python formats a float with \<open>str\<close> and compares floats with \<open>==\<close>; both belong to the
  interpreter.  They are parameters here: \<open>fstr\<close> is the formatting of a float, \<open>feq\<close> the
  comparison of two floats and \<open>ieq\<close> the comparison of an integer with a float.  Where a
  report shows a Python container, the \<open>repr_\<close> functions render it; Python shows the
  elements of a set in an order of its own, here they stand in the order of the list.
\<close>

fun join :: "string \<Rightarrow> string list \<Rightarrow> string" where
  "join sep [] = []"
| "join sep [x] = x"
| "join sep (x # y # zs) = x @ sep @ join sep (y # zs)"

definition repr_str :: "string \<Rightarrow> string" where
  "repr_str s = [CHR 0x27] @ s @ [CHR 0x27]"

definition repr_list :: "('a \<Rightarrow> string) \<Rightarrow> 'a list \<Rightarrow> string" where
  "repr_list f xs = ''['' @ join '', '' (map f xs) @ '']''"

definition repr_set :: "('a \<Rightarrow> string) \<Rightarrow> 'a list \<Rightarrow> string" where
  "repr_set f xs = (if xs = [] then ''set()'' else ''{'' @ join '', '' (map f xs) @ ''}'')"

definition repr_dict :: "('k \<Rightarrow> string) \<Rightarrow> ('v \<Rightarrow> string) \<Rightarrow> ('k \<times> 'v) list \<Rightarrow> string" where
  "repr_dict fk fv d = ''{'' @ join '', '' (map (\<lambda>p. fk (fst p) @ '': '' @ fv (snd p)) d) @ ''}''"

fun repr_literal :: "('f \<Rightarrow> string) \<Rightarrow> 'f literal \<Rightarrow> string" where
  "repr_literal fstr (LInt i) = str_int i"
| "repr_literal fstr (LFloat x) = fstr x"
| "repr_literal fstr (LStr s) = repr_str s"

definition repr_node :: "('f \<Rightarrow> string) \<Rightarrow> 'f node \<Rightarrow> string" where
  "repr_node fstr nd =
     ''{'' @ repr_str ''comments'' @ '': '' @ repr_list repr_str (node_comments nd) @ '', ''
     @ repr_str ''attributes'' @ '': ''
     @ repr_dict repr_str (repr_literal fstr) (node_attributes nd) @ ''}''"

fun repr_typedef :: "('f \<Rightarrow> string) \<Rightarrow> 'f ba_typ \<Rightarrow> string" where
  "repr_typedef fstr (BA_INT a b) =
     ''{'' @ repr_str ''type'' @ '': '' @ repr_str ''INT'' @ '', '' @ repr_str ''values''
     @ '': ('' @ str_int a @ '', '' @ str_int b @ '')}''"
| "repr_typedef fstr (BA_HEX a b) =
     ''{'' @ repr_str ''type'' @ '': '' @ repr_str ''HEX'' @ '', '' @ repr_str ''values''
     @ '': ('' @ str_int a @ '', '' @ str_int b @ '')}''"
| "repr_typedef fstr (BA_FLOAT a b) =
     ''{'' @ repr_str ''type'' @ '': '' @ repr_str ''FLOAT'' @ '', '' @ repr_str ''values''
     @ '': ('' @ fstr a @ '', '' @ fstr b @ '')}''"
| "repr_typedef fstr BA_STRING =
     ''{'' @ repr_str ''type'' @ '': '' @ repr_str ''STRING'' @ '', '' @ repr_str ''values''
     @ '': None}''"
| "repr_typedef fstr (BA_ENUM l) =
     ''{'' @ repr_str ''type'' @ '': '' @ repr_str ''ENUM'' @ '', '' @ repr_str ''values''
     @ '': '' @ repr_list repr_str l @ ''}''"

definition str_opt_nat :: "nat option \<Rightarrow> string" where
  "str_opt_nat v = (case v of None \<Rightarrow> ''None'' | Some k \<Rightarrow> str_nat k)"

subsection \<open>Equality of values\<close>

text \<open>
  \<open>==\<close> on literal values: integers and strings by value, floats by \<open>feq\<close>, an integer
  and a float by \<open>ieq\<close>, a string and a number never.  Two dictionaries are equal when
  they have the same keys and equal values under each key.
\<close>

fun lit_eq :: "('f \<Rightarrow> 'f \<Rightarrow> bool) \<Rightarrow> (int \<Rightarrow> 'f \<Rightarrow> bool) \<Rightarrow> 'f literal \<Rightarrow> 'f literal \<Rightarrow> bool" where
  "lit_eq feq ieq (LInt a) (LInt b) = (a = b)"
| "lit_eq feq ieq (LFloat x) (LFloat y) = feq x y"
| "lit_eq feq ieq (LStr s) (LStr t) = (s = t)"
| "lit_eq feq ieq (LInt a) (LFloat y) = ieq a y"
| "lit_eq feq ieq (LFloat x) (LInt b) = ieq b x"
| "lit_eq feq ieq (LStr s) (LInt b) = False"
| "lit_eq feq ieq (LStr s) (LFloat y) = False"
| "lit_eq feq ieq (LInt a) (LStr t) = False"
| "lit_eq feq ieq (LFloat x) (LStr t) = False"

fun typ_eq :: "('f \<Rightarrow> 'f \<Rightarrow> bool) \<Rightarrow> 'f ba_typ \<Rightarrow> 'f ba_typ \<Rightarrow> bool" where
  "typ_eq feq (BA_INT a b) (BA_INT c d) = (a = c \<and> b = d)"
| "typ_eq feq (BA_HEX a b) (BA_HEX c d) = (a = c \<and> b = d)"
| "typ_eq feq (BA_FLOAT a b) (BA_FLOAT c d) = (feq a c \<and> feq b d)"
| "typ_eq feq BA_STRING BA_STRING = True"
| "typ_eq feq (BA_ENUM l) (BA_ENUM l') = (l = l')"
| "typ_eq feq _ _ = False"

definition dict_eq :: "('v \<Rightarrow> 'v \<Rightarrow> bool) \<Rightarrow> ('k \<times> 'v) list \<Rightarrow> ('k \<times> 'v) list \<Rightarrow> bool" where
  "dict_eq veq a b =
     list_all (\<lambda>k. rel_option veq (map_of a k) (map_of b k)) (map fst a @ map fst b)"

definition node_eq ::
  "('f \<Rightarrow> 'f \<Rightarrow> bool) \<Rightarrow> (int \<Rightarrow> 'f \<Rightarrow> bool) \<Rightarrow> 'f node \<Rightarrow> 'f node \<Rightarrow> bool" where
  "node_eq feq ieq a b =
     (node_comments a = node_comments b
      \<and> dict_eq (lit_eq feq ieq) (node_attributes a) (node_attributes b))"

definition set_diff :: "'a list \<Rightarrow> 'a list \<Rightarrow> 'a list" where
  \<comment> \<open>\<open>set(xs) - set(ys)\<close>\<close>
  "set_diff xs ys = filter (\<lambda>x. x \<notin> set ys) (keep_first xs)"

subsection \<open>Sequencing of checks\<close>

text \<open>
  A check yields a report, empty when it found no difference, or raises.  \<open>otherwise\<close>
  returns the report of a check if it is not empty and goes on to the next check if it
  is.  \<open>first_report\<close> is a loop that returns at the first report, and
  \<open>concat_reports\<close> a loop that gathers all of them.
\<close>

definition otherwise :: "error + string \<Rightarrow> error + string \<Rightarrow> error + string" where
  "otherwise r next_check =
     (case r of Inl e \<Rightarrow> Inl e | Inr s \<Rightarrow> if s \<noteq> [] then Inr s else next_check)"

definition report_if :: "bool \<Rightarrow> string \<Rightarrow> error + string" where
  "report_if c s = Inr (if c then s else [])"

fun first_report :: "('k \<Rightarrow> error + string) \<Rightarrow> 'k list \<Rightarrow> error + string" where
  "first_report f [] = Inr []"
| "first_report f (k # ks) =
     (case f k of Inl e \<Rightarrow> Inl e | Inr s \<Rightarrow> if s \<noteq> [] then Inr s else first_report f ks)"

fun concat_reports :: "('k \<Rightarrow> error + string) \<Rightarrow> 'k list \<Rightarrow> error + string" where
  "concat_reports f [] = Inr []"
| "concat_reports f (k # ks) =
     (case f k of
        Inl e \<Rightarrow> Inl e
      | Inr s \<Rightarrow> (case concat_reports f ks of Inl e \<Rightarrow> Inl e | Inr t \<Rightarrow> Inr (s @ t)))"

definition lookup :: "('k \<times> 'v) list \<Rightarrow> 'k \<Rightarrow> error + 'v" where
  \<comment> \<open>\<open>d[k]\<close>\<close>
  "lookup d k = (case map_of d k of None \<Rightarrow> Inl KeyError | Some v \<Rightarrow> Inr v)"

subsection \<open>Signal, SignalGroup, Message\<close>

definition Signal_dbc :: "('f \<Rightarrow> string) \<Rightarrow> 'f signal \<Rightarrow> string" where
  "Signal_dbc fstr sg =
     ''SG_ '' @ sig_name sg @ '' ''
     @ (case multiplex_value sg of None \<Rightarrow> [] | Some v \<Rightarrow> ''m'' @ str_nat v)
     @ (if is_multiplexor sg then ''M'' else [])
     @ (if multiplex_value sg \<noteq> None \<or> is_multiplexor sg then '' '' else [])
     @ '':''
     @ '' '' @ str_nat (start_bit sg) @ ''|'' @ str_nat (numbits sg) @ ''@''
     @ (if is_little_endian sg = Some True then ''1'' else ''0'')
     @ (if is_signed sg = Some True then ''-'' else ''+'')
     @ '' ('' @ fstr (factor sg) @ '','' @ fstr (offset sg) @ '')''
     @ '' ['' @ fstr (minval (sig_range sg)) @ ''|'' @ fstr (maxval (sig_range sg)) @ '']''
     @ '' \"'' @ sig_unit sg @ ''\"  '' @ fst (receivers sg)
     @ concat (map (\<lambda>r. '', '' @ r) (snd (receivers sg)))
     @ [newline]"

definition Signal_diff :: "('f \<Rightarrow> string) \<Rightarrow> 'f signal \<Rightarrow> 'f signal \<Rightarrow> string" where
  "Signal_diff fstr self other =
     (if Signal_dbc fstr self \<noteq> Signal_dbc fstr other
      then '' < '' @ Signal_dbc fstr self @ '' > '' @ Signal_dbc fstr other
      else [])"

definition SignalGroup_dbc :: "signal_group \<Rightarrow> string" where
  "SignalGroup_dbc g =
     str_nat (sg_n g) @ '' :'' @ concat (map (\<lambda>signame. '' '' @ signame) (sg_names g)) @ '';''"

definition SignalGroup_diff :: "signal_group \<Rightarrow> signal_group \<Rightarrow> string" where
  "SignalGroup_diff self other =
     (if set (sg_names self) \<noteq> set (sg_names other)
      then ''< '' @ SignalGroup_dbc self @ [newline] @ ''> '' @ SignalGroup_dbc other
      else [])"

definition signal_report ::
  "('f \<Rightarrow> string) \<Rightarrow> 'f message \<Rightarrow> 'f message \<Rightarrow> string \<Rightarrow> error + string" where
  \<comment> \<open>the body of \<open>for signame in self.signals_dict\<close>\<close>
  "signal_report fstr self other signame =
     ebind (lookup (signals_dict self) signame) (\<lambda>sig_self.
     ebind (lookup (signals_dict other) signame) (\<lambda>sig_other.
       report_if (Signal_diff fstr (sigs self ! sig_self) (sigs other ! sig_other) \<noteq> [])
         (''message id '' @ str_nat (msg_id self) @ '' signal '' @ signame @ '':'' @ [newline]
          @ Signal_diff fstr (sigs self ! sig_self) (sigs other ! sig_other) @ [newline])))"

definition group_report :: "'f message \<Rightarrow> 'f message \<Rightarrow> string \<Rightarrow> error + string" where
  \<comment> \<open>the body of \<open>for groupname in self.signal_groups\<close>\<close>
  "group_report self other groupname =
     ebind (lookup (signal_groups self) groupname) (\<lambda>group_self.
     ebind (lookup (signal_groups other) groupname) (\<lambda>group_other.
       report_if (SignalGroup_diff group_self group_other \<noteq> [])
         (''id '' @ str_nat (msg_id self) @ '' signal group '' @ groupname @ '' :'' @ [newline]
          @ ''  '' @ SignalGroup_diff group_self group_other @ [newline])))"

definition Message_diff ::
  "('f \<Rightarrow> string) \<Rightarrow> ('f \<Rightarrow> 'f \<Rightarrow> bool) \<Rightarrow> (int \<Rightarrow> 'f \<Rightarrow> bool)
     \<Rightarrow> 'f message \<Rightarrow> 'f message \<Rightarrow> error + string" where
  "Message_diff fstr feq ieq self other =
     otherwise (report_if (msg_id self \<noteq> msg_id other)
       (''message id:'' @ [newline] @ '' < '' @ str_nat (msg_id self) @ [newline]
        @ '' > '' @ str_nat (msg_id other) @ [newline]))
    (otherwise (report_if (msg_name self \<noteq> msg_name other)
       (''id '' @ str_nat (msg_id self) @ '' message name:'' @ [newline]
        @ '' < '' @ msg_name self @ [newline] @ '' > '' @ msg_name other @ [newline]))
    (otherwise (report_if (msg_size self \<noteq> msg_size other)
       (''id '' @ str_nat (msg_id self) @ '' message size:'' @ [newline]
        @ '' < '' @ str_nat (msg_size self) @ [newline]
        @ '' > '' @ str_nat (msg_size other) @ [newline]))
    (otherwise (report_if (set_diff (transmitters self) (transmitters other) \<noteq> []
                           \<or> set_diff (transmitters other) (transmitters self) \<noteq> [])
       (''id '' @ str_nat (msg_id self) @ '' transmitters :'' @ [newline]
        @ '' < '' @ repr_set repr_str (set_diff (transmitters self) (transmitters other))
        @ [newline]
        @ '' > '' @ repr_set repr_str (set_diff (transmitters other) (transmitters self))
        @ [newline]))
    (otherwise (report_if (set_diff (map fst (signals_dict self)) (map fst (signals_dict other)) \<noteq> []
                           \<or> set_diff (map fst (signals_dict other)) (map fst (signals_dict self)) \<noteq> [])
       (''message id '' @ str_nat (msg_id self) @ '' signals :'' @ [newline]
        @ '' < '' @ repr_set repr_str
                     (set_diff (map fst (signals_dict self)) (map fst (signals_dict other)))
        @ [newline]
        @ '' > '' @ repr_set repr_str
                     (set_diff (map fst (signals_dict other)) (map fst (signals_dict self)))
        @ [newline]))
    (otherwise (first_report (signal_report fstr self other) (map fst (signals_dict self)))
    (otherwise (report_if (msg_comments self \<noteq> msg_comments other)
       (''id '' @ str_nat (msg_id self) @ '' comments:'' @ [newline]
        @ '' < '' @ repr_list repr_str (msg_comments self) @ [newline]
        @ '' > '' @ repr_list repr_str (msg_comments other) @ [newline]))
    (otherwise (report_if (\<not> dict_eq (lit_eq feq ieq) (msg_attributes self) (msg_attributes other))
       (''id '' @ str_nat (msg_id self) @ '' attributes:'' @ [newline]
        @ '' < '' @ repr_dict repr_str (repr_literal fstr) (msg_attributes self) @ [newline]
        @ '' > '' @ repr_dict repr_str (repr_literal fstr) (msg_attributes other) @ [newline]))
    (otherwise (report_if (set_diff (map fst (signal_groups self)) (map fst (signal_groups other)) \<noteq> []
                           \<or> set_diff (map fst (signal_groups other)) (map fst (signal_groups self)) \<noteq> [])
       (''id '' @ str_nat (msg_id self) @ '' signal groups :'' @ [newline]
        @ '' < '' @ repr_set repr_str
                     (set_diff (map fst (signal_groups self)) (map fst (signal_groups other)))
        @ [newline]
        @ '' > '' @ repr_set repr_str
                     (set_diff (map fst (signal_groups other)) (map fst (signal_groups self)))
        @ [newline]))
    (otherwise (first_report (group_report self other) (map fst (signal_groups self)))
       (Inr []))))))))))"

subsection \<open>Bus\<close>

definition btr_report :: "(nat \<times> nat) option \<Rightarrow> (nat \<times> nat) option \<Rightarrow> error + string" where
  \<comment> \<open>\<open>self.btr[0]\<close> raises \<open>TypeError\<close> when a \<open>btr\<close> is \<open>None\<close>\<close>
  "btr_report a b =
     (if a \<noteq> b then
        (case (a, b) of
           (Some (a1, a2), Some (b1, b2)) \<Rightarrow>
             if a1 \<noteq> b1 then
               Inr (''btr1:'' @ [newline] @ '' < '' @ str_nat a1 @ [newline]
                    @ '' > '' @ str_nat b1 @ [newline])
             else if a2 \<noteq> b2 then
               Inr (''btr2:'' @ [newline] @ '' < '' @ str_nat a2 @ [newline]
                    @ '' > '' @ str_nat b2 @ [newline])
             else Inr []
         | _ \<Rightarrow> Inl TypeError)
      else Inr [])"

definition node_report ::
  "('f \<Rightarrow> string) \<Rightarrow> ('f \<Rightarrow> 'f \<Rightarrow> bool) \<Rightarrow> (int \<Rightarrow> 'f \<Rightarrow> bool)
     \<Rightarrow> 'f bus \<Rightarrow> 'f bus \<Rightarrow> string \<Rightarrow> error + string" where
  \<comment> \<open>the body of \<open>for k in self.nodes\<close>\<close>
  "node_report fstr feq ieq self other k =
     ebind (lookup (nodes self) k) (\<lambda>own.
     ebind (lookup (nodes other) k) (\<lambda>others.
       report_if (\<not> node_eq feq ieq own others)
         (''   '' @ k @ '':'' @ [newline] @ ''      < '' @ repr_node fstr own @ [newline]
          @ ''      > '' @ repr_node fstr others @ [newline])))"

definition message_report ::
  "('f \<Rightarrow> string) \<Rightarrow> ('f \<Rightarrow> 'f \<Rightarrow> bool) \<Rightarrow> (int \<Rightarrow> 'f \<Rightarrow> bool)
     \<Rightarrow> 'f bus \<Rightarrow> 'f bus \<Rightarrow> nat \<Rightarrow> error + string" where
  \<comment> \<open>the body of \<open>for msgid in self.messages\<close>\<close>
  "message_report fstr feq ieq self other msgid =
     ebind (lookup (messages self) msgid) (\<lambda>own.
     ebind (lookup (messages other) msgid) (\<lambda>others.
       Message_diff fstr feq ieq own others))"

definition Bus_diff ::
  "('f \<Rightarrow> string) \<Rightarrow> ('f \<Rightarrow> 'f \<Rightarrow> bool) \<Rightarrow> (int \<Rightarrow> 'f \<Rightarrow> bool)
     \<Rightarrow> 'f bus \<Rightarrow> 'f bus \<Rightarrow> error + string" where
  "Bus_diff fstr feq ieq self other =
     otherwise (report_if (version self \<noteq> version other)
       (''version:'' @ [newline] @ '' < '' @ version self @ [newline]
        @ '' > '' @ version other @ [newline]))
    (otherwise (report_if (baudrate self \<noteq> baudrate other)
       (''baudrate:'' @ [newline] @ '' < '' @ str_opt_nat (baudrate self) @ [newline]
        @ '' > '' @ str_opt_nat (baudrate other) @ [newline]))
    (otherwise (btr_report (btr self) (btr other))
    (otherwise (report_if (set_diff (map fst (nodes self)) (map fst (nodes other)) \<noteq> []
                           \<or> set_diff (map fst (nodes other)) (map fst (nodes self)) \<noteq> [])
       (''nodes:'' @ [newline]
        @ '' < '' @ repr_set repr_str (set_diff (map fst (nodes self)) (map fst (nodes other)))
        @ [newline]
        @ '' > '' @ repr_set repr_str (set_diff (map fst (nodes other)) (map fst (nodes self)))
        @ [newline]))
    (otherwise (ebind (concat_reports (node_report fstr feq ieq self other) (map fst (nodes self)))
                  (\<lambda>s. report_if (s \<noteq> []) (''nodes:'' @ [newline] @ s)))
    (otherwise (report_if (set_diff (newsymbols self) (newsymbols other) \<noteq> []
                           \<or> set_diff (newsymbols other) (newsymbols self) \<noteq> [])
       (''new symbols:'' @ [newline]
        @ '' < '' @ repr_set repr_str (set_diff (newsymbols self) (newsymbols other)) @ [newline]
        @ '' > '' @ repr_set repr_str (set_diff (newsymbols other) (newsymbols self)) @ [newline]))
    (otherwise (report_if (\<not> dict_eq (dict_eq (=)) (global_values self) (global_values other))
       (''global values:'' @ [newline]
        @ '' < '' @ repr_dict repr_str (repr_dict str_int repr_str) (global_values self)
        @ [newline]
        @ '' > '' @ repr_dict repr_str (repr_dict str_int repr_str) (global_values other)
        @ [newline]))
    (otherwise (report_if (set_diff (map fst (messages self)) (map fst (messages other)) \<noteq> []
                           \<or> set_diff (map fst (messages other)) (map fst (messages self)) \<noteq> [])
       (''messages by id:'' @ [newline]
        @ '' < '' @ repr_set str_nat (set_diff (map fst (messages self)) (map fst (messages other)))
        @ [newline]
        @ '' > '' @ repr_set str_nat (set_diff (map fst (messages other)) (map fst (messages self)))
        @ [newline]))
    (otherwise (first_report (message_report fstr feq ieq self other) (map fst (messages self)))
    (otherwise (report_if (bus_comments self \<noteq> bus_comments other)
       (''global comments:'' @ [newline]
        @ '' < '' @ repr_list repr_str (bus_comments self) @ [newline]
        @ '' > '' @ repr_list repr_str (bus_comments other) @ [newline]))
    (otherwise (report_if (\<not> dict_eq (dict_eq (typ_eq feq))
                                (attrib_typedefs self) (attrib_typedefs other))
       (''attribute definitions:'' @ [newline]
        @ '' < '' @ repr_dict repr_str (repr_dict repr_str (repr_typedef fstr))
                     (attrib_typedefs self) @ [newline]
        @ '' > '' @ repr_dict repr_str (repr_dict repr_str (repr_typedef fstr))
                     (attrib_typedefs other) @ [newline]))
    (otherwise (report_if (\<not> dict_eq (lit_eq feq ieq) (attrib_defaults self) (attrib_defaults other))
       (''attribute defaults:'' @ [newline]
        @ '' < '' @ repr_dict repr_str (repr_literal fstr) (attrib_defaults self) @ [newline]
        @ '' > '' @ repr_dict repr_str (repr_literal fstr) (attrib_defaults other) @ [newline]))
    (otherwise (report_if (\<not> dict_eq (lit_eq feq ieq) (bus_attributes self) (bus_attributes other))
       (''attributes:'' @ [newline]
        @ '' < '' @ repr_dict repr_str (repr_literal fstr) (bus_attributes self) @ [newline]
        @ '' > '' @ repr_dict repr_str (repr_literal fstr) (bus_attributes other) @ [newline]))
       (Inr [])))))))))))))"

section \<open>Properties of the diff engine\<close>

lemma otherwise_empty [simp]:
  "otherwise r n = Inr [] \<longleftrightarrow> r = Inr [] \<and> n = Inr []"
  by (auto simp: otherwise_def split: sum.splits)

lemma report_if_empty [simp]: "s \<noteq> [] \<Longrightarrow> report_if c s = Inr [] \<longleftrightarrow> \<not> c"
  by (simp add: report_if_def)

lemma first_report_empty:
  "first_report f ks = Inr [] \<longleftrightarrow> (\<forall>k \<in> set ks. f k = Inr [])"
  by (induction ks) (auto split: sum.splits)

lemma concat_reports_empty:
  "concat_reports f ks = Inr [] \<longleftrightarrow> (\<forall>k \<in> set ks. f k = Inr [])"
  by (induction ks) (auto split: sum.splits)

lemma set_keep_first_aux:
  "set (fold (\<lambda>x ys. if x \<in> set ys then ys else ys @ [x]) xs acc) = set xs \<union> set acc"
  by (induction xs arbitrary: acc) auto

lemma set_keep_first [simp]: "set (keep_first xs) = set xs"
  by (simp add: keep_first_def set_keep_first_aux)

lemma set_diff_empty [simp]: "set_diff xs ys = [] \<longleftrightarrow> set xs \<subseteq> set ys"
  by (auto simp: set_diff_def filter_empty_conv)

lemma set_diff_both:
  "set_diff xs ys \<noteq> [] \<or> set_diff ys xs \<noteq> [] \<longleftrightarrow> set xs \<noteq> set ys"
  by auto

lemma lit_eq_sym:
  assumes "\<And>x y. feq x y = feq y x"
  shows "lit_eq feq ieq a b = lit_eq feq ieq b a"
  using assms by (cases a; cases b) auto

lemma lit_eq_refl:
  assumes "\<And>x. feq x x"
  shows "lit_eq feq ieq a a"
  using assms by (cases a) auto

lemma typ_eq_sym:
  assumes "\<And>x y. feq x y = feq y x"
  shows "typ_eq feq a b = typ_eq feq b a"
  using assms by (cases a; cases b) auto

lemma typ_eq_refl:
  assumes "\<And>x. feq x x"
  shows "typ_eq feq a a"
  using assms by (cases a) auto

lemma rel_option_sym:
  assumes "\<And>x y. veq x y = veq y x"
  shows "rel_option veq u v = rel_option veq v u"
  using assms by (cases u; cases v) auto

lemma dict_eq_sym:
  assumes "\<And>x y. veq x y = veq y x"
  shows "dict_eq veq a b = dict_eq veq b a"
  using rel_option_sym[of veq, OF assms]
  by (auto simp: dict_eq_def list_all_iff)

lemma dict_eq_refl:
  assumes "\<And>x. veq x x"
  shows "dict_eq veq a a"
  using assms by (auto simp: dict_eq_def list_all_iff option.rel_refl)

lemma node_eq_sym:
  assumes "\<And>x y. feq x y = feq y x"
  shows "node_eq feq ieq a b = node_eq feq ieq b a"
  using dict_eq_sym[of "lit_eq feq ieq", OF lit_eq_sym[of feq, OF assms]]
  by (auto simp: node_eq_def)

lemma node_eq_refl:
  assumes "\<And>x. feq x x"
  shows "node_eq feq ieq a a"
  using assms by (simp add: node_eq_def dict_eq_refl lit_eq_refl)

lemma lookup_Inr: "lookup d k = Inr v \<longleftrightarrow> map_of d k = Some v"
  by (simp add: lookup_def split: option.splits)

lemma lookup_key: "k \<in> set (map fst d) \<Longrightarrow> \<exists>v. lookup d k = Inr v"
  by (cases "map_of d k") (auto simp: lookup_def map_of_eq_None_iff)

lemma signal_report_empty:
  "signal_report fstr a b k = Inr [] \<longleftrightarrow>
     (\<exists>r1 r2. lookup (signals_dict a) k = Inr r1 \<and> lookup (signals_dict b) k = Inr r2
        \<and> Signal_dbc fstr (sigs a ! r1) = Signal_dbc fstr (sigs b ! r2))"
  by (auto simp: signal_report_def ebind_def Signal_diff_def report_if_def split: sum.splits)

lemma signal_report_sym:
  "signal_report fstr a b k = Inr [] \<longleftrightarrow> signal_report fstr b a k = Inr []"
  unfolding signal_report_empty by metis

lemma group_report_empty:
  "group_report a b k = Inr [] \<longleftrightarrow>
     (\<exists>g1 g2. lookup (signal_groups a) k = Inr g1 \<and> lookup (signal_groups b) k = Inr g2
        \<and> set (sg_names g1) = set (sg_names g2))"
  by (auto simp: group_report_def ebind_def SignalGroup_diff_def report_if_def split: sum.splits)

lemma group_report_sym:
  "group_report a b k = Inr [] \<longleftrightarrow> group_report b a k = Inr []"
  unfolding group_report_empty by metis

lemma Message_diff_empty:
  "Message_diff fstr feq ieq a b = Inr [] \<longleftrightarrow>
     msg_id a = msg_id b \<and> msg_name a = msg_name b \<and> msg_size a = msg_size b
     \<and> set (transmitters a) = set (transmitters b)
     \<and> set (map fst (signals_dict a)) = set (map fst (signals_dict b))
     \<and> (\<forall>k \<in> set (map fst (signals_dict a)). signal_report fstr a b k = Inr [])
     \<and> msg_comments a = msg_comments b
     \<and> dict_eq (lit_eq feq ieq) (msg_attributes a) (msg_attributes b)
     \<and> set (map fst (signal_groups a)) = set (map fst (signal_groups b))
     \<and> (\<forall>k \<in> set (map fst (signal_groups a)). group_report a b k = Inr [])"
  unfolding Message_diff_def
  by (simp add: first_report_empty) auto

lemma Message_diff_sym:
  assumes "\<And>x y. feq x y = feq y x"
  shows "Message_diff fstr feq ieq a b = Inr [] \<longleftrightarrow> Message_diff fstr feq ieq b a = Inr []"
proof -
  have d: "dict_eq (lit_eq feq ieq) (msg_attributes a) (msg_attributes b)
         = dict_eq (lit_eq feq ieq) (msg_attributes b) (msg_attributes a)"
    by (rule dict_eq_sym) (rule lit_eq_sym[OF assms])
  show ?thesis
    unfolding Message_diff_empty d
    using signal_report_sym[of fstr a b] group_report_sym[of a b]
    by (intro iffI conjI; (elim conjE)?; simp?)
qed

lemma Message_diff_refl:
  assumes "\<And>x. feq x x"
  shows "Message_diff fstr feq ieq a a = Inr []"
proof -
  have "signal_report fstr a a k = Inr []" if "k \<in> set (map fst (signals_dict a))" for k
    using lookup_key[OF that] by (auto simp: signal_report_empty)
  moreover have "group_report a a k = Inr []" if "k \<in> set (map fst (signal_groups a))" for k
    using lookup_key[OF that] by (auto simp: group_report_empty)
  moreover have "dict_eq (lit_eq feq ieq) (msg_attributes a) (msg_attributes a)"
    by (rule dict_eq_refl) (rule lit_eq_refl[OF assms])
  ultimately show ?thesis unfolding Message_diff_empty by simp
qed

lemma btr_report_empty: "btr_report a b = Inr [] \<longleftrightarrow> a = b"
  by (auto simp: btr_report_def split: option.splits prod.splits)

lemma node_report_empty:
  "node_report fstr feq ieq a b k = Inr [] \<longleftrightarrow>
     (\<exists>n1 n2. lookup (nodes a) k = Inr n1 \<and> lookup (nodes b) k = Inr n2 \<and> node_eq feq ieq n1 n2)"
  by (auto simp: node_report_def ebind_def report_if_def split: sum.splits)

lemma node_report_sym:
  assumes "\<And>x y. feq x y = feq y x"
  shows "node_report fstr feq ieq a b k = Inr [] \<longleftrightarrow> node_report fstr feq ieq b a k = Inr []"
  unfolding node_report_empty using node_eq_sym[of feq ieq, OF assms] by metis

lemma message_report_empty:
  "message_report fstr feq ieq a b k = Inr [] \<longleftrightarrow>
     (\<exists>m1 m2. lookup (messages a) k = Inr m1 \<and> lookup (messages b) k = Inr m2
        \<and> Message_diff fstr feq ieq m1 m2 = Inr [])"
  by (auto simp: message_report_def ebind_def split: sum.splits)

lemma message_report_sym:
  assumes "\<And>x y. feq x y = feq y x"
  shows "message_report fstr feq ieq a b k = Inr []
     \<longleftrightarrow> message_report fstr feq ieq b a k = Inr []"
  unfolding message_report_empty using Message_diff_sym[of feq fstr ieq, OF assms] by metis

lemma nodes_check_empty:
  assumes "\<And>s. g s \<noteq> []"
  shows "ebind (concat_reports f ks) (\<lambda>s. report_if (s \<noteq> []) (g s)) = Inr []
     \<longleftrightarrow> (\<forall>k \<in> set ks. f k = Inr [])"
  using assms
  by (cases "concat_reports f ks")
     (auto simp: ebind_def report_if_def concat_reports_empty[symmetric])

lemma Bus_diff_empty:
  "Bus_diff fstr feq ieq a b = Inr [] \<longleftrightarrow>
     version a = version b \<and> baudrate a = baudrate b \<and> btr a = btr b
     \<and> set (map fst (nodes a)) = set (map fst (nodes b))
     \<and> (\<forall>k \<in> set (map fst (nodes a)). node_report fstr feq ieq a b k = Inr [])
     \<and> set (newsymbols a) = set (newsymbols b)
     \<and> dict_eq (dict_eq (=)) (global_values a) (global_values b)
     \<and> set (map fst (messages a)) = set (map fst (messages b))
     \<and> (\<forall>k \<in> set (map fst (messages a)). message_report fstr feq ieq a b k = Inr [])
     \<and> bus_comments a = bus_comments b
     \<and> dict_eq (dict_eq (typ_eq feq)) (attrib_typedefs a) (attrib_typedefs b)
     \<and> dict_eq (lit_eq feq ieq) (attrib_defaults a) (attrib_defaults b)
     \<and> dict_eq (lit_eq feq ieq) (bus_attributes a) (bus_attributes b)"
  unfolding Bus_diff_def
  by (simp add: first_report_empty nodes_check_empty btr_report_empty) auto

lemma Bus_diff_sym:
  assumes "\<And>x y. feq x y = feq y x"
  shows "Bus_diff fstr feq ieq a b = Inr [] \<longleftrightarrow> Bus_diff fstr feq ieq b a = Inr []"
proof -
  have d1: "dict_eq (dict_eq (=)) (global_values a) (global_values b)
          = dict_eq (dict_eq (=)) (global_values b) (global_values a)"
    by (rule dict_eq_sym) (rule dict_eq_sym, auto)
  have d2: "dict_eq (dict_eq (typ_eq feq)) (attrib_typedefs a) (attrib_typedefs b)
          = dict_eq (dict_eq (typ_eq feq)) (attrib_typedefs b) (attrib_typedefs a)"
    by (rule dict_eq_sym) (rule dict_eq_sym, rule typ_eq_sym[OF assms])
  have d3: "dict_eq (lit_eq feq ieq) (attrib_defaults a) (attrib_defaults b)
          = dict_eq (lit_eq feq ieq) (attrib_defaults b) (attrib_defaults a)"
    by (rule dict_eq_sym) (rule lit_eq_sym[OF assms])
  have d4: "dict_eq (lit_eq feq ieq) (bus_attributes a) (bus_attributes b)
          = dict_eq (lit_eq feq ieq) (bus_attributes b) (bus_attributes a)"
    by (rule dict_eq_sym) (rule lit_eq_sym[OF assms])
  show ?thesis
    unfolding Bus_diff_empty d1 d2 d3 d4
    using node_report_sym[of feq fstr ieq a b, OF assms]
      message_report_sym[of feq fstr ieq a b, OF assms]
    by (intro iffI conjI; (elim conjE)?; simp?)
qed

lemma Bus_diff_refl:
  assumes "\<And>x. feq x x"
  shows "Bus_diff fstr feq ieq a a = Inr []"
proof -
  have "node_report fstr feq ieq a a k = Inr []" if "k \<in> set (map fst (nodes a))" for k
    using lookup_key[OF that] node_eq_refl[of feq ieq, OF assms]
    by (auto simp: node_report_empty)
  moreover have "message_report fstr feq ieq a a k = Inr []"
    if "k \<in> set (map fst (messages a))" for k
    using lookup_key[OF that] Message_diff_refl[of feq fstr ieq, OF assms]
    by (auto simp: message_report_empty)
  moreover have "dict_eq (dict_eq (=)) (global_values a) (global_values a)"
    by (intro dict_eq_refl) simp
  moreover have "dict_eq (dict_eq (typ_eq feq)) (attrib_typedefs a) (attrib_typedefs a)"
    by (intro dict_eq_refl typ_eq_refl assms)
  moreover have "dict_eq (lit_eq feq ieq) (attrib_defaults a) (attrib_defaults a)"
    "dict_eq (lit_eq feq ieq) (bus_attributes a) (bus_attributes a)"
    by (intro dict_eq_refl lit_eq_refl assms)+
  ultimately show ?thesis unfolding Bus_diff_empty by simp
qed

text \<open>
  C7: for every Bus \<open>b\<close>, successfully constructed or not, \<open>b.diff(b)\<close> returns the
  empty string, and for all Buses \<open>b1\<close>, \<open>b2\<close>, \<open>b1.diff(b2)\<close> returns the empty string
  if and only if \<open>b2.diff(b1)\<close> does.  The comparison of floats is taken to be symmetric
  and to hold between a float and itself, as \<open>==\<close> does on every float but NaN, which
  \<open>double\<close> never returns.
\<close>

theorem C7_diff_reflexive_symmetric:
  assumes "\<forall>x. feq x x" and "\<forall>x y. feq x y = feq y x"
  shows "Bus_diff fstr feq ieq b b = Inr []
    \<and> (Bus_diff fstr feq ieq b1 b2 = Inr [] \<longleftrightarrow> Bus_diff fstr feq ieq b2 b1 = Inr [])"
proof
  from assms(1) show "Bus_diff fstr feq ieq b b = Inr []" by (intro Bus_diff_refl) simp
  from assms(2) have "feq x y = feq y x" for x y by simp
  then show "Bus_diff fstr feq ieq b1 b2 = Inr [] \<longleftrightarrow> Bus_diff fstr feq ieq b2 b1 = Inr []"
    by (rule Bus_diff_sym)
qed

theorem C7_diff_reflexive_symmetric_witness:
  "\<exists>b :: unit bus.
      Bus_init (one_message [''N''] scenario_sigs) = Inr b
    \<and> Bus_diff (\<lambda>x. ''0.0'') (=) (\<lambda>i x. False) b b = Inr []
    \<and> (Bus_diff (\<lambda>x. ''0.0'') (=) (\<lambda>i x. False) b empty_bus = Inr []
         \<longleftrightarrow> Bus_diff (\<lambda>x. ''0.0'') (=) (\<lambda>i x. False) empty_bus b = Inr [])"
proof -
  have "\<exists>b :: unit bus. Bus_init (one_message [''N''] scenario_sigs) = Inr b"
    by (simp add: builder_defs scenario_sigs_def)
  then obtain b :: "unit bus" where b: "Bus_init (one_message [''N''] scenario_sigs) = Inr b" ..
  have "\<forall>x :: unit. x = x" and "\<forall>x y :: unit. (x = y) = (y = x)" by simp_all
  from C7_diff_reflexive_symmetric[OF this, of "\<lambda>x. ''0.0''" "\<lambda>i x. False" b b empty_bus] b
  show ?thesis by blast
qed

section \<open>Parser: the section grammar\<close>

definition Parser_keywords :: "string list" where
  "Parser_keywords =
     [''VERSION'', ''NS_'', ''NS_DESC_'', ''CM_'', ''BA_DEF_'',
      ''BA_'', ''VAL_'', ''CAT_DEF_'', ''CAT_'', ''FILTER'', ''BA_DEF_DEF_'',
      ''EV_DATA_'', ''ENVVAR_DATA_'', ''SGTYPE_'', ''SGTYPE_VAL_'',
      ''BA_DEF_SGTYPE_'', ''BA_SGTYPE_'', ''SIG_TYPE_REF_'', ''VAL_TABLE_'',
      ''SIG_GROUP_'', ''SIG_VALTYPE_'', ''SIGTYPE_VALTYPE_'', ''BO_TX_BU_'',
      ''BA_DEF_REL_'', ''BA_REL_'', ''BA_DEF_DEF_REL_'', ''BU_SG_REL_'',
      ''BU_EV_REL_'', ''BU_BO_REL_'', ''SG_MUL_VAL_'', ''BS_'', ''BU_'',
      ''BO_'', ''SG_'', ''EV_'', ''VECTOR__INDEPENDENT_SIG_MSG'',
      ''Vector__XXX'']"

definition keywords_BO :: "string list" where
  "keywords_BO = remove1 ''VECTOR__INDEPENDENT_SIG_MSG'' Parser_keywords"

definition keywords_most :: "string list" where
  "keywords_most = remove1 ''Vector__XXX'' Parser_keywords"

definition symnames :: "string list" where
  "symnames =
     [''BA_DEF_DEF_REL_'', ''BA_DEF_DEF_'', ''BA_DEF_SGTYPE_'',
      ''BA_DEF_REL_'', ''BA_DEF_'', ''BA_REL_'', ''BA_SGTYPE_'', ''BA_'',
      ''BO_TX_BU_'', ''BU_SG_REL_'', ''BU_EV_REL_'', ''BU_BO_REL_'',
      ''CM_'', ''CAT_DEF_'', ''CAT_'',
      ''ENVVAR_DATA_'', ''EV_DATA_'', ''FILTER'',
      ''NS_DESC_'',
      ''SIG_GROUP_'', ''SIG_TYPE_REF_'', ''SIG_VALTYPE_'',
      ''SIGTYPE_VALTYPE_'', ''SGTYPE_VAL_'', ''SGTYPE_'',
      ''SG_MUL_VAL_'',
      ''VAL_TABLE_'', ''VAL_'']"

definition identifier_ws :: "string list \<Rightarrow> pstate \<Rightarrow> string presult" where
  "identifier_ws reserved = pbind (identifier_atom reserved) (\<lambda>res. pthen ws (preturn res))"

text \<open>
  The loops of \<open>identifier_list\<close> and \<open>string_list\<close> go on as long as the rule returns a
  value that Python takes for true: an identifier always is, a string is unless empty.
\<close>

function identifier_list_loop ::
  "string list \<Rightarrow> sep_pattern \<Rightarrow> pstate \<Rightarrow> string list \<Rightarrow> string list presult" where
  "identifier_list_loop reserved sep st idl =
     (if pn st < len st then
        (case optional (identifier_atom reserved) (eat_pattern sep st) of
           Inl e \<Rightarrow> Inl e
         | Inr p \<Rightarrow>
             (case fst p of
                None \<Rightarrow> Inr (idl, st)
              | Some res \<Rightarrow>
                  if res \<noteq> [] then identifier_list_loop reserved sep (snd p) (idl @ [res])
                  else Inr (idl, st)))
      else Inr (idl, st))"
  by pat_completeness auto
termination
proof (relation "measure (\<lambda>(reserved, sep, st, idl). len st - pn st)", goal_cases)
  case 1
  show ?case by simp
next
  case (2 reserved sep st idl p res)
  then have "identifier_atom reserved (eat_pattern sep st) = Inr (res, snd p)"
    by (cases p) (auto simp: optional_def split: sum.splits error.splits)
  from identifier_atom_forward[OF this] eat_pattern_forward[of st sep] 2(1)
  show ?case by (auto simp: len_def)
qed

declare identifier_list_loop.simps [simp del]

definition identifier_list :: "string list \<Rightarrow> sep_pattern \<Rightarrow> pstate \<Rightarrow> string list presult" where
  "identifier_list reserved sep st =
     (case optional (identifier_atom reserved) st of
        Inl e \<Rightarrow> Inl e
      | Inr (None, st') \<Rightarrow> Inr ([], st')
      | Inr (Some res, st') \<Rightarrow> identifier_list_loop reserved sep st' [res])"

function string_list_loop :: "sep_pattern \<Rightarrow> pstate \<Rightarrow> string list \<Rightarrow> string list presult" where
  "string_list_loop sep st idl =
     (if pn st < len st then
        (case optional string_atom (eat_pattern sep st) of
           Inl e \<Rightarrow> Inl e
         | Inr p \<Rightarrow>
             (case fst p of
                None \<Rightarrow> Inr (idl, st)
              | Some res \<Rightarrow>
                  if res \<noteq> [] then string_list_loop sep (snd p) (idl @ [res])
                  else Inr (idl, st)))
      else Inr (idl, st))"
  by pat_completeness auto
termination
proof (relation "measure (\<lambda>(sep, st, idl). len st - pn st)", goal_cases)
  case 1
  show ?case by simp
next
  case (2 sep st idl p res)
  then have "string_atom (eat_pattern sep st) = Inr (res, snd p)"
    by (cases p) (auto simp: optional_def split: sum.splits error.splits)
  from string_atom_forward[OF this] eat_pattern_forward[of st sep] 2(1)
  show ?case by (auto simp: len_def)
qed

declare string_list_loop.simps [simp del]

definition string_list :: "sep_pattern \<Rightarrow> pstate \<Rightarrow> string list presult" where
  "string_list sep st =
     (case optional string_atom st of
        Inl e \<Rightarrow> Inl e
      | Inr (None, st') \<Rightarrow> Inr ([], st')
      | Inr (Some res, st') \<Rightarrow> string_list_loop sep st' [res])"

subsection \<open>VERSION, NS_, BS_, BU_, VAL_TABLE_\<close>

definition section_body_VERSION :: "pstate \<Rightarrow> 'f dbc_section presult" where
  "section_body_VERSION = pthen ws (pmap Sec_VERSION string_atom)"

text \<open>
  The loop of \<open>NS_\<close> reads identifiers: a known symbol goes into the list, a reserved word ends
  the list with the cursor put back before it, anything else is skipped.  A colon after
  an identifier means that the identifier was the keyword of the next section: the last
  symbol is dropped and the cursor put back to \<open>stored_pos\<close>.
\<close>

function ns_loop ::
  "pstate \<Rightarrow> string list \<Rightarrow> (nat \<times> nat \<times> nat) option \<Rightarrow> string list presult" where
  "ns_loop st lst stored_pos =
     (if pn st < len st then
        if pn (eat_whitespace st) \<ge> len st then Inl IndexError
        else if ptext st ! pn (eat_whitespace st) = CHR '':'' then
          (if lst \<noteq> [] then
             (case stored_pos of
                None \<Rightarrow> Inl (NameError ''stored_pos'')
              | Some pos \<Rightarrow> Inr (butlast lst, setpos pos (eat_whitespace st)))
           else
             Inl (ParseError (pline (eat_whitespace st)) (pcol (eat_whitespace st))
                    ''Expected reserved word, found \":\" at'' []))
        else
          (case identifier_atom [] (eat_whitespace st) of
             Inl e \<Rightarrow> Inl e
           | Inr p \<Rightarrow>
               if fst p \<in> set symnames then
                 ns_loop (snd p) (lst @ [fst p]) (Some (getpos (eat_whitespace st)))
               else if fst p \<in> set Parser_keywords then
                 Inr (lst, setpos (getpos (eat_whitespace st)) (snd p))
               else ns_loop (snd p) lst (Some (getpos (eat_whitespace st))))
      else Inr (lst, st))"
  by pat_completeness auto
termination
proof (relation "measure (\<lambda>(st, lst, stored_pos). len st - pn st)", goal_cases)
  case 1
  show ?case by simp
next
  case (2 st lst stored_pos p)
  then have "identifier_atom [] (eat_whitespace st) = Inr (fst p, snd p)" by simp
  from identifier_atom_forward[OF this] eat_whitespace_forward[of st] 2(1)
  show ?case by (auto simp: len_def)
next
  case (3 st lst stored_pos p)
  then have "identifier_atom [] (eat_whitespace st) = Inr (fst p, snd p)" by simp
  from identifier_atom_forward[OF this] eat_whitespace_forward[of st] 3(1)
  show ?case by (auto simp: len_def)
qed

declare ns_loop.simps [simp del]

definition section_body_NS :: "pstate \<Rightarrow> 'f dbc_section presult" where
  "section_body_NS st0 =
     (let st = eat_whitespace st0 in
      if pn st \<ge> len st then Inl IndexError
      else if ptext st ! pn st \<noteq> CHR '':'' then
        Inl (ParseError (pline st) (pcol st) ''Expected \":\", found \"{}\" at''
               [[ptext st ! pn st]])
      else
        pmap Sec_NS (\<lambda>s. ns_loop s [] None)
          (eat_whitespace (st\<lparr>pn := pn st + 1, pcol := pcol st + 1\<rparr>)))"

definition baudrate_rule :: "pstate \<Rightarrow> (nat \<times> nat \<times> nat) presult" where
  \<comment> \<open>method \<open>baudrate\<close>\<close>
  "baudrate_rule =
     pbind uint (\<lambda>br.
     pthen ws (pthen (charmatch CHR '':'') (pthen ws (
     pbind uint (\<lambda>btr1.
     pthen ws (pthen (charmatch CHR '','') (pthen ws (
     pbind uint (\<lambda>btr2. preturn (br, btr1, btr2))))))))))"

definition section_body_BS :: "pstate \<Rightarrow> 'f dbc_section presult" where
  "section_body_BS =
     pthen ws (pthen (charmatch CHR '':'') (pthen ws (pmap Sec_BS (optional baudrate_rule))))"

definition section_body_BU :: "pstate \<Rightarrow> 'f dbc_section presult" where
  "section_body_BU =
     pthen ws (pthen (charmatch CHR '':'') (pthen ws (
       pmap Sec_BU (any_number_of (identifier_ws keywords_most)))))"

definition value_entry :: "pstate \<Rightarrow> (int \<times> string) presult" where
  "value_entry =
     pthen ws (pbind sint (\<lambda>v. pthen ws (pbind string_atom (\<lambda>t. preturn (v, t)))))"

definition section_body_VAL_TABLE :: "pstate \<Rightarrow> 'f dbc_section presult" where
  "section_body_VAL_TABLE =
     pthen ws (pbind (identifier_atom Parser_keywords) (\<lambda>nm.
     pthen ws (pbind (any_number_of value_entry) (\<lambda>table.
     pthen ws (pthen (charmatch CHR '';'') (preturn (Sec_VAL_TABLE nm table)))))))"

subsection \<open>BO_ and its signals\<close>

definition multiplex_value_rule :: "pstate \<Rightarrow> nat presult" where
  \<comment> \<open>method \<open>multiplex_value\<close>\<close>
  "multiplex_value_rule =
     pthen (charmatch CHR ''m'') (
     pthen ws (
     uint))"

text \<open>
  \<open>multiplex_spec\<close> catches the \<open>ParseError\<close> of \<open>charmatch\<close>, which raises before it
  moves the cursor.
\<close>

definition multiplex_spec :: "pstate \<Rightarrow> (nat option \<times> bool) presult" where
  "multiplex_spec =
     pbind (optional multiplex_value_rule) (\<lambda>mval.
     pthen ws (\<lambda>st.
       case charmatch CHR ''M'' st of
         Inr p \<Rightarrow> Inr ((mval, True), snd p)
       | Inl e \<Rightarrow> (case e of ParseError l c m a \<Rightarrow> Inr ((mval, False), st) | _ \<Rightarrow> Inl e)))"

definition additional_receiver :: "pstate \<Rightarrow> string presult" where
  "additional_receiver =
     pthen ws (
     pthen (charmatch CHR '','') (
     pthen ws (
     identifier_atom keywords_most)))"

definition signal_rule :: "(string \<Rightarrow> 'f) \<Rightarrow> pstate \<Rightarrow> 'f sig_d presult" where
  \<comment> \<open>method \<open>signal\<close>\<close>
  "signal_rule fl =
     pthen ws (
     pthen (strmatch ''SG_'') (
     pthen ws (
     pbind (identifier_atom Parser_keywords) (\<lambda>nm.
     pthen ws (
     pbind multiplex_spec (\<lambda>multi.
     pthen ws (
     pthen (charmatch CHR '':'') (
     pthen ws (
     pbind uint (\<lambda>start0.
     pthen ws (
     pthen (charmatch CHR ''|'') (
     pthen ws (
     pbind uint (\<lambda>size0.
     pthen ws (
     pthen (charmatch CHR ''@'') (
     pthen ws (
     pbind endian (\<lambda>little.
     pthen ws (
     pbind signed (\<lambda>signed_value.
     pthen ws (
     pthen (charmatch CHR ''('') (
     pthen ws (
     pbind (double fl) (\<lambda>factor0.
     pthen ws (
     pthen (charmatch CHR '','') (
     pthen ws (
     pbind (double fl) (\<lambda>offset0.
     pthen ws (
     pthen (charmatch CHR '')'') (
     pthen ws (
     pthen (charmatch CHR ''['') (
     pthen ws (
     pbind (double fl) (\<lambda>minimum.
     pthen ws (
     pthen (charmatch CHR ''|'') (
     pthen ws (
     pbind (double fl) (\<lambda>maximum.
     pthen ws (
     pthen (charmatch CHR '']'') (
     pthen ws (
     pbind string_atom (\<lambda>unit0.
     pthen ws (
     pbind (identifier_atom keywords_most) (\<lambda>receiver0.
     pbind (any_number_of additional_receiver) (\<lambda>more.
     preturn
       \<lparr>sd_name = nm, sd_multiplex_value = fst multi, sd_is_multiplexor = snd multi,
        sd_start = start0, sd_size = size0, sd_little_endian = little,
        sd_signed = signed_value, sd_factor = factor0, sd_offset = offset0,
        sd_range = (minimum, maximum), sd_unit = unit0,
        sd_receivers = (receiver0, more)\<rparr>)))))))))))))))))))))))))))))))))))))))))))))"

definition section_body_BO :: "(string \<Rightarrow> 'f) \<Rightarrow> pstate \<Rightarrow> 'f dbc_section presult" where
  "section_body_BO fl =
     pthen ws (
     pbind uint (\<lambda>message_id.
     pthen ws (
     pbind (identifier_atom keywords_BO) (\<lambda>message_name.
     pthen ws (
     pthen (charmatch CHR '':'') (
     pthen ws (
     pbind uint (\<lambda>size0.
     pthen ws (
     pbind (identifier_atom keywords_most) (\<lambda>transmitter.
     pthen ws (
     pbind (any_number_of (signal_rule fl)) (\<lambda>signals0.
     preturn (Sec_BO \<lparr>md_id = message_id, md_name = message_name, md_size = size0,
                       md_transmitter = transmitter, md_signals = signals0\<rparr>)))))))))))))"

definition section_body_BO_TX_BU :: "pstate \<Rightarrow> 'f dbc_section presult" where
  "section_body_BO_TX_BU =
     pthen ws (
     pbind uint (\<lambda>i.
     pthen ws (
     pthen (charmatch CHR '':'') (
     pthen ws (
     pbind (identifier_list keywords_most Blanks_Commas) (\<lambda>txs.
     pthen ws (
     pthen (charmatch CHR '';'') (
     preturn (Sec_BO_TX_BU i txs)))))))))"

subsection \<open>CM_, SIG_VALTYPE_, SG_MUL_VAL_, VAL_\<close>

definition cm_specifier_BU :: "pstate \<Rightarrow> spec presult" where
  "cm_specifier_BU =
     pthen (strmatch ''BU_'') (
     pthen ws (
     pmap Spec_BU (identifier_atom Parser_keywords)))"

definition cm_specifier_BO :: "pstate \<Rightarrow> spec presult" where
  "cm_specifier_BO =
     pthen (strmatch ''BO_'') (
     pthen ws (
     pmap Spec_BO uint))"

definition cm_specifier_SG :: "pstate \<Rightarrow> spec presult" where
  "cm_specifier_SG =
     pthen (strmatch ''SG_'') (
     pthen ws (
     pbind uint (\<lambda>message_id.
     pthen ws (
     pbind (identifier_atom Parser_keywords) (\<lambda>nm.
     preturn (Spec_SG message_id nm))))))"

definition cm_specifier_EV :: "pstate \<Rightarrow> spec presult" where
  "cm_specifier_EV =
     pthen (strmatch ''EV_'') (
     pthen ws (
     pmap Spec_EV (identifier_atom Parser_keywords)))"

definition section_body_CM :: "pstate \<Rightarrow> 'f dbc_section presult" where
  "section_body_CM =
     pthen ws (
     pbind (one_of [cm_specifier_SG, cm_specifier_BU, cm_specifier_BO, cm_specifier_EV,
                    preturn Spec_Global]) (\<lambda>sp.
     pthen ws (
     pbind string_atom (\<lambda>c.
     pthen ws (
     pthen (charmatch CHR '';'') (
     preturn (Sec_CM sp c)))))))"

definition sig_val_type_spec :: "pstate \<Rightarrow> nat presult" where
  "sig_val_type_spec st =
     (if pn st \<ge> len st then Inl IndexError
      else if ptext st ! pn st \<in> set ''0123'' then
        Inr (digit_val (ptext st ! pn st), st\<lparr>pn := pn st + 1, pcol := pcol st + 1\<rparr>)
      else
        Inl (ParseError (pline st) (pcol st) ''Expected one of \"0123\", found \"{}\" at''
               [[ptext st ! pn st]]))"

definition section_body_SIG_VALTYPE :: "pstate \<Rightarrow> 'f dbc_section presult" where
  "section_body_SIG_VALTYPE =
     pthen ws (
     pbind uint (\<lambda>message_id.
     pthen ws (
     pbind (identifier_atom Parser_keywords) (\<lambda>signal_name.
     pthen ws (
     pthen (charmatch CHR '':'') (
     pthen ws (
     pbind sig_val_type_spec (\<lambda>tn.
     pthen ws (
     pthen (charmatch CHR '';'') (
     preturn (Sec_SIG_VALTYPE message_id signal_name tn)))))))))))"

definition uint_range :: "pstate \<Rightarrow> (nat \<times> nat) presult" where
  "uint_range =
     pbind uint (\<lambda>low.
     pthen ws (
     pthen (charmatch CHR ''-'') (
     pthen ws (
     pbind uint (\<lambda>high.
     preturn (low, high))))))"

definition sep_uint_range :: "sep_pattern \<Rightarrow> pstate \<Rightarrow> (nat \<times> nat) presult" where
  "sep_uint_range sep_char_pattern st = uint_range (eat_pattern sep_char_pattern st)"

definition uint_ranges :: "sep_pattern \<Rightarrow> pstate \<Rightarrow> (nat \<times> nat) list presult" where
  "uint_ranges sep_char_pattern =
     pthen ws (
     pbind uint_range (\<lambda>r.
     pbind (any_number_of (sep_uint_range sep_char_pattern)) (\<lambda>rs.
     preturn (r # rs))))"

definition section_body_SG_MUL_VAL :: "pstate \<Rightarrow> 'f dbc_section presult" where
  "section_body_SG_MUL_VAL =
     pthen ws (
     pbind uint (\<lambda>message_id.
     pthen ws (
     pbind (identifier_atom Parser_keywords) (\<lambda>signal_name.
     pthen ws (
     pbind (identifier_atom Parser_keywords) (\<lambda>multiplexor_name.
     pthen ws (
     pbind (optional (uint_ranges Blanks_Commas)) (\<lambda>ranges.
     pthen ws (
     pthen (charmatch CHR '';'') (
     preturn (Sec_SG_MUL_VAL message_id signal_name multiplexor_name
                (case ranges of None \<Rightarrow> [] | Some rs \<Rightarrow> rs))))))))))))"

definition section_body_VAL :: "pstate \<Rightarrow> 'f dbc_section presult" where
  "section_body_VAL =
     pthen ws (
     pbind uint (\<lambda>message_id.
     pthen ws (
     pbind (identifier_atom Parser_keywords) (\<lambda>sig_name0.
     pthen ws (
     pbind (any_number_of value_entry) (\<lambda>vals.
     pthen ws (
     pthen (charmatch CHR '';'') (
     preturn (Sec_VAL message_id sig_name0 vals)))))))))"

subsection \<open>BA_DEF_, BA_DEF_DEF_, BA_, SIG_GROUP_\<close>

definition ba_int :: "pstate \<Rightarrow> 'f ba_typ presult" where
  "ba_int =
     pthen (strmatch ''INT'') (
     pthen ws (
     pbind sint (\<lambda>val1.
     pthen ws (
     pbind sint (\<lambda>val2.
     preturn (BA_INT val1 val2))))))"

definition ba_hex :: "pstate \<Rightarrow> 'f ba_typ presult" where
  "ba_hex =
     pthen (strmatch ''HEX'') (
     pthen ws (
     pbind sint (\<lambda>val1.
     pthen ws (
     pbind sint (\<lambda>val2.
     preturn (BA_HEX val1 val2))))))"

definition ba_float :: "(string \<Rightarrow> 'f) \<Rightarrow> pstate \<Rightarrow> 'f ba_typ presult" where
  "ba_float fl =
     pthen (strmatch ''FLOAT'') (
     pthen ws (
     pbind (double fl) (\<lambda>val1.
     pthen ws (
     pbind (double fl) (\<lambda>val2.
     preturn (BA_FLOAT val1 val2))))))"

definition ba_string :: "pstate \<Rightarrow> 'f ba_typ presult" where
  "ba_string =
     pthen (strmatch ''STRING'') (
     preturn BA_STRING)"

definition ba_enum :: "pstate \<Rightarrow> 'f ba_typ presult" where
  "ba_enum =
     pthen (strmatch ''ENUM'') (
     pthen ws (
     pmap BA_ENUM (string_list Blanks_Comma_Blanks)))"

definition section_body_BA_DEF :: "(string \<Rightarrow> 'f) \<Rightarrow> pstate \<Rightarrow> 'f dbc_section presult" where
  "section_body_BA_DEF fl =
     pthen ws (
     pbind (one_of [strmatch ''BU_'', strmatch ''BO_'', strmatch ''SG_'', strmatch ''EV_'',
                    preturn []]) (\<lambda>sp.
     pthen ws (
     pthen (charmatch (CHR 0x22)) (
     pbind (identifier_atom Parser_keywords) (\<lambda>nm.
     pthen (charmatch (CHR 0x22)) (
     pthen ws (
     pbind (one_of [ba_float fl, ba_int, ba_hex, ba_string, ba_enum]) (\<lambda>typ.
     pthen ws (
     pthen (strmatch '';'') (
     preturn (Sec_BA_DEF sp nm typ)))))))))))"

text \<open>
  The value of an attribute is what the first rule that matches returns: an \<open>int\<close> from
  \<open>uint\<close> or \<open>sint\<close>, a \<open>float\<close> from \<open>double\<close>, a \<open>str\<close> from \<open>string\<close>.
\<close>

definition section_body_BA_DEF_DEF :: "(string \<Rightarrow> 'f) \<Rightarrow> pstate \<Rightarrow> 'f dbc_section presult" where
  "section_body_BA_DEF_DEF fl =
     pthen ws (
     pthen (charmatch (CHR 0x22)) (
     pbind (identifier_atom Parser_keywords) (\<lambda>nm.
     pthen (charmatch (CHR 0x22)) (
     pthen ws (
     pbind (one_of [pmap (\<lambda>k. LInt (int k)) uint, pmap LInt sint, pmap LFloat (double fl),
                    pmap LStr string_atom]) (\<lambda>val.
     pthen ws (
     pthen (charmatch CHR '';'') (
     preturn (Sec_BA_DEF_DEF nm val)))))))))"

definition desc_BA_BU :: "pstate \<Rightarrow> spec presult" where
  "desc_BA_BU =
     pthen (strmatch ''BU_'') (
     pthen ws (
     pmap Spec_BU (identifier_atom Parser_keywords)))"

definition desc_BA_BO :: "pstate \<Rightarrow> spec presult" where
  "desc_BA_BO =
     pthen (strmatch ''BO_'') (
     pthen ws (
     pmap Spec_BO uint))"

definition desc_BA_SG :: "pstate \<Rightarrow> spec presult" where
  "desc_BA_SG =
     pthen (strmatch ''SG_'') (
     pthen ws (
     pbind uint (\<lambda>message_id.
     pthen ws (
     pbind (identifier_atom Parser_keywords) (\<lambda>nm.
     preturn (Spec_SG message_id nm))))))"

definition desc_BA_EV :: "pstate \<Rightarrow> spec presult" where
  "desc_BA_EV =
     pthen (strmatch ''EV_'') (
     pthen ws (
     pmap Spec_EV (identifier_atom Parser_keywords)))"

definition section_body_BA :: "(string \<Rightarrow> 'f) \<Rightarrow> pstate \<Rightarrow> 'f dbc_section presult" where
  "section_body_BA fl =
     pthen ws (
     pbind string_atom (\<lambda>nm.
     pthen ws (
     pbind (one_of [desc_BA_BU, desc_BA_BO, desc_BA_SG, desc_BA_EV, preturn Spec_Global]) (\<lambda>desc.
     pthen ws (
     pbind (one_of [pmap LFloat (double fl), pmap (\<lambda>k. LInt (int k)) uint, pmap LInt sint,
                    pmap LStr string_atom]) (\<lambda>val.
     pthen ws (
     pthen (charmatch CHR '';'') (
     preturn (Sec_BA nm desc val)))))))))"

definition section_body_SIG_GROUP :: "pstate \<Rightarrow> 'f dbc_section presult" where
  "section_body_SIG_GROUP =
     pthen ws (
     pbind uint (\<lambda>msg_id0.
     pthen ws (
     pbind (identifier_atom Parser_keywords) (\<lambda>nm.
     pthen ws (
     pbind uint (\<lambda>number.
     pthen ws (
     pthen (charmatch CHR '':'') (
     pthen ws (
     pbind (any_number_of (identifier_ws Parser_keywords)) (\<lambda>sgs.
     pthen ws (
     pthen (charmatch CHR '';'') (
     preturn (Sec_SIG_GROUP msg_id0 nm number sgs)))))))))))))"

subsection \<open>Sections and the start rule\<close>

text \<open>
  \<open>section\<close> looks its rule up by name, \<open>getattr(self, "section_body_" + name, None)\<close>:
  the class has a method for fifteen of the nineteen keywords.
\<close>

definition section_bodies ::
  "(string \<Rightarrow> 'f) \<Rightarrow> (string \<times> (pstate \<Rightarrow> 'f dbc_section presult)) list" where
  "section_bodies fl =
     [(''VERSION'', section_body_VERSION), (''NS_'', section_body_NS),
      (''BS_'', section_body_BS), (''BU_'', section_body_BU),
      (''VAL_TABLE_'', section_body_VAL_TABLE), (''BO_'', section_body_BO fl),
      (''BO_TX_BU_'', section_body_BO_TX_BU), (''CM_'', section_body_CM),
      (''SIG_VALTYPE_'', section_body_SIG_VALTYPE),
      (''SG_MUL_VAL_'', section_body_SG_MUL_VAL), (''VAL_'', section_body_VAL),
      (''BA_DEF_'', section_body_BA_DEF fl), (''BA_DEF_DEF_'', section_body_BA_DEF_DEF fl),
      (''BA_'', section_body_BA fl), (''SIG_GROUP_'', section_body_SIG_GROUP)]"

definition section_rule :: "(string \<Rightarrow> 'f) \<Rightarrow> pstate \<Rightarrow> 'f dbc_section presult" where
  \<comment> \<open>method \<open>section\<close>\<close>
  "section_rule fl =
     pbind section_keyword (\<lambda>name st.
       case map_of (section_bodies fl) name of
         None \<Rightarrow>
           Inl (ParseError (pline st) (pcol st)
                  ''Unimplemented section type {} encountered near'' [name])
       | Some rule \<Rightarrow> rule st)"

text \<open>
  The loop of \<open>start\<close>.  Every section rule returns a tuple, never \<open>None\<close>, so each
  result is appended.  A section that returned has moved the cursor past its keyword; one
  that had not would be read again and again, the list growing without bound, which is
  \<open>MemoryError\<close> here.
\<close>

function start_loop ::
  "(string \<Rightarrow> 'f) \<Rightarrow> pstate \<Rightarrow> 'f dbc_section list \<Rightarrow> 'f dbc_section list presult" where
  "start_loop fl st secs =
     (if pn st < len st then
        (case section_rule fl st of
           Inl e \<Rightarrow> Inl e
         | Inr p \<Rightarrow>
             if len (eat_whitespace (snd p)) - pn (eat_whitespace (snd p)) < len st - pn st
             then start_loop fl (eat_whitespace (snd p)) (secs @ [fst p])
             else Inl MemoryError)
      else Inr (secs, st))"
  by pat_completeness auto
termination
  by (relation "measure (\<lambda>(fl, st, secs). len st - pn st)") auto

declare start_loop.simps [simp del]

definition start :: "(string \<Rightarrow> 'f) \<Rightarrow> pstate \<Rightarrow> 'f dbc_section list presult" where
  "start fl st = start_loop fl (eat_whitespace st) []"

definition parse :: "(string \<Rightarrow> 'f) \<Rightarrow> string \<Rightarrow> error + 'f dbc_section list" where
  "parse fl t =
     (case start fl (parser_reset t) of
        Inl e \<Rightarrow> Inl e
      | Inr (val, st) \<Rightarrow> (case assert_at_end st of Inl e \<Rightarrow> Inl e | Inr u \<Rightarrow> Inr val))"

section \<open>The serializer\<close>

text \<open>
  \<open>Switch.dbc_sg_mul_val_strs\<close>: the signals of the switch, one for each name at its first
  entry, and for each name the ranges of all entries of that name, joined by blanks.
\<close>

definition dbc_sg_mul_val_strs ::
  "'f signal list \<Rightarrow> switch \<Rightarrow> sigref list \<times> (string \<times> string) list" where
  "dbc_sg_mul_val_strs store e =
     (let (sgs, d) =
            fold (\<lambda>x (sgs, d).
                    let signame = sig_name (store ! snd x) in
                    case map_of d signame of
                      Some rs \<Rightarrow> (sgs, AList.update signame (rs @ [fst x]) d)
                    | None \<Rightarrow> (sgs @ [snd x], AList.update signame [fst x] d))
              e ([], [])
      in (sgs,
          map (\<lambda>(signame, ranges).
                 (signame,
                  join '' '' (map (\<lambda>r. str_nat (minval r) @ ''-'' @ str_nat (maxval r)) ranges)))
            d))"

text \<open>
  \<open>Signal.dbc_sg_mul_val\<close> calls itself on the signals of the switch.  The signals a
  message stores are finitely many, so a chain of calls longer than their number has
  come back to a signal it started from and goes on until Python gives up with
  \<open>RecursionError\<close>: the first argument counts the calls that are left.  The empty string
  the method returns for a signal that is no multiplexor adds nothing to the caller's
  list, like the empty list.
\<close>

fun Signal_dbc_sg_mul_val :: "nat \<Rightarrow> 'f signal list \<Rightarrow> sigref \<Rightarrow> error + string list" where
  "Signal_dbc_sg_mul_val 0 store r = Inl RecursionError"
| "Signal_dbc_sg_mul_val (Suc k) store r =
     (if \<not> is_multiplexor (store ! r) then Inr []
      else
        let (sgs, d) = dbc_sg_mul_val_strs store (switch (store ! r)) in
        fold (\<lambda>sg acc.
                ebind acc (\<lambda>strings.
                ebind (lookup d (sig_name (store ! sg))) (\<lambda>rstr.
                ebind (Signal_dbc_sg_mul_val k store sg) (\<lambda>sub.
                Inr (strings
                     @ [sig_name (store ! sg) @ '' '' @ sig_name (store ! r) @ '' '' @ rstr]
                     @ sub)))))
          sgs (Inr []))"

definition Message_dbc :: "('f \<Rightarrow> string) \<Rightarrow> 'f message \<Rightarrow> error + string" where
  "Message_dbc fstr m =
     (case transmitters m of
        [] \<Rightarrow> Inl IndexError
      | tx # _ \<Rightarrow>
          Inr (''BO_ '' @ str_nat (msg_id m) @ '' '' @ msg_name m @ '': '' @ str_nat (msg_size m)
               @ '' '' @ tx @ [newline]
               @ concat (map (\<lambda>p. '' '' @ Signal_dbc fstr (sigs m ! snd p)) (signals_dict m))))"

definition Message_dbc_sg_mul_val :: "'f message \<Rightarrow> error + string" where
  "Message_dbc_sg_mul_val m =
     (let multiple_muxes =
            length (filter (\<lambda>p. is_multiplexor (sigs m ! snd p)) (signals_dict m)) > 1;
          multiple_switches =
            list_ex (\<lambda>p. any_multiples (switch (sigs m ! snd p))) (signals_dict m)
      in if multiple_muxes \<or> multiple_switches then
           fold (\<lambda>s acc.
                   ebind acc (\<lambda>sigstr.
                   ebind (Signal_dbc_sg_mul_val (Suc (length (sigs m))) (sigs m) s) (\<lambda>sstrs.
                   Inr (sigstr
                        @ concat (map (\<lambda>sstr. ''SG_MUL_VAL_ '' @ str_nat (msg_id m) @ '' ''
                                               @ sstr @ '';'' @ [newline]) sstrs)))))
             (signals m) (Inr [])
         else Inr [])"

text \<open>
  An attribute value as \<open>str\<close> and \<open>format\<close> show it, a string between quotes; a table of
  value descriptions, sorted by descending value.
\<close>

fun dbc_literal :: "('f \<Rightarrow> string) \<Rightarrow> 'f literal \<Rightarrow> string" where
  "dbc_literal fstr (LInt i) = str_int i"
| "dbc_literal fstr (LFloat x) = fstr x"
| "dbc_literal fstr (LStr s) = [CHR 0x22] @ s @ [CHR 0x22]"

definition dbc_table :: "(int \<times> string) list \<Rightarrow> string" where
  "dbc_table d =
     concat (map (\<lambda>t. '' '' @ str_int (fst t) @ '' '' @ [CHR 0x22] @ snd t @ [CHR 0x22])
               (sort_key (\<lambda>x. - fst x) d))"

fun dbc_typedef :: "('f \<Rightarrow> string) \<Rightarrow> 'f ba_typ \<Rightarrow> string" where
  \<comment> \<open>the name of the type, a blank, and the values\<close>
  "dbc_typedef fstr (BA_INT a b) = ''INT'' @ '' '' @ str_int a @ '' '' @ str_int b"
| "dbc_typedef fstr (BA_HEX a b) = ''HEX'' @ '' '' @ str_int a @ '' '' @ str_int b"
| "dbc_typedef fstr (BA_FLOAT a b) = ''FLOAT'' @ '' '' @ fstr a @ '' '' @ fstr b"
| "dbc_typedef fstr BA_STRING = ''STRING'' @ '' ''"
| "dbc_typedef fstr (BA_ENUM l) =
     ''ENUM'' @ '' '' @ join '', '' (map (\<lambda>s. [CHR 0x22] @ s @ [CHR 0x22]) l)"

definition blank_line_if :: "bool \<Rightarrow> string" where
  \<comment> \<open>\<open>if count: string += "\n"\<close>\<close>
  "blank_line_if c = (if c then [newline] else [])"

definition dbc_comment_lines :: "string \<Rightarrow> string list \<Rightarrow> string" where
  \<comment> \<open>one \<open>CM_\<close> line for each comment, the quotes in it escaped\<close>
  "dbc_comment_lines target cl =
     concat (map (\<lambda>c. ''CM_ '' @ target @ [CHR 0x22] @ escape_quotes c @ [CHR 0x22] @ '';''
                       @ [newline]) cl)"

definition dbc_attribute_lines :: "('f \<Rightarrow> string) \<Rightarrow> string \<Rightarrow> (string \<times> 'f literal) list \<Rightarrow> string" where
  \<comment> \<open>one \<open>BA_\<close> line for each attribute\<close>
  "dbc_attribute_lines fstr target attrs =
     concat (map (\<lambda>(aname, val). ''BA_ '' @ [CHR 0x22] @ aname @ [CHR 0x22] @ '' '' @ target
                                  @ dbc_literal fstr val @ '';'' @ [newline]) attrs)"

definition msg_sigs :: "'f message \<Rightarrow> (string \<times> 'f signal) list" where
  \<comment> \<open>\<open>for signame in msg.signals_dict\<close> with \<open>sig = msg.signals_dict[signame]\<close>\<close>
  "msg_sigs m = map (\<lambda>(signame, r). (signame, sigs m ! r)) (signals_dict m)"

definition Bus_dbc :: "('f \<Rightarrow> string) \<Rightarrow> 'f bus \<Rightarrow> error + string" where
  "Bus_dbc fstr b =
     ebind (for_each (\<lambda>(msgid, msg) string.
                        ebind (Message_dbc fstr msg) (\<lambda>s. Inr (string @ s)))
              (messages b) []) (\<lambda>message_blocks.
     ebind (for_each (\<lambda>(msgid, msg) string.
                        ebind (Message_dbc_sg_mul_val msg) (\<lambda>s. Inr (string @ s)))
              (messages b) []) (\<lambda>sg_mul_val_lines.
     let comment_lines =
           dbc_comment_lines [] (bus_comments b)
           @ concat (map (\<lambda>(node, nd). dbc_comment_lines (''BU_ '' @ node @ '' '')
                                          (node_comments nd)) (nodes b))
           @ concat (map (\<lambda>(msgid, msg).
                       dbc_comment_lines (''BO_ '' @ str_nat msgid @ '' '') (msg_comments msg)
                       @ concat (map (\<lambda>(signame, sg).
                                   dbc_comment_lines
                                     (''SG_ '' @ str_nat msgid @ '' '' @ signame @ '' '')
                                     (sig_comments sg)) (msg_sigs msg)))
                     (messages b));
         typedef_lines =
           concat (map (\<lambda>(ot, d).
                     concat (map (\<lambda>(attrname, tdef).
                               (if ot \<noteq> [] then ''BA_DEF_ '' @ ot @ '' '' else ''BA_DEF_ '')
                               @ [CHR 0x22] @ attrname @ [CHR 0x22] @ '' ''
                               @ dbc_typedef fstr tdef @ '';'' @ [newline]) d))
                   (attrib_typedefs b));
         default_lines =
           concat (map (\<lambda>(a, val). ''BA_DEF_DEF_ '' @ [CHR 0x22] @ a @ [CHR 0x22] @ '' ''
                                    @ dbc_literal fstr val @ '';'' @ [newline])
                   (attrib_defaults b));
         attribute_lines =
           dbc_attribute_lines fstr [] (bus_attributes b)
           @ concat (map (\<lambda>(node, nd). dbc_attribute_lines fstr (''BU_ '' @ node @ '' '')
                                          (node_attributes nd)) (nodes b))
           @ concat (map (\<lambda>(msgid, msg).
                       dbc_attribute_lines fstr (''BO_ '' @ str_nat msgid @ '' '')
                         (msg_attributes msg)
                       @ concat (map (\<lambda>(signame, sg).
                                   dbc_attribute_lines fstr
                                     (''SG_ '' @ str_nat msgid @ '' '' @ signame @ '' '')
                                     (sig_attributes sg)) (msg_sigs msg)))
                     (messages b));
         val_lines =
           concat (map (\<lambda>(msgid, msg).
                     concat (map (\<lambda>(signame, sg).
                               if value_descriptions sg \<noteq> [] then
                                 ''VAL_ '' @ str_nat msgid @ '' '' @ signame
                                 @ dbc_table (value_descriptions sg) @ '' ;'' @ [newline]
                               else []) (msg_sigs msg)))
                   (messages b));
         group_lines =
           concat (map (\<lambda>(msgid, msg).
                     concat (map (\<lambda>(gname, g).
                               ''SIG_GROUP_ '' @ str_nat msgid @ '' '' @ gname @ '' ''
                               @ SignalGroup_dbc g @ [newline]) (signal_groups msg)))
                   (messages b))
     in Inr
       (''VERSION '' @ [CHR 0x22] @ version b @ [CHR 0x22] @ [newline, newline]
        @ ''NS_ :'' @ [newline]
        @ concat (map (\<lambda>s. ''    '' @ s @ [newline]) (newsymbols b))
        @ [newline]
        @ ''BS_:''
        @ (case (baudrate b, btr b) of
             (Some br, Some (btr1, btr2)) \<Rightarrow>
               if br \<noteq> 0 then
                 '' '' @ str_nat br @ '': '' @ str_nat btr1 @ '', '' @ str_nat btr2
               else []
           | _ \<Rightarrow> [])
        @ [newline, newline]
        @ ''BU_:''
        @ concat (map (\<lambda>(node, nd). '' '' @ node) (nodes b))
        @ [newline, newline]
        @ concat (map (\<lambda>(tab, d). ''VAL_TABLE_ '' @ tab @ dbc_table d @ '' ;'' @ [newline])
                   (global_values b))
        @ blank_line_if (global_values b \<noteq> [])
        @ message_blocks
        @ blank_line_if (messages b \<noteq> [])
        @ concat (map (\<lambda>(msgid, msg).
                    if length (transmitters msg) > 1 then
                      ''BO_TX_BU_ '' @ str_nat msgid @ '':''
                      @ concat (map (\<lambda>tx. '' '' @ tx) (transmitters msg)) @ '' ;'' @ [newline]
                    else []) (messages b))
        @ blank_line_if (list_ex (\<lambda>(msgid, msg). length (transmitters msg) > 1) (messages b))
        @ comment_lines
        @ blank_line_if (comment_lines \<noteq> [])
        @ typedef_lines
        @ blank_line_if (typedef_lines \<noteq> [])
        @ default_lines
        @ blank_line_if (default_lines \<noteq> [])
        @ attribute_lines
        @ blank_line_if (attribute_lines \<noteq> [])
        @ val_lines
        @ blank_line_if (val_lines \<noteq> [])
        @ group_lines
        @ blank_line_if (group_lines \<noteq> [])
        @ sg_mul_val_lines)))"

section \<open>The round trip of a text with baudrate 0\<close>

text \<open>
  A text with the four mandatory sections and the baudrate 0, the text that the serializer
  returns for its Bus, and the two Buses: the one built from the first text and the one
  built from the second.
\<close>

definition zero_baudrate_text :: string where
  "zero_baudrate_text =
     ''VERSION \"\"'' @ [newline] @ ''NS_ :'' @ [newline] @ ''BS_: 0: 1, 1'' @ [newline]
     @ ''BU_: '' @ [newline]"

definition zero_baudrate_serialized :: string where
  "zero_baudrate_serialized =
     ''VERSION \"\"'' @ [newline, newline] @ ''NS_ :'' @ [newline, newline]
     @ ''BS_:'' @ [newline, newline] @ ''BU_:'' @ [newline, newline]"

definition zero_baudrate_bus :: "'f bus" where
  "zero_baudrate_bus =
     empty_bus\<lparr>baudrate := Some 0, btr := Some (1, 1), attrib_typedefs := typedefs_init\<rparr>"

definition no_baudrate_bus :: "'f bus" where
  "no_baudrate_bus = empty_bus\<lparr>attrib_typedefs := typedefs_init\<rparr>"

lemmas parser_defs =
  parse_def start_def parser_reset_def newline_def
  start_loop.simps eat_whitespace.simps len_def whitespace_def section_rule_def
  section_keyword_def sections_def rest_def pbind_def pthen_def preturn_def ws_def pmap_def
  section_bodies_def section_body_VERSION_def section_body_NS_def section_body_BS_def
  section_body_BU_def string_atom_def string_loop.simps ns_loop.simps identifier_atom_def
  idchar_def isidentifier_def is_digit_def symnames_def Parser_keywords_def keywords_most_def
  getpos_def setpos_def charmatch_def optional_def baudrate_rule_def uint_def
  int_of_digits_def digit_val_def any_number_of.simps identifier_ws_def assert_at_end_def
  Let_def

lemma parse_zero_baudrate_text:
  "parse fl zero_baudrate_text
     = Inr [Sec_VERSION [], Sec_NS [], Sec_BS (Some (0, 1, 1)), Sec_BU []]"
  by (simp add: zero_baudrate_text_def parser_defs)

lemma parse_zero_baudrate_serialized:
  "parse fl zero_baudrate_serialized = Inr [Sec_VERSION [], Sec_NS [], Sec_BS None, Sec_BU []]"
  by (simp add: zero_baudrate_serialized_def parser_defs)

lemma Bus_init_zero_baudrate:
  "Bus_init [Sec_VERSION [], Sec_NS [], Sec_BS (Some (0, 1, 1)), Sec_BU []]
     = Inr zero_baudrate_bus"
  by (simp add: builder_defs zero_baudrate_bus_def)

lemma Bus_init_no_baudrate:
  "Bus_init [Sec_VERSION [], Sec_NS [], Sec_BS None, Sec_BU []] = Inr no_baudrate_bus"
  by (simp add: builder_defs no_baudrate_bus_def)

lemma Bus_dbc_zero_baudrate: "Bus_dbc fstr zero_baudrate_bus = Inr zero_baudrate_serialized"
  by (simp add: Bus_dbc_def zero_baudrate_bus_def empty_bus_def typedefs_init_def ebind_def
        blank_line_if_def dbc_comment_lines_def dbc_attribute_lines_def
        zero_baudrate_serialized_def newline_def)

lemma Bus_diff_zero_baudrate:
  "Bus_diff fstr feq ieq zero_baudrate_bus no_baudrate_bus
     = Inr (''baudrate:'' @ [newline] @ '' < 0'' @ [newline] @ '' > None'' @ [newline])"
  by (simp add: Bus_diff_def zero_baudrate_bus_def no_baudrate_bus_def empty_bus_def
        otherwise_def report_if_def str_opt_nat_def str_nat.simps newline_def)

text \<open>
  C1, as stated, fails in the code.  The text \<open>zero_baudrate_text\<close> is accepted by the
  parser and the constructor; its Bus has the baudrate 0 and the bit timing (1, 1).  The
  serializer tests \<open>if self.baudrate and self.btr\<close>, which is false for the baudrate 0, and
  writes an empty \<open>BS_:\<close> section.  The serialized text is accepted again, but the Bus
  built from it has no baudrate, and the diff of the two Buses is not the empty string:
  it reports the baudrate.
\<close>

theorem C1_round_trip_drops_zero_baudrate:
  fixes fl :: "string \<Rightarrow> 'f" and fstr :: "'f \<Rightarrow> string"
  shows "parse fl zero_baudrate_text
           = Inr [Sec_VERSION [], Sec_NS [], Sec_BS (Some (0, 1, 1)), Sec_BU []]
   \<and> Bus_init [Sec_VERSION [], Sec_NS [], Sec_BS (Some (0, 1, 1)), Sec_BU []]
       = Inr (zero_baudrate_bus :: 'f bus)
   \<and> baudrate (zero_baudrate_bus :: 'f bus) = Some 0
   \<and> Bus_dbc fstr zero_baudrate_bus = Inr zero_baudrate_serialized
   \<and> parse fl zero_baudrate_serialized
       = Inr [Sec_VERSION [], Sec_NS [], Sec_BS None, Sec_BU []]
   \<and> Bus_init [Sec_VERSION [], Sec_NS [], Sec_BS None, Sec_BU []]
       = Inr (no_baudrate_bus :: 'f bus)
   \<and> baudrate (no_baudrate_bus :: 'f bus) = None
   \<and> Bus_diff fstr feq ieq zero_baudrate_bus no_baudrate_bus
       = Inr (''baudrate:'' @ [newline] @ '' < 0'' @ [newline] @ '' > None'' @ [newline])"
proof (intro conjI)
  show "baudrate (zero_baudrate_bus :: 'f bus) = Some 0"
    by (simp add: zero_baudrate_bus_def)
  show "baudrate (no_baudrate_bus :: 'f bus) = None"
    by (simp add: no_baudrate_bus_def empty_bus_def)
qed (rule parse_zero_baudrate_text Bus_init_zero_baudrate Bus_dbc_zero_baudrate
       parse_zero_baudrate_serialized Bus_init_no_baudrate Bus_diff_zero_baudrate)+

theorem C1_round_trip_drops_zero_baudrate_witness:
  "parse (\<lambda>s. ()) zero_baudrate_text
     = Inr [Sec_VERSION [], Sec_NS [], Sec_BS (Some (0, 1, 1)), Sec_BU []]
   \<and> Bus_init [Sec_VERSION [], Sec_NS [], Sec_BS (Some (0, 1, 1)), Sec_BU []]
       = Inr (zero_baudrate_bus :: unit bus)
   \<and> Bus_dbc (\<lambda>x :: unit. ''0.0'') zero_baudrate_bus = Inr zero_baudrate_serialized
   \<and> parse (\<lambda>s. ()) zero_baudrate_serialized
       = Inr [Sec_VERSION [], Sec_NS [], Sec_BS None, Sec_BU []]
   \<and> Bus_init [Sec_VERSION [], Sec_NS [], Sec_BS None, Sec_BU []]
       = Inr (no_baudrate_bus :: unit bus)
   \<and> Bus_diff (\<lambda>x :: unit. ''0.0'') (=) (\<lambda>i x. False) zero_baudrate_bus no_baudrate_bus
       \<noteq> Inr []"
  using C1_round_trip_drops_zero_baudrate
          [where fl = "\<lambda>s. ()" and fstr = "\<lambda>x :: unit. ''0.0''" and feq = "(=)"
             and ieq = "\<lambda>i x. False"]
  by simp

end
